theory Spec2Isabelle
  imports Main "HOL-Library.Word" "HOL-Library.AList"
begin

section \<open>JavaScript strings\<close>

text \<open>
  A JavaScript string is a sequence of UTF-16 code units. File contents are the strings
  that \<^verbatim>\<open>fs.readFileSync(path, 'utf8')\<close> returns and \<^verbatim>\<open>fs.writeFileSync\<close> receives;
  the UTF-8 codec between them and the bytes on disk is outside the model.
\<close>

type_synonym jsstring = "16 word list"

text \<open>An ASCII literal as a JavaScript string.\<close>

definition str :: "string \<Rightarrow> jsstring" where
  "str s = map (\<lambda>c. of_char c) s"

text \<open>
  \<^verbatim>\<open>String.prototype.trim\<close> removes the code units of ECMAScript's WhiteSpace and
  LineTerminator productions from both ends.
\<close>

definition is_ws :: "16 word \<Rightarrow> bool" where
  "is_ws c =
     (c \<in> {0x9, 0xA, 0xB, 0xC, 0xD, 0x20, 0xA0, 0x1680, 0x2028, 0x2029, 0x202F, 0x205F,
            0x3000, 0xFEFF}
      \<or> (0x2000 \<le> c \<and> c \<le> 0x200A))"

definition trim :: "jsstring \<Rightarrow> jsstring" where
  "trim s = rev (dropWhile is_ws (rev (dropWhile is_ws s)))"

text \<open>
  \<^verbatim>\<open>text.split(/\r?\n/)\<close>: the separator is a line feed, together with the carriage
  return right before it when there is one. The empty string splits into one empty line.
\<close>

fun split_lines :: "jsstring \<Rightarrow> jsstring list" where
  "split_lines [] = [[]]"
| "split_lines (c # cs) =
     (if c = 0xA then [] # split_lines cs
      else if c = 0xD \<and> take 1 cs = [0xA] then [] # split_lines (drop 1 cs)
      else (case split_lines cs of l # ls \<Rightarrow> (c # l) # ls | [] \<Rightarrow> [[c]]))"

text \<open>\<^verbatim>\<open>lines.join('\n')\<close>.\<close>

fun join_lines :: "jsstring list \<Rightarrow> jsstring" where
  "join_lines [] = []"
| "join_lines [l] = l"
| "join_lines (l # ls) = l @ [0xA] @ join_lines ls"

section \<open>Plain objects with string values\<close>

text \<open>
  The objects of \<^verbatim>\<open>solutionInstall.js\<close> that hold environment variables are object
  literals: their own properties are string-valued and are kept here in creation order,
  and every one of them inherits from \<^verbatim>\<open>Object.prototype\<close>. The operator \<^verbatim>\<open>in\<close>
  and a property read both look through the prototype; \<^verbatim>\<open>Object.keys\<close>,
  \<^verbatim>\<open>Object.entries\<close> and the spread \<^verbatim>\<open>{...o}\<close> see own properties only.
\<close>

type_synonym obj = "(jsstring \<times> jsstring) list"

text \<open>The property names of \<^verbatim>\<open>Object.prototype\<close> in Node.js.\<close>

definition object_prototype_keys :: "jsstring list" where
  "object_prototype_keys = map str
     [''constructor'', ''__defineGetter__'', ''__defineSetter__'', ''hasOwnProperty'',
      ''__lookupGetter__'', ''__lookupSetter__'', ''isPrototypeOf'',
      ''propertyIsEnumerable'', ''toString'', ''valueOf'', ''__proto__'',
      ''toLocaleString'']"

text \<open>
  What a property read \<^verbatim>\<open>o[key]\<close> gives: an own string, a function or object inherited
  from the prototype, or \<^verbatim>\<open>undefined\<close>.
\<close>

datatype jsval = Undefined | Str jsstring | Inherited

definition has_property :: "obj \<Rightarrow> jsstring \<Rightarrow> bool" where
  \<comment> \<open>\<^verbatim>\<open>key in o\<close>\<close>
  "has_property o' key = (key \<in> fst ` set o' \<or> key \<in> set object_prototype_keys)"

definition get_prop :: "obj \<Rightarrow> jsstring \<Rightarrow> jsval" where
  \<comment> \<open>\<^verbatim>\<open>o[key]\<close>\<close>
  "get_prop o' key =
     (case map_of o' key of
        Some v \<Rightarrow> Str v
      | None \<Rightarrow> if key \<in> set object_prototype_keys then Inherited else Undefined)"

definition set_prop :: "obj \<Rightarrow> jsstring \<Rightarrow> jsstring \<Rightarrow> obj" where
  \<comment> \<open>\<^verbatim>\<open>o[key] = value\<close>: an existing own property keeps its place, a new one goes last;
      assigning a string to \<^verbatim>\<open>__proto__\<close> runs the inherited setter, which ignores it\<close>
  "set_prop o' key v =
     (if key = str ''__proto__'' \<and> key \<notin> fst ` set o' then o' else AList.update key v o')"

text \<open>
  The order of own properties (\<^verbatim>\<open>Object.keys\<close>, \<^verbatim>\<open>Object.entries\<close>, spread): array
  indices (canonical decimal strings below \<open>2^32 - 1\<close>) in ascending numeric order, then
  the other names in creation order.
\<close>

definition is_digit :: "16 word \<Rightarrow> bool" where
  "is_digit c = (0x30 \<le> c \<and> c \<le> 0x39)"

definition digits_value :: "jsstring \<Rightarrow> int" where
  "digits_value s = foldl (\<lambda>n c. 10 * n + (uint c - 48)) 0 s"

definition is_array_index :: "jsstring \<Rightarrow> bool" where
  "is_array_index s =
     (s \<noteq> [] \<and> list_all is_digit s \<and> (length s = 1 \<or> take 1 s \<noteq> [0x30])
      \<and> digits_value s < 4294967295)"

definition own_entries :: "obj \<Rightarrow> (jsstring \<times> jsstring) list" where
  "own_entries o' =
     sort_key (\<lambda>kv. digits_value (fst kv)) (filter (\<lambda>kv. is_array_index (fst kv)) o')
     @ filter (\<lambda>kv. \<not> is_array_index (fst kv)) o'"

definition own_keys :: "obj \<Rightarrow> jsstring list" where
  "own_keys o' = map fst (own_entries o')"

section \<open>Parsing an environment file\<close>

text \<open>
  The filter of \<^verbatim>\<open>parseEnvFile\<close>:
  \<^verbatim>\<open>line && !line.startsWith('#') && line.includes('=')\<close>.
\<close>

definition env_line :: "jsstring \<Rightarrow> bool" where
  "env_line line = (line \<noteq> [] \<and> take 1 line \<noteq> [0x23] \<and> 0x3D \<in> set line)"

text \<open>
  The key and the value of a line that holds an equals sign:
  \<^verbatim>\<open>line.substring(0, idx).trim()\<close> and \<^verbatim>\<open>line.substring(idx + 1).trim()\<close> for
  \<^verbatim>\<open>idx = line.indexOf('=')\<close>.
\<close>

definition line_key :: "jsstring \<Rightarrow> jsstring" where
  "line_key line = trim (takeWhile (\<lambda>c. c \<noteq> 0x3D) line)"

definition line_value :: "jsstring \<Rightarrow> jsstring" where
  "line_value line = trim (drop 1 (dropWhile (\<lambda>c. c \<noteq> 0x3D) line))"

text \<open>
  The callback of \<^verbatim>\<open>reduce\<close>:
  \<^verbatim>\<open>if (!(key in acc) || (acc[key] === '' && value !== '')) acc[key] = value\<close>.
\<close>

definition parse_step :: "obj \<Rightarrow> jsstring \<Rightarrow> obj" where
  "parse_step acc line =
     (let key = line_key line; v = line_value line
      in if \<not> has_property acc key \<or> (get_prop acc key = Str [] \<and> v \<noteq> [])
         then set_prop acc key v else acc)"

text \<open>The body of \<^verbatim>\<open>parseEnvFile\<close> on the text of an existing file.\<close>

definition env_lines :: "jsstring \<Rightarrow> jsstring list" where
  "env_lines text = filter env_line (map trim (split_lines text))"

definition parse_text :: "jsstring \<Rightarrow> obj" where
  "parse_text text = foldl parse_step [] (env_lines text)"

section \<open>Paths\<close>

text \<open>
  A path is a string. The service builds each of its paths from absolute, normalised
  parts: it starts with a slash, and no component of it is empty or one of \<^verbatim>\<open>.\<close> and
  \<^verbatim>\<open>..\<close>. Such a path names one place of the file system, and two of them name the
  same place only when they are the same string.
\<close>

type_synonym path = jsstring

text \<open>\<^verbatim>\<open>path.join(dir, name)\<close> on a normalised directory and a plain name.\<close>

definition path_join :: "path \<Rightarrow> jsstring \<Rightarrow> path" where
  "path_join dir name = dir @ [0x2F] @ name"

text \<open>A path that lies below a directory, at any depth.\<close>

definition under :: "path \<Rightarrow> path \<Rightarrow> bool" where
  "under dir p = (length dir + 1 < length p \<and> take (length dir + 1) p = dir @ [0x2F])"

text \<open>
  The last component of a path and the path of the directory that holds it. The
  directory of a path right below the root is the empty path here.
\<close>

definition basename :: "path \<Rightarrow> jsstring" where
  "basename p = rev (takeWhile (\<lambda>c. c \<noteq> 0x2F) (rev p))"

definition dirname :: "path \<Rightarrow> path" where
  "dirname p = rev (drop 1 (dropWhile (\<lambda>c. c \<noteq> 0x2F) (rev p)))"

section \<open>Commands and errors\<close>

datatype command =
    RmRf path
  | GitClone jsstring jsstring path
  | DockerRmForce jsstring
  | StopPublishing jsstring
  | FindCopyEnv path jsstring
  | Cp path path
  | DockerBuild jsstring path
  | DockerRun jsstring jsstring jsstring jsstring
  | RmForce path
  | ComposeVersion
  | ComposePluginVersion
  | InstallComposeTool
  | ComposeUp path

datatype error =
    SolutionTypeRequired
  | UnknownSolutionType jsstring
  | UnsupportedInstallType jsstring
  | NoDockerConfiguration
  | CommandFailed command
  | SpawnFailed command
  | TypeError
  | FileSystemError path

section \<open>The file store\<close>

text \<open>
  The file system of the host: every path that exists, with the text of a regular file or
  the mark of a directory. The root directory, the empty path, always exists. Symbolic
  links and access rights are outside the model: a file that exists can be read and
  written. \<open>FileSystemError p\<close> is the system error that a call of \<^verbatim>\<open>fs\<close> throws for the
  path \<open>p\<close> (\<^verbatim>\<open>ENOENT\<close>, \<^verbatim>\<open>ENOTDIR\<close> or \<^verbatim>\<open>EISDIR\<close>, which the service does not
  tell apart).
\<close>

datatype node = File jsstring | Directory

type_synonym files = "(path \<times> node) list"

text \<open>Whether a path is a directory, and whether it is a regular file.\<close>

definition is_directory :: "files \<Rightarrow> path \<Rightarrow> bool" where
  "is_directory fs p = (p = [] \<or> map_of fs p = Some Directory)"

definition is_file :: "files \<Rightarrow> path \<Rightarrow> bool" where
  "is_file fs p = (case map_of fs p of Some (File text) \<Rightarrow> True | _ \<Rightarrow> False)"

text \<open>\<^verbatim>\<open>fs.existsSync(p)\<close>: true for a regular file and for a directory.\<close>

definition existsSync :: "files \<Rightarrow> path \<Rightarrow> bool" where
  "existsSync fs p = (map_of fs p \<noteq> None)"

text \<open>\<^verbatim>\<open>fs.readFileSync(p, 'utf8')\<close>: throws for a path that is missing or a directory.\<close>

definition readFileSync :: "files \<Rightarrow> path \<Rightarrow> error + jsstring" where
  "readFileSync fs p =
     (case map_of fs p of Some (File text) \<Rightarrow> Inr text | _ \<Rightarrow> Inl (FileSystemError p))"

text \<open>
  \<^verbatim>\<open>fs.writeFileSync(p, text)\<close> creates or replaces the regular file \<open>p\<close>; it throws
  when \<open>p\<close> is a directory and when the directory that is to hold \<open>p\<close> does not exist.
\<close>

definition writeFileSync :: "files \<Rightarrow> path \<Rightarrow> jsstring \<Rightarrow> error + files" where
  "writeFileSync fs p text =
     (if map_of fs p = Some Directory \<or> \<not> is_directory fs (dirname p)
      then Inl (FileSystemError p)
      else Inr (AList.update p (File text) fs))"

text \<open>
  \<^verbatim>\<open>fs.renameSync(src, dst)\<close>. A rename of a path onto itself changes nothing. A regular
  file replaces a regular file at \<open>dst\<close> and cannot replace a directory; a directory moves
  with everything below it, onto nothing or onto an empty directory, and not into itself.
\<close>

definition renameSync :: "files \<Rightarrow> path \<Rightarrow> path \<Rightarrow> error + files" where
  "renameSync fs src dst =
     (case map_of fs src of
        None \<Rightarrow> Inl (FileSystemError src)
      | Some (File text) \<Rightarrow>
          if src = dst then Inr fs
          else if map_of fs dst = Some Directory \<or> \<not> is_directory fs (dirname dst)
          then Inl (FileSystemError dst)
          else Inr (AList.update dst (File text) (AList.delete src fs))
      | Some Directory \<Rightarrow>
          if src = dst then Inr fs
          else if under src dst \<or> is_file fs dst \<or>
                  list_ex (\<lambda>kv. under dst (fst kv)) fs \<or> \<not> is_directory fs (dirname dst)
          then Inl (FileSystemError dst)
          else Inr (map (\<lambda>kv. if fst kv = src \<or> under src (fst kv)
                               then (dst @ drop (length src) (fst kv), snd kv) else kv)
                      (AList.delete dst fs)))"

text \<open>
  The inner function \<^verbatim>\<open>parseEnvFile(filePath)\<close> of \<^verbatim>\<open>mergeEnvironmentFiles\<close>: the empty
  object for a path that does not exist, and otherwise the object parsed from what
  \<^verbatim>\<open>readFileSync\<close> returns.
\<close>

definition parseEnvFile :: "files \<Rightarrow> path \<Rightarrow> error + obj" where
  "parseEnvFile fs filePath =
     (if \<not> existsSync fs filePath then Inr []
      else (case readFileSync fs filePath of
              Inl e \<Rightarrow> Inl e
            | Inr text \<Rightarrow> Inr (parse_text text)))"

section \<open>Merging two environment files\<close>

text \<open>
  The test \<^verbatim>\<open>v && v.trim() !== ''\<close>. An inherited function or object is truthy and has
  no \<^verbatim>\<open>trim\<close> method, so calling it throws a TypeError.
\<close>

fun nonblank :: "jsval \<Rightarrow> error + bool" where
  "nonblank Undefined = Inr False"
| "nonblank (Str s) = Inr (s \<noteq> [] \<and> trim s \<noteq> [])"
| "nonblank Inherited = Inl TypeError"

text \<open>\<^verbatim>\<open>localVal || rootVal || ''\<close> on values that are strings or undefined.\<close>

fun or_string :: "jsval \<Rightarrow> jsstring \<Rightarrow> jsstring" where
  "or_string (Str s) d = (if s \<noteq> [] then s else d)"
| "or_string v d = d"

text \<open>
  The value that the callback of \<^verbatim>\<open>Object.keys(localVars).forEach\<close> assigns to
  \<^verbatim>\<open>mergedVars[key]\<close>, from \<^verbatim>\<open>localVars[key]\<close> and \<^verbatim>\<open>rootVars[key]\<close>.
\<close>

definition merged_value :: "jsval \<Rightarrow> jsval \<Rightarrow> error + jsstring" where
  "merged_value localVal rootVal =
     (case nonblank localVal of
        Inl e \<Rightarrow> Inl e
      | Inr local_wins \<Rightarrow>
          if local_wins then Inr (or_string localVal [])
          else (case nonblank rootVal of
                  Inl e \<Rightarrow> Inl e
                | Inr root_wins \<Rightarrow>
                    if root_wins then Inr (or_string rootVal [])
                    else Inr (or_string localVal (or_string rootVal []))))"

fun merge_keys :: "obj \<Rightarrow> obj \<Rightarrow> jsstring list \<Rightarrow> obj \<Rightarrow> error + obj" where
  "merge_keys rootVars localVars [] mergedVars = Inr mergedVars"
| "merge_keys rootVars localVars (key # keys) mergedVars =
     (case merged_value (get_prop localVars key) (get_prop rootVars key) of
        Inl e \<Rightarrow> Inl e
      | Inr v \<Rightarrow> merge_keys rootVars localVars keys (set_prop mergedVars key v))"

text \<open>
  \<^verbatim>\<open>const mergedVars = { ...rootVars }\<close> followed by the loop over
  \<^verbatim>\<open>Object.keys(localVars)\<close>.
\<close>

definition merge_vars :: "obj \<Rightarrow> obj \<Rightarrow> error + obj" where
  "merge_vars rootVars localVars =
     merge_keys rootVars localVars (own_keys localVars) (own_entries rootVars)"

text \<open>
  \<^verbatim>\<open>Object.entries(mergedVars).map(([key, value]) => `${key}=${value}`).join('\n')\<close>.
\<close>

definition envContent :: "obj \<Rightarrow> jsstring" where
  "envContent mergedVars = join_lines (map (\<lambda>kv. fst kv @ [0x3D] @ snd kv) (own_entries mergedVars))"

text \<open>
  \<^verbatim>\<open>mergeEnvironmentFiles(rootEnvPath, localEnvPath, outputPath)\<close> on a file store: the
  merged variables, or the error that the \<^verbatim>\<open>catch\<close> block throws again, and the store
  that the call leaves behind (with the scratch file, when the rename has failed).
\<close>

definition mergeEnvironmentFiles :: "files \<Rightarrow> path \<Rightarrow> path \<Rightarrow> path \<Rightarrow> (error + obj) \<times> files" where
  "mergeEnvironmentFiles fs rootEnvPath localEnvPath outputPath =
     (case parseEnvFile fs rootEnvPath of
        Inl e \<Rightarrow> (Inl e, fs)
      | Inr rootVars \<Rightarrow>
     (case parseEnvFile fs localEnvPath of
        Inl e \<Rightarrow> (Inl e, fs)
      | Inr localVars \<Rightarrow>
     (case merge_vars rootVars localVars of
        Inl e \<Rightarrow> (Inl e, fs)
      | Inr mergedVars \<Rightarrow>
     (let tempFile = outputPath @ str ''.temp''
      in case writeFileSync fs tempFile (envContent mergedVars) of
           Inl e \<Rightarrow> (Inl e, fs)
         | Inr fs1 \<Rightarrow>
        (case renameSync fs1 tempFile outputPath of
           Inl e \<Rightarrow> (Inl e, fs1)
         | Inr fs2 \<Rightarrow> (Inr mergedVars, fs2))))))"

section \<open>Solution configurations\<close>

text \<open>
  An entry of \<^verbatim>\<open>SOLUTION_CONFIGS\<close>. A field that an entry does not define reads as
  \<^verbatim>\<open>undefined\<close>.
\<close>

record solution_config =
  repoUrl :: "jsstring option"
  repoName :: "jsstring option"
  imageName :: "jsstring option"
  containerName :: "jsstring option"
  port :: "jsstring option"
  branchName :: "jsstring option"
  installType :: "jsstring option"
  envFile :: "jsstring option"
  additionalPorts :: "jsstring list option"

text \<open>The catalog of \<^verbatim>\<open>config/solutionconfig.js\<close>, with its own properties in order.\<close>

definition SOLUTION_CONFIGS :: "(jsstring \<times> solution_config) list" where
  "SOLUTION_CONFIGS =
     [(str ''ai-doc-editor'',
       \<lparr>repoUrl = Some (str ''https://github.com/devweam-ai/ai-doc-editor.git''),
        repoName = Some (str ''ai-doc-editor''),
        imageName = Some (str ''ai-doc-editor-img''),
        containerName = Some (str ''ai-doc-editor-container''),
        port = Some (str ''3002''),
        branchName = Some (str ''main''),
        installType = Some (str ''docker-compose''),
        envFile = Some (str ''env.example''),
        additionalPorts = None\<rparr>),
      (str ''ai-recruiter'',
       \<lparr>repoUrl = Some (str ''https://github.com/devweam-ai/foloup.git''),
        repoName = Some (str ''foloup''),
        imageName = Some (str ''foloup-img''),
        containerName = Some (str ''foloup-container''),
        port = Some (str ''4000''),
        branchName = Some (str ''main''),
        installType = Some (str ''docker-compose''),
        envFile = Some (str ''.env.example''),
        additionalPorts = Some []\<rparr>),
      (str ''ai-landing-page-generator'',
       \<lparr>repoUrl = Some (str ''https://github.com/devweam-ai/landing-page-content-generator.git''),
        repoName = Some (str ''landing-page-content-generator''),
        imageName = Some (str ''landing-page-content-generator-img''),
        containerName = Some (str ''landing-page-content-generator-container''),
        port = Some (str ''4001''),
        branchName = Some (str ''devops''),
        installType = Some (str ''docker-compose''),
        envFile = Some (str ''example.env''),
        additionalPorts = Some []\<rparr>),
      (str ''seo-content-gen'',
       \<lparr>repoUrl = Some (str ''https://github.com/devweam-ai/seo-content-gen.git''),
        repoName = Some (str ''seo-content-gen''),
        imageName = Some (str ''seo-content-gen-img''),
        containerName = Some (str ''seo-content-gen-container''),
        port = Some (str ''3001''),
        branchName = Some (str ''devops''),
        installType = Some (str ''docker-compose''),
        envFile = Some (str ''.env.example''),
        additionalPorts = Some [str ''3001'', str ''9002'', str ''3003'']\<rparr>)]"

text \<open>
  What \<^verbatim>\<open>SOLUTION_CONFIGS[solutionType]\<close> reads for a name that the catalog does not
  define but \<^verbatim>\<open>Object.prototype\<close> does: a function or an object, which is truthy and on
  which each of the configuration fields reads as \<^verbatim>\<open>undefined\<close>.
\<close>

definition inherited_config :: solution_config where
  "inherited_config =
     \<lparr>repoUrl = None, repoName = None, imageName = None, containerName = None, port = None,
      branchName = None, installType = None, envFile = None, additionalPorts = None\<rparr>"

definition lookup_config :: "(jsstring \<times> solution_config) list \<Rightarrow> jsstring \<Rightarrow> solution_config option" where
  \<comment> \<open>\<^verbatim>\<open>catalog[solutionType]\<close>, \<open>None\<close> for \<^verbatim>\<open>undefined\<close>\<close>
  "lookup_config catalog solutionType =
     (case map_of catalog solutionType of
        Some config \<Rightarrow> Some config
      | None \<Rightarrow> if solutionType \<in> set object_prototype_keys then Some inherited_config else None)"

text \<open>A field inside a template literal: \<^verbatim>\<open>`${config.field}`\<close>.\<close>

fun interpolate :: "jsstring option \<Rightarrow> jsstring" where
  "interpolate None = str ''undefined''"
| "interpolate (Some s) = s"

text \<open>The test \<^verbatim>\<open>if (config.envFile)\<close> on a string field.\<close>

fun truthy :: "jsstring option \<Rightarrow> bool" where
  "truthy None = False"
| "truthy (Some s) = (s \<noteq> [])"

section \<open>The host: commands, their outcome and their effect on files\<close>

text \<open>
  Every command line that \<^verbatim>\<open>solutionInstall.js\<close> passes to \<^verbatim>\<open>runCommand\<close> is one
  constructor of \<open>command\<close>, with the interpolated strings as arguments:
  \<^item> \<open>RmRf p\<close>: \<^verbatim>\<open>rm -rf ${p}\<close>
  \<^item> \<open>GitClone b u p\<close>: \<^verbatim>\<open>git clone -b ${b} ${u} ${p}\<close>
  \<^item> \<open>DockerRmForce n\<close>: \<^verbatim>\<open>docker rm -f ${n} || true\<close>
  \<^item> \<open>StopPublishing q\<close>: \<^verbatim>\<open>docker ps -q --filter "publish=${q}" | xargs -r docker stop || true\<close>
  \<^item> \<open>FindCopyEnv p n\<close>:
    \<^verbatim>\<open>find ${p} -name "${n}" -exec sh -c 'cp "$1" "$(dirname "$1")/.env"' _ {} \;\<close>
  \<^item> \<open>Cp a b\<close>: \<^verbatim>\<open>cp ${a} ${b}\<close>
  \<^item> \<open>DockerBuild i p\<close>: \<^verbatim>\<open>docker build -t ${i} ${p}\<close>
  \<^item> \<open>DockerRun c n q i\<close>: \<^verbatim>\<open>docker run -d --name ${c} --network ${n} -p ${q}:${q} ${i}\<close>
  \<^item> \<open>RmForce p\<close>: \<^verbatim>\<open>rm -f ${p}\<close>
  \<^item> \<open>ComposeVersion\<close>: \<^verbatim>\<open>docker-compose --version\<close>
  \<^item> \<open>ComposePluginVersion\<close>: \<^verbatim>\<open>docker compose version\<close>
  \<^item> \<open>InstallComposeTool\<close>: the \<^verbatim>\<open>wget ... && chmod +x ...\<close> line of \<^verbatim>\<open>installDockerCompose\<close>
  \<^item> \<open>ComposeUp p\<close>: \<^verbatim>\<open>cd ${p} && docker-compose up -d --build\<close>

  The arguments are taken as single shell words: the paths and names of the catalog hold
  no blank and no shell metacharacter.
\<close>

text \<open>
  How the child process ends: the \<^verbatim>\<open>close\<close> event with an exit code, the \<^verbatim>\<open>close\<close> event
  with code \<^verbatim>\<open>null\<close> after a signal, or the \<^verbatim>\<open>error\<close> event when it could not be spawned.
\<close>

datatype exit = Exit nat | Signal | SpawnError

text \<open>
  What an attempt has done so far: the commands it has run and the merges it has called,
  oldest first.
\<close>

datatype action = Run command | Merge path path path

text \<open>
  The host decides how each command ends, from the command and from everything done
  before it, and what a repository holds at a branch: its files and its directories,
  each under its path relative to the clone directory.
\<close>

record host =
  outcome :: "action list \<Rightarrow> command \<Rightarrow> exit"
  repository :: "jsstring \<Rightarrow> jsstring \<Rightarrow> files"

record world =
  files :: files
  trace :: "action list"

text \<open>
  What \<^verbatim>\<open>cp src dst\<close> does to the files: a regular file is copied onto \<open>dst\<close>, or into
  \<open>dst\<close> under its own name when \<open>dst\<close> is a directory. Nothing is copied when \<open>src\<close> is
  missing or a directory (\<^verbatim>\<open>cp\<close> without \<^verbatim>\<open>-r\<close>), when the place to write is a
  directory, and when the directory that is to hold it does not exist.
\<close>

definition copy_file :: "files \<Rightarrow> path \<Rightarrow> path \<Rightarrow> files" where
  "copy_file fs src dst =
     (case map_of fs src of
        Some (File text) \<Rightarrow>
          (let target = (if map_of fs dst = Some Directory then path_join dst (basename src) else dst)
           in if map_of fs target = Some Directory \<or> \<not> is_directory fs (dirname target)
              then fs else AList.update target (File text) fs)
      | _ \<Rightarrow> fs)"

text \<open>
  The effect of \<open>FindCopyEnv dir name\<close>: \<^verbatim>\<open>find\<close> visits \<open>dir\<close> and everything below it,
  and for each path whose last component is \<open>name\<close> it runs \<^verbatim>\<open>cp\<close> of that path to
  \<^verbatim>\<open>.env\<close> in the same directory, one after the other. The name is compared literally
  (it holds no glob character); a \<^verbatim>\<open>cp\<close> that fails does not change how \<^verbatim>\<open>find\<close> ends.
\<close>

definition find_copy_env :: "path \<Rightarrow> jsstring \<Rightarrow> files \<Rightarrow> files" where
  "find_copy_env dir name fs =
     foldl (\<lambda>acc p. copy_file acc p (path_join (dirname p) (str ''.env''))) fs
       (filter (\<lambda>p. (p = dir \<or> under dir p) \<and> basename p = name) (map fst fs))"

text \<open>
  The effect on the files of a command that exits with code 0. \<^verbatim>\<open>rm -rf\<close> removes the
  path and everything below it; \<^verbatim>\<open>git clone\<close> creates the clone directory and in it
  the entries of the repository; \<^verbatim>\<open>rm -f\<close> removes a regular file. The docker commands
  and the probes leave the files of the store as they are.
\<close>

fun effect :: "host \<Rightarrow> command \<Rightarrow> files \<Rightarrow> files" where
  "effect h (RmRf p) fs = filter (\<lambda>kv. fst kv \<noteq> p \<and> \<not> under p (fst kv)) fs"
| "effect h (GitClone branch url p) fs =
     foldl (\<lambda>acc kv. AList.update (path_join p (fst kv)) (snd kv) acc)
       (AList.update p Directory fs) (repository h url branch)"
| "effect h (FindCopyEnv dir name) fs = find_copy_env dir name fs"
| "effect h (Cp src dst) fs = copy_file fs src dst"
| "effect h (RmForce p) fs =
     (case map_of fs p of Some (File text) \<Rightarrow> AList.delete p fs | _ \<Rightarrow> fs)"
| "effect h c fs = fs"

section \<open>Asynchronous functions as state transformers with errors\<close>

text \<open>
  An \<^verbatim>\<open>async\<close> function of the service runs on the world and either returns a value or
  rejects with an error; the world it leaves behind is returned in both cases.
\<close>

type_synonym 'a prog = "world \<Rightarrow> (error + 'a) \<times> world"

definition succeed :: "'a \<Rightarrow> 'a prog" where
  "succeed x = (\<lambda>w. (Inr x, w))"

definition throw :: "error \<Rightarrow> 'a prog" where
  "throw e = (\<lambda>w. (Inl e, w))"

definition and_then :: "'a prog \<Rightarrow> ('a \<Rightarrow> 'b prog) \<Rightarrow> 'b prog" where
  "and_then m f = (\<lambda>w. case m w of (Inl e, w') \<Rightarrow> (Inl e, w') | (Inr x, w') \<Rightarrow> f x w')"

definition try_catch :: "'a prog \<Rightarrow> (error \<Rightarrow> 'a prog) \<Rightarrow> 'a prog" where
  "try_catch m handler = (\<lambda>w. case m w of (Inl e, w') \<Rightarrow> handler e w' | (Inr x, w') \<Rightarrow> (Inr x, w'))"

text \<open>A sequence of awaited statements.\<close>

fun steps :: "unit prog list \<Rightarrow> unit prog" where
  "steps [] = succeed ()"
| "steps (m # ms) = and_then m (\<lambda>_. steps ms)"

text \<open>
  \<^verbatim>\<open>runCommand(command)\<close>: resolves when the exit code is 0, rejects with
  \<^verbatim>\<open>Command failed: ${command}\<close> on any other code, and with the spawn error when the
  process could not start.
\<close>

definition runCommand :: "host \<Rightarrow> command \<Rightarrow> unit prog" where
  "runCommand h c = (\<lambda>w.
     let w1 = w\<lparr>trace := trace w @ [Run c]\<rparr>
     in case outcome h (trace w) c of
          Exit code \<Rightarrow>
            if code = 0 then (Inr (), w1\<lparr>files := effect h c (files w)\<rparr>)
            else (Inl (CommandFailed c), w1)
        | Signal \<Rightarrow> (Inl (CommandFailed c), w1)
        | SpawnError \<Rightarrow> (Inl (SpawnFailed c), w1))"

text \<open>\<^verbatim>\<open>await mergeEnvironmentFiles(rootEnvPath, localEnvPath, outputPath)\<close>, the result dropped.\<close>

definition merge_files :: "path \<Rightarrow> path \<Rightarrow> path \<Rightarrow> unit prog" where
  "merge_files rootEnvPath localEnvPath outputPath = (\<lambda>w.
     let w1 = w\<lparr>trace := trace w @ [Merge rootEnvPath localEnvPath outputPath]\<rparr>
     in case mergeEnvironmentFiles (files w) rootEnvPath localEnvPath outputPath of
          (Inl e, fs') \<Rightarrow> (Inl e, w1\<lparr>files := fs'\<rparr>)
        | (Inr mergedVars, fs') \<Rightarrow> (Inr (), w1\<lparr>files := fs'\<rparr>))"

section \<open>The installation service\<close>

definition isDockerComposeAvailable :: "host \<Rightarrow> bool prog" where
  "isDockerComposeAvailable h =
     try_catch (and_then (runCommand h ComposeVersion) (\<lambda>_. succeed True))
       (\<lambda>_. try_catch (and_then (runCommand h ComposePluginVersion) (\<lambda>_. succeed True))
               (\<lambda>_. succeed False))"

definition installDockerCompose :: "host \<Rightarrow> unit prog" where
  "installDockerCompose h = try_catch (runCommand h InstallComposeTool) (\<lambda>_. succeed ())"

record repo_structure =
  hasDockerCompose :: bool
  hasDockerfile :: bool
  composeFile :: "jsstring option"

definition composeFiles :: "jsstring list" where
  "composeFiles = map str [''docker-compose.yml'', ''docker-compose.yaml'', ''compose.yml'', ''compose.yaml'']"

text \<open>
  \<^verbatim>\<open>detectRepoStructure(repoPath)\<close>: the loop stops at the first name of \<open>composeFiles\<close>
  that exists in \<open>repoPath\<close>.
\<close>

definition detectRepoStructure :: "files \<Rightarrow> path \<Rightarrow> repo_structure" where
  "detectRepoStructure fs repoPath =
     (let found = find (\<lambda>file. existsSync fs (path_join repoPath file)) composeFiles
      in \<lparr>hasDockerCompose = (found \<noteq> None),
          hasDockerfile = existsSync fs (path_join repoPath (str ''Dockerfile'')),
          composeFile = found\<rparr>)"

text \<open>
  \<^verbatim>\<open>cleanupExistingContainers(config)\<close>: the \<^verbatim>\<open>catch\<close> block logs and swallows the first
  rejection. An empty \<^verbatim>\<open>additionalPorts\<close> array is truthy and loops over nothing.
\<close>

definition cleanupExistingContainers :: "host \<Rightarrow> solution_config \<Rightarrow> unit prog" where
  "cleanupExistingContainers h config =
     try_catch
       (steps
          [runCommand h (DockerRmForce (interpolate (containerName config))),
           (case additionalPorts config of
              None \<Rightarrow> succeed ()
            | Some ports \<Rightarrow> steps (map (\<lambda>port. runCommand h (StopPublishing port)) ports))])
       (\<lambda>_. succeed ())"

definition installDockerService :: "host \<Rightarrow> solution_config \<Rightarrow> path \<Rightarrow> unit prog" where
  "installDockerService h config repoPath =
     (let rootEnvPath = str ''/workspace/.env'';
          localEnvPath = repoPath @ str ''/.env'';
          tempEnvPath = repoPath @ str ''/.env.temp''
      in steps
           [if truthy (envFile config)
            then runCommand h (FindCopyEnv repoPath (interpolate (envFile config)))
            else succeed (),
            merge_files rootEnvPath localEnvPath tempEnvPath,
            runCommand h (Cp tempEnvPath localEnvPath),
            runCommand h (DockerBuild (interpolate (imageName config)) repoPath),
            runCommand h (DockerRun (interpolate (containerName config)) (str ''weam_app-network'')
                            (interpolate (port config)) (interpolate (imageName config))),
            runCommand h (FindCopyEnv repoPath (interpolate (envFile config))),
            runCommand h (RmForce tempEnvPath)])"

definition installDockerComposeService :: "host \<Rightarrow> solution_config \<Rightarrow> path \<Rightarrow> unit prog" where
  "installDockerComposeService h config repoPath =
     (let rootEnvPath = str ''/workspace/.env'';
          localEnvPath = repoPath @ str ''/.env'';
          tempEnvPath = repoPath @ str ''/.env.temp''
      in steps
           [if truthy (envFile config)
            then runCommand h (FindCopyEnv repoPath (interpolate (envFile config)))
            else runCommand h (FindCopyEnv repoPath (str ''.env.example'')),
            merge_files rootEnvPath localEnvPath tempEnvPath,
            (\<lambda>w. let repoStructure = detectRepoStructure (files w) repoPath
                 in (if hasDockerCompose repoStructure
                     then steps
                            [and_then (isDockerComposeAvailable h)
                               (\<lambda>isComposeAvailable.
                                  if \<not> isComposeAvailable then installDockerCompose h
                                  else succeed ()),
                             runCommand h (Cp tempEnvPath localEnvPath),
                             runCommand h (ComposeUp repoPath),
                             runCommand h (RmForce tempEnvPath)]
                     else if hasDockerfile repoStructure
                     then installDockerService h config repoPath
                     else throw NoDockerConfiguration) w)])"

text \<open>
  \<^verbatim>\<open>installWithProgress(req, res)\<close> for \<^verbatim>\<open>req.body.solutionType\<close>, on a catalog. The
  \<^verbatim>\<open>catch\<close> block logs the error (\<^verbatim>\<open>console.error\<close>, and \<^verbatim>\<open>handleError\<close> of
  \<^verbatim>\<open>utils/helper\<close>, a logger that is given no access to the response) and throws it
  again. The function never writes to \<^verbatim>\<open>res\<close>; it returns the port and the solution
  type.
\<close>

definition installWithProgress ::
  "(jsstring \<times> solution_config) list \<Rightarrow> host \<Rightarrow> jsstring \<Rightarrow> (jsstring option \<times> jsstring) prog" where
  "installWithProgress catalog h solutionType =
     (if solutionType = [] then throw SolutionTypeRequired
      else case lookup_config catalog solutionType of
        None \<Rightarrow> throw (UnknownSolutionType solutionType)
      | Some config \<Rightarrow>
          (let repoPath = str ''/workspace/'' @ interpolate (repoName config)
           in and_then
                (steps
                   [runCommand h (RmRf repoPath),
                    runCommand h (GitClone (interpolate (branchName config))
                                    (interpolate (repoUrl config)) repoPath),
                    cleanupExistingContainers h config,
                    if installType config = Some (str ''docker'')
                    then installDockerService h config repoPath
                    else if installType config = Some (str ''docker-compose'')
                    then installDockerComposeService h config repoPath
                    else throw (UnsupportedInstallType (interpolate (installType config)))])
                (\<lambda>_. succeed (port config, solutionType))))"

section \<open>The progress channel\<close>

text \<open>
  An event on the channel is a JSON object with a \<^verbatim>\<open>type\<close> and a \<^verbatim>\<open>message\<close>. The
  message of an \<^verbatim>\<open>error\<close> event is that of the error caught.
\<close>

datatype message = ConnectedMessage | ErrorMessage error

datatype event = Event (event_type: jsstring) (event_message: message)

record channel =
  events :: "event list"
  closed :: bool

text \<open>
  \<^verbatim>\<open>getInstallationProgress(req, res)\<close> for a query parameter \<^verbatim>\<open>solutionType\<close> that is a
  string (\<open>None\<close> when the query has none): what was written to the response, whether
  \<^verbatim>\<open>res.end()\<close> was called, and the world afterwards.
\<close>

definition getInstallationProgress ::
  "(jsstring \<times> solution_config) list \<Rightarrow> host \<Rightarrow> jsstring option \<Rightarrow> world \<Rightarrow> channel \<times> world" where
  "getInstallationProgress catalog h query w =
     (let connected = Event (str ''connected'') ConnectedMessage;
          solutionType = (case query of None \<Rightarrow> [] | Some s \<Rightarrow> s)
      in if solutionType = []
         then (\<lparr>events = [connected, Event (str ''error'') (ErrorMessage SolutionTypeRequired)],
                closed = True\<rparr>, w)
         else (case installWithProgress catalog h solutionType w of
                 (Inr result, w') \<Rightarrow> (\<lparr>events = [connected], closed = True\<rparr>, w')
               | (Inl e, w') \<Rightarrow>
                   (\<lparr>events = [connected, Event (str ''error'') (ErrorMessage e)],
                     closed = True\<rparr>, w')))"

section \<open>Auxiliary notions for the statements\<close>

definition parsed_object :: "obj \<Rightarrow> bool" where
  "parsed_object o' = (distinct (map fst o') \<and> (\<forall>kv \<in> set o'. fst kv \<notin> set object_prototype_keys \<and> trim (snd kv) = snd kv))"

definition line_values :: "jsstring \<Rightarrow> jsstring list \<Rightarrow> jsstring list" where
  "line_values k ls = map line_value (filter (\<lambda>l. line_key l = k) ls)"

definition first_nonempty :: "jsstring list \<Rightarrow> jsstring" where
  "first_nonempty vs = (case filter (\<lambda>v. v \<noteq> []) vs of [] \<Rightarrow> [] | v # _ \<Rightarrow> v)"

definition merged_lookup :: "obj \<Rightarrow> obj \<Rightarrow> jsstring \<Rightarrow> jsstring" where
  "merged_lookup rootVars localVars k =
     (case map_of localVars k of
        Some lv \<Rightarrow> if lv \<noteq> [] then lv else (case map_of rootVars k of Some rv \<Rightarrow> rv | None \<Rightarrow> [])
      | None \<Rightarrow> [])"

text \<open>The store and the two paths of the merge scenario: a root file and a solution-local file.\<close>

definition example_files :: files where
  "example_files =
     [(str ''/workspace'', Directory),
      (str ''/workspace/.env'', File (str ''A=1'' @ [0xA] @ str ''B='')),
      (str ''/workspace/app'', Directory),
      (str ''/workspace/app/.env'', File (str ''B=2'' @ [0xA] @ str ''C=''))]"

text \<open>What was done between two worlds of one attempt.\<close>

definition new_actions :: "world \<Rightarrow> world \<Rightarrow> action list" where
  "new_actions w w' = drop (length (trace w)) (trace w')"

text \<open>The commands that only the single-container path runs, and those of the composed path.\<close>

fun is_build_or_run :: "action \<Rightarrow> bool" where
  "is_build_or_run (Run (DockerBuild i p)) = True"
| "is_build_or_run (Run (DockerRun c n q i)) = True"
| "is_build_or_run a = False"

fun is_compose_action :: "action \<Rightarrow> bool" where
  "is_compose_action (Run ComposeVersion) = True"
| "is_compose_action (Run ComposePluginVersion) = True"
| "is_compose_action (Run InstallComposeTool) = True"
| "is_compose_action (Run (ComposeUp p)) = True"
| "is_compose_action a = False"

fun is_merge :: "action \<Rightarrow> bool" where
  "is_merge (Merge r l out) = True"
| "is_merge a = False"

text \<open>The error with which \<^verbatim>\<open>runCommand\<close> rejects, from the way the process ended.\<close>

fun command_error :: "exit \<Rightarrow> command \<Rightarrow> error" where
  "command_error SpawnError c = SpawnFailed c"
| "command_error ex c = CommandFailed c"

text \<open>The store after \<^verbatim>\<open>mergeEnvironmentFiles\<close>.\<close>

definition merged_files :: "files \<Rightarrow> path \<Rightarrow> path \<Rightarrow> path \<Rightarrow> files" where
  "merged_files fs rootEnvPath localEnvPath outputPath =
     snd (mergeEnvironmentFiles fs rootEnvPath localEnvPath outputPath)"

text \<open>
  When \<^verbatim>\<open>mergeEnvironmentFiles\<close> can return: no input path is a directory, the directory
  of the output exists, and neither the output nor its scratch path is a directory.
\<close>

definition can_merge :: "files \<Rightarrow> path \<Rightarrow> path \<Rightarrow> path \<Rightarrow> bool" where
  "can_merge fs rootEnvPath localEnvPath outputPath =
     (map_of fs rootEnvPath \<noteq> Some Directory \<and> map_of fs localEnvPath \<noteq> Some Directory \<and>
      is_directory fs (dirname outputPath) \<and> map_of fs outputPath \<noteq> Some Directory \<and>
      map_of fs (outputPath @ str ''.temp'') \<noteq> Some Directory)"

text \<open>The names that structure detection looks for in the repository root.\<close>

definition descriptor_names :: "jsstring list" where
  "descriptor_names = composeFiles @ [str ''Dockerfile'']"

text \<open>
  The template name of the first command of \<^verbatim>\<open>installDockerComposeService\<close>: the
  configured one, or \<^verbatim>\<open>.env.example\<close> when none is configured.
\<close>

definition template_name :: "solution_config \<Rightarrow> jsstring" where
  "template_name config =
     (if truthy (envFile config) then interpolate (envFile config) else str ''.env.example'')"

section \<open>Hosts and worlds of the scenarios\<close>

text \<open>A host on which every command exits with code 0.\<close>

definition cooperative_host :: "files \<Rightarrow> host" where
  "cooperative_host tree = \<lparr>outcome = (\<lambda>t c. Exit 0), repository = (\<lambda>url branch. tree)\<rparr>"

text \<open>
  A host without the composition tool: the two probes fail, the download of the tool
  fails, and \<^verbatim>\<open>docker-compose up\<close> ends with "command not found".
\<close>

fun no_compose_outcome :: "action list \<Rightarrow> command \<Rightarrow> exit" where
  "no_compose_outcome t ComposeVersion = Exit 127"
| "no_compose_outcome t ComposePluginVersion = Exit 1"
| "no_compose_outcome t InstallComposeTool = Exit 8"
| "no_compose_outcome t (ComposeUp p) = Exit 127"
| "no_compose_outcome t c = Exit 0"

definition host_without_compose :: "files \<Rightarrow> host" where
  "host_without_compose tree = \<lparr>outcome = no_compose_outcome, repository = (\<lambda>url branch. tree)\<rparr>"

text \<open>A host on which \<^verbatim>\<open>git clone\<close> fails.\<close>

fun clone_fails_outcome :: "action list \<Rightarrow> command \<Rightarrow> exit" where
  "clone_fails_outcome t (GitClone b u p) = Exit 128"
| "clone_fails_outcome t c = Exit 0"

definition host_clone_fails :: host where
  "host_clone_fails = \<lparr>outcome = clone_fails_outcome, repository = (\<lambda>url branch. [])\<rparr>"

text \<open>The configuration of the catalog entry \<^verbatim>\<open>ai-recruiter\<close> and its clone directory.\<close>

definition recruiter_config :: solution_config where
  "recruiter_config =
     \<lparr>repoUrl = Some (str ''https://github.com/devweam-ai/foloup.git''),
      repoName = Some (str ''foloup''),
      imageName = Some (str ''foloup-img''),
      containerName = Some (str ''foloup-container''),
      port = Some (str ''4000''),
      branchName = Some (str ''main''),
      installType = Some (str ''docker-compose''),
      envFile = Some (str ''.env.example''),
      additionalPorts = Some []\<rparr>"

definition recruiter_path :: path where
  "recruiter_path = str ''/workspace/foloup''"

text \<open>
  Worlds after the clone: a root environment file, and a repository with a Dockerfile
  and no template; with a Dockerfile and a template; with a compose descriptor, a
  Dockerfile and a template.
\<close>

definition world_without_template :: world where
  "world_without_template =
     \<lparr>files = [(str ''/workspace'', Directory),
               (str ''/workspace/.env'', File (str ''SECRET=1'')),
               (str ''/workspace/foloup'', Directory),
               (str ''/workspace/foloup/Dockerfile'', File (str ''FROM node''))],
      trace = []\<rparr>"

definition world_with_template :: world where
  "world_with_template =
     \<lparr>files = [(str ''/workspace'', Directory),
               (str ''/workspace/.env'', File (str ''SECRET=1'')),
               (str ''/workspace/foloup'', Directory),
               (str ''/workspace/foloup/Dockerfile'', File (str ''FROM node'')),
               (str ''/workspace/foloup/.env.example'', File (str ''SECRET=''))],
      trace = []\<rparr>"

definition world_with_compose :: world where
  "world_with_compose =
     \<lparr>files = [(str ''/workspace'', Directory),
               (str ''/workspace/.env'', File (str ''SECRET=1'')),
               (str ''/workspace/foloup'', Directory),
               (str ''/workspace/foloup/docker-compose.yml'', File (str ''services:'')),
               (str ''/workspace/foloup/Dockerfile'', File (str ''FROM node'')),
               (str ''/workspace/foloup/.env.example'', File (str ''SECRET=''))],
      trace = []\<rparr>"

text \<open>
  Repository trees: one with a compose descriptor and a Dockerfile, one with a Dockerfile
  only, one with a Dockerfile and a directory that bears the name of a compose
  descriptor. The world before an attempt holds the root environment file.
\<close>

definition compose_tree :: files where
  "compose_tree =
     [(str ''docker-compose.yml'', File (str ''services:'')),
      (str ''Dockerfile'', File (str ''FROM node'')),
      (str ''.env.example'', File (str ''SECRET=''))]"

definition dockerfile_tree :: files where
  "dockerfile_tree =
     [(str ''Dockerfile'', File (str ''FROM node'')),
      (str ''.env.example'', File (str ''SECRET=''))]"

definition directory_tree :: files where
  "directory_tree =
     [(str ''compose.yml'', Directory),
      (str ''compose.yml/base.yml'', File (str ''services:'')),
      (str ''Dockerfile'', File (str ''FROM node''))]"

definition initial_world :: world where
  "initial_world =
     \<lparr>files = [(str ''/workspace'', Directory), (str ''/workspace/.env'', File (str ''SECRET=1''))],
      trace = []\<rparr>"

section \<open>The health probe\<close>

text \<open>\<^verbatim>\<open>s.split(sep)\<close> for a separator of one code unit.\<close>

fun split_on :: "16 word \<Rightarrow> jsstring \<Rightarrow> jsstring list" where
  "split_on sep [] = [[]]"
| "split_on sep (c # cs) =
     (if c = sep then [] # split_on sep cs
      else (case split_on sep cs of l # ls \<Rightarrow> (c # l) # ls | [] \<Rightarrow> [[c]]))"

text \<open>\<^verbatim>\<open>s.includes(sub)\<close>.\<close>

fun str_includes :: "jsstring \<Rightarrow> jsstring \<Rightarrow> bool" where
  "str_includes [] sub = (sub = [])"
| "str_includes (c # cs) sub = (take (length sub) (c # cs) = sub \<or> str_includes cs sub)"

text \<open>
  The callback of \<^verbatim>\<open>containerLines.find\<close>: \<^verbatim>\<open>const [name, status] = line.split(' ', 2)\<close>
  and the test on both. When the name matches and the line has no second field,
  \<^verbatim>\<open>status\<close> is \<^verbatim>\<open>undefined\<close> and \<^verbatim>\<open>status.includes\<close> throws a TypeError.
\<close>

definition container_matches :: "jsstring \<Rightarrow> jsstring \<Rightarrow> error + bool" where
  "container_matches solutionType line =
     (case take 2 (split_on 0x20 line) of
        [] \<Rightarrow> Inl TypeError
      | name # rest \<Rightarrow>
          if str_includes name solutionType \<or> str_includes name (str ''foloup'') \<or>
             str_includes name (str ''ai-doc'') \<or> str_includes name (str ''landing-page'')
          then (case rest of
                  [] \<Rightarrow> Inl TypeError
                | status # _ \<Rightarrow> Inr (str_includes status (str ''Up'')))
          else Inr False)"

fun find_container :: "jsstring \<Rightarrow> jsstring list \<Rightarrow> error + jsstring option" where
  "find_container solutionType [] = Inr None"
| "find_container solutionType (line # lines) =
     (case container_matches solutionType line of
        Inl e \<Rightarrow> Inl e
      | Inr found \<Rightarrow> if found then Inr (Some line) else find_container solutionType lines)"

text \<open>
  \<^verbatim>\<open>stdout.trim().split('\n').filter(line => line.trim())\<close> on the output of
  \<^verbatim>\<open>docker ps --format "{{.Names}} {{.Status}}"\<close>.
\<close>

definition container_lines :: "jsstring \<Rightarrow> jsstring list" where
  "container_lines stdout = filter (\<lambda>line. trim line \<noteq> []) (split_on 0xA (trim stdout))"

text \<open>
  What the probe answers: the error event for a missing identifier, one of the JSON
  responses, or the exception that escapes from the callback of \<^verbatim>\<open>exec\<close>.
\<close>

datatype health =
    RequiredEvent
  | Installing
  | DockerNotAvailable
  | Running jsstring
  | NotRunning
  | Uncaught error

text \<open>
  \<^verbatim>\<open>checkInstallationHealth(req, res)\<close> for \<^verbatim>\<open>req.query.solutionType\<close>, the output of
  \<^verbatim>\<open>ps aux | grep -E "(docker-compose|docker build)" | grep -v grep\<close>, and the error flag
  and the output of the container listing. The error of the first \<^verbatim>\<open>exec\<close> is not
  looked at by the callback.
\<close>

definition checkInstallationHealth :: "jsstring option \<Rightarrow> jsstring \<Rightarrow> bool \<Rightarrow> jsstring \<Rightarrow> health" where
  "checkInstallationHealth query psStdout dockerError dockerStdout =
     (let solutionType = (case query of None \<Rightarrow> [] | Some s \<Rightarrow> s)
      in if solutionType = [] then RequiredEvent
         else if trim psStdout \<noteq> [] then Installing
         else if dockerError then DockerNotAvailable
         else (case find_container solutionType (container_lines dockerStdout) of
                 Inl e \<Rightarrow> Uncaught e
               | Inr None \<Rightarrow> NotRunning
               | Inr (Some solutionContainer) \<Rightarrow> Running solutionContainer))"

text \<open>The two fields that the probe reads from a line of the container listing.\<close>

definition line_name :: "jsstring \<Rightarrow> jsstring" where
  "line_name line = (case split_on 0x20 line of [] \<Rightarrow> [] | name # rest \<Rightarrow> name)"

definition line_status :: "jsstring \<Rightarrow> jsstring option" where
  "line_status line = (case split_on 0x20 line of name # status # rest \<Rightarrow> Some status | _ \<Rightarrow> None)"

definition name_matches :: "jsstring \<Rightarrow> jsstring \<Rightarrow> bool" where
  "name_matches solutionType name =
     (str_includes name solutionType \<or> str_includes name (str ''foloup'') \<or>
      str_includes name (str ''ai-doc'') \<or> str_includes name (str ''landing-page''))"


section \<open>Strings and objects\<close>

lemma dropWhile_id_hd: "xs \<noteq> [] \<Longrightarrow> \<not> P (hd xs) \<Longrightarrow> dropWhile P xs = xs"
  by (cases xs) auto

lemma trim_Nil: "trim [] = []" by (simp add: trim_def)

lemma trim_trim: "trim (trim s) = trim s"
proof -
  define a where "a = dropWhile is_ws s"
  define b where "b = dropWhile is_ws (rev a)"
  have t: "trim s = rev b" by (simp add: trim_def a_def b_def)
  show ?thesis
  proof (cases "b = []")
    case True
    then show ?thesis unfolding t by (simp add: trim_Nil)
  next
    case False
    have hb: "\<not> is_ws (hd b)" using False unfolding b_def by (simp add: hd_dropWhile)
    have "rev a \<noteq> []" using False unfolding b_def by auto
    then have an: "a \<noteq> []" by simp
    have ha: "\<not> is_ws (hd a)" using an unfolding a_def by (simp add: hd_dropWhile)
    obtain pre where pre: "rev a = pre @ b"
      unfolding b_def by (metis takeWhile_dropWhile_id)
    have "last b = last (rev a)" using False pre by simp
    also have "\<dots> = hd a" using an by (simp add: last_rev)
    finally have lb: "\<not> is_ws (last b)" using ha by simp
    have "hd (rev b) = last b" using False by (simp add: hd_rev)
    then have 1: "dropWhile is_ws (rev b) = rev b"
      using lb False by (intro dropWhile_id_hd) auto
    have 2: "dropWhile is_ws b = b" using hb False by (intro dropWhile_id_hd) auto
    show ?thesis unfolding t by (simp add: trim_def 1 2)
  qed
qed

lemma proto_in: "str ''__proto__'' \<in> set object_prototype_keys"
  by (simp add: object_prototype_keys_def)

lemma set_alist_update: "set (AList.update k v al) \<subseteq> insert (k, v) (set al)"
  by (induction al) auto

lemma parsed_object_update:
  assumes "parsed_object acc" "k \<notin> set object_prototype_keys" "trim v = v"
  shows "parsed_object (AList.update k v acc)"
proof -
  have "set (AList.update k v acc) \<subseteq> insert (k, v) (set acc)"
    by (rule set_alist_update)
  then show ?thesis
    using assms by (auto simp: parsed_object_def distinct_update)
qed

lemma parsed_object_lookup:
  "parsed_object acc \<Longrightarrow> map_of acc k = Some v \<Longrightarrow> k \<notin> set object_prototype_keys \<and> trim v = v"
  by (auto simp: parsed_object_def dest!: map_of_SomeD)

lemma parse_step_parsed:
  assumes "parsed_object acc"
  shows "parsed_object (parse_step acc l)"
proof (cases "parse_step acc l = acc")
  case True
  then show ?thesis using assms by simp
next
  case False
  have tv: "trim (line_value l) = line_value l" by (simp add: line_value_def trim_trim)
  have "line_key l \<notin> set object_prototype_keys"
  proof
    assume p: "line_key l \<in> set object_prototype_keys"
    then have "map_of acc (line_key l) = None"
      using assms by (auto simp: parsed_object_def map_of_eq_None_iff)
    then have "parse_step acc l = acc"
      using p by (simp add: parse_step_def Let_def has_property_def get_prop_def)
    with False show False by simp
  qed
  moreover from this have "line_key l \<noteq> str ''__proto__''" using proto_in by auto
  ultimately show ?thesis
    using False assms tv
    by (auto simp: parse_step_def Let_def set_prop_def intro: parsed_object_update split: if_splits)
qed

lemma parsed_object_foldl: "parsed_object acc \<Longrightarrow> parsed_object (foldl parse_step acc ls)"
  by (induction ls arbitrary: acc) (auto intro: parse_step_parsed)

lemma parsed_object_parse_text: "parsed_object (parse_text t)"
  unfolding parse_text_def by (rule parsed_object_foldl) (simp add: parsed_object_def)

lemma parsed_object_parseEnvFile:
  assumes "parseEnvFile fs p = Inr vars"
  shows "parsed_object vars"
proof (cases "existsSync fs p")
  case False
  then show ?thesis using assms by (auto simp: parseEnvFile_def parsed_object_def)
next
  case True
  with assms obtain t where "vars = parse_text t"
    by (auto simp: parseEnvFile_def split: sum.splits)
  then show ?thesis by (simp add: parsed_object_parse_text)
qed

lemma parse_step_lookup:
  assumes "k \<notin> set object_prototype_keys"
  shows "map_of (parse_step acc l) k =
     (if line_key l = k
      then (case map_of acc k of
              None \<Rightarrow> Some (line_value l)
            | Some old \<Rightarrow> if old = [] \<and> line_value l \<noteq> [] then Some (line_value l) else Some old)
      else map_of acc k)"
proof -
  have kp: "k \<noteq> str ''__proto__''" using assms proto_in by auto
  show ?thesis
    using assms kp
    by (auto simp: parse_step_def Let_def has_property_def get_prop_def set_prop_def update_conv
        map_of_eq_None_iff[symmetric] split: option.splits if_splits)
qed

lemma foldl_parse_step_lookup:
  assumes "k \<notin> set object_prototype_keys"
  shows "map_of (foldl parse_step acc ls) k =
     (case map_of acc k of
        Some old \<Rightarrow> Some (if old \<noteq> [] then old else first_nonempty (line_values k ls))
      | None \<Rightarrow> if line_values k ls = [] then None else Some (first_nonempty (line_values k ls)))"
proof (induction ls arbitrary: acc)
  case Nil
  then show ?case by (simp add: line_values_def first_nonempty_def split: option.splits)
next
  case (Cons l ls)
  show ?case
    by (simp add: Cons.IH parse_step_lookup[OF assms] line_values_def first_nonempty_def
        split: option.splits)
qed

lemma set_own_entries: "set (own_entries o') = set o'"
  by (auto simp: own_entries_def)

lemma distinct_own_entries:
  assumes "distinct (map fst o')"
  shows "distinct (map fst (own_entries o'))"
proof -
  let ?A = "filter (\<lambda>kv. is_array_index (fst kv)) o'"
  let ?B = "filter (\<lambda>kv. \<not> is_array_index (fst kv)) o'"
  have dA: "distinct (map fst ?A)" and dB: "distinct (map fst ?B)"
    using assms by (simp_all add: distinct_map_filter)
  have "distinct (map fst (sort_key (\<lambda>kv. digits_value (fst kv)) ?A))"
    using dA by (simp add: distinct_map)
  moreover have "fst ` set ?A \<inter> fst ` set ?B = {}" by auto
  ultimately show ?thesis using dB by (simp add: own_entries_def)
qed

lemma map_of_own_entries:
  "distinct (map fst o') \<Longrightarrow> map_of (own_entries o') = map_of o'"
  by (simp add: map_of_inject_set distinct_own_entries set_own_entries)

lemma set_own_keys: "set (own_keys o') = fst ` set o'"
  by (simp add: own_keys_def set_own_entries)

lemma merged_value_parsed:
  assumes r: "parsed_object r" and l: "parsed_object l" and k: "map_of l k = Some lv"
  shows "merged_value (get_prop l k) (get_prop r k) = Inr (merged_lookup r l k)"
proof -
  from parsed_object_lookup[OF l k] have kp: "k \<notin> set object_prototype_keys" and tl: "trim lv = lv"
    by auto
  show ?thesis
  proof (cases "map_of r k")
    case None
    then show ?thesis using k kp tl
      by (auto simp: merged_value_def get_prop_def merged_lookup_def)
  next
    case (Some rv)
    from parsed_object_lookup[OF r Some] have "trim rv = rv" by simp
    then show ?thesis using k kp tl Some
      by (auto simp: merged_value_def get_prop_def merged_lookup_def)
  qed
qed

lemma merge_keys_parsed:
  assumes r: "parsed_object r" and l: "parsed_object l"
  shows "set ks \<subseteq> fst ` set l \<Longrightarrow>
         \<exists>m'. merge_keys r l ks m = Inr m' \<and>
              (\<forall>k. map_of m' k = (if k \<in> set ks then Some (merged_lookup r l k) else map_of m k)) \<and>
              (distinct (map fst m) \<longrightarrow> distinct (map fst m'))"
proof (induction ks arbitrary: m)
  case Nil
  then show ?case by simp
next
  case (Cons k ks)
  from Cons.prems have "k \<in> fst ` set l" by simp
  then have "map_of l k \<noteq> None" by (simp add: map_of_eq_None_iff)
  then obtain lv where lv: "map_of l k = Some lv" by auto
  from parsed_object_lookup[OF l lv] proto_in have kp: "k \<noteq> str ''__proto__''" by auto
  have mv: "merged_value (get_prop l k) (get_prop r k) = Inr (merged_lookup r l k)"
    by (rule merged_value_parsed[OF r l lv])
  have sp: "set_prop m k (merged_lookup r l k) = AList.update k (merged_lookup r l k) m"
    using kp by (simp add: set_prop_def)
  from Cons.prems have "set ks \<subseteq> fst ` set l" by simp
  from Cons.IH[OF this, of "AList.update k (merged_lookup r l k) m"]
  obtain m' where m': "merge_keys r l ks (AList.update k (merged_lookup r l k) m) = Inr m'"
    "\<forall>k'. map_of m' k' = (if k' \<in> set ks then Some (merged_lookup r l k')
        else map_of (AList.update k (merged_lookup r l k) m) k')"
    "distinct (map fst (AList.update k (merged_lookup r l k) m)) \<longrightarrow> distinct (map fst m')"
    by blast
  show ?case
    using m' by (auto simp: mv sp update_conv' distinct_update)
qed

lemma merge_vars_parsed:
  assumes r: "parsed_object r" and l: "parsed_object l"
  shows "\<exists>m. merge_vars r l = Inr m \<and> distinct (map fst m) \<and>
     (\<forall>k. map_of m k = (if k \<in> fst ` set l then Some (merged_lookup r l k) else map_of r k))"
proof -
  have dr: "distinct (map fst r)" using r by (simp add: parsed_object_def)
  from merge_keys_parsed[OF r l, of "own_keys l" "own_entries r"]
  show ?thesis
    by (auto simp: merge_vars_def set_own_keys map_of_own_entries[OF dr] distinct_own_entries[OF dr])
qed

lemma parse_text_lookup:
  assumes "k \<notin> set object_prototype_keys"
  shows "map_of (parse_text text) k =
     (if line_values k (env_lines text) = [] then None
      else Some (first_nonempty (line_values k (env_lines text))))"
  by (simp add: parse_text_def foldl_parse_step_lookup[OF assms])

lemma parse_text_inherited:
  assumes "k \<in> set object_prototype_keys"
  shows "map_of (parse_text text) k = None"
  using parsed_object_parse_text[of "text"] assms
  by (auto simp: parsed_object_def map_of_eq_None_iff)

text \<open>Unfolding sets for evaluating the parser and the merge on concrete texts.\<close>

lemmas parse_eval =
  parseEnvFile_def existsSync_def readFileSync_def parse_text_def env_lines_def env_line_def parse_step_def line_key_def
  line_value_def str_def trim_def is_ws_def has_property_def get_prop_def set_prop_def
  object_prototype_keys_def

lemmas merge_eval =
  merge_vars_def own_keys_def own_entries_def is_array_index_def is_digit_def
  merged_value_def get_prop_def set_prop_def object_prototype_keys_def str_def trim_def
  is_ws_def

lemma example_root:
  "parse_text (str ''A=1'' @ [0xA] @ str ''B='') = [(str ''A'', str ''1''), (str ''B'', [])]"
  by (simp add: parse_eval)

lemma example_local:
  "parse_text (str ''B=2'' @ [0xA] @ str ''C='') = [(str ''B'', str ''2''), (str ''C'', [])]"
  by (simp add: parse_eval)

lemma example_parsed:
  "parseEnvFile example_files (str ''/workspace/.env'') = Inr [(str ''A'', str ''1''), (str ''B'', [])]"
  "parseEnvFile example_files (str ''/workspace/app/.env'') = Inr [(str ''B'', str ''2''), (str ''C'', [])]"
  by (simp_all add: example_files_def parse_eval)

lemma example_merge:
  "merge_vars [(str ''A'', str ''1''), (str ''B'', [])] [(str ''B'', str ''2''), (str ''C'', [])]
   = Inr [(str ''A'', str ''1''), (str ''B'', str ''2''), (str ''C'', [])]"
  by (simp add: merge_eval)

section \<open>The environment merge\<close>

text \<open>
  Claim C1. For the mappings parsed from any two texts, the one of the root file and the
  one of the local file, the merge succeeds, and in the merged mapping: a key whose local
  value is not empty has the local value; a key whose local value is empty has root's
  value when that is not empty, and the empty value when root's is empty or absent; a key
  that only root has keeps root's value, and a key that only local has keeps local's
  value. In particular, for the store that holds root \<open>{A=1, B=}\<close> and local
  \<open>{B=2, C=}\<close>, \<^verbatim>\<open>mergeEnvironmentFiles\<close> returns \<open>{A=1, B=2, C=}\<close>.
\<close>

theorem merge_precedence:
  fixes rootText localText :: jsstring
  defines "rootVars \<equiv> parse_text rootText"
    and "localVars \<equiv> parse_text localText"
  shows "(\<exists>mergedVars. merge_vars rootVars localVars = Inr mergedVars \<and>
      (\<forall>k v. map_of localVars k = Some v \<and> v \<noteq> [] \<longrightarrow> map_of mergedVars k = Some v) \<and>
      (\<forall>k rv. map_of localVars k = Some [] \<and> map_of rootVars k = Some rv \<and> rv \<noteq> []
          \<longrightarrow> map_of mergedVars k = Some rv) \<and>
      (\<forall>k. map_of localVars k = Some [] \<and> (map_of rootVars k = Some [] \<or> map_of rootVars k = None)
          \<longrightarrow> map_of mergedVars k = Some []) \<and>
      (\<forall>k. map_of localVars k = None \<longrightarrow> map_of mergedVars k = map_of rootVars k) \<and>
      (\<forall>k. map_of rootVars k = None \<longrightarrow> map_of mergedVars k = map_of localVars k))
    \<and> fst (mergeEnvironmentFiles example_files (str ''/workspace/.env'')
              (str ''/workspace/app/.env'') (str ''/workspace/app/.env.temp''))
       = Inr [(str ''A'', str ''1''), (str ''B'', str ''2''), (str ''C'', [])]"
proof -
  have r: "parsed_object rootVars" and l: "parsed_object localVars"
    by (simp_all add: rootVars_def localVars_def parsed_object_parse_text)
  from merge_vars_parsed[OF r l] obtain m where m: "merge_vars rootVars localVars = Inr m"
    and look: "\<And>k. map_of m k =
       (if k \<in> fst ` set localVars then Some (merged_lookup rootVars localVars k) else map_of rootVars k)"
    by blast
  have in_l: "\<And>k. (k \<in> fst ` set localVars) = (map_of localVars k \<noteq> None)"
    by (simp add: map_of_eq_None_iff)
  have "\<exists>mergedVars. merge_vars rootVars localVars = Inr mergedVars \<and>
      (\<forall>k v. map_of localVars k = Some v \<and> v \<noteq> [] \<longrightarrow> map_of mergedVars k = Some v) \<and>
      (\<forall>k rv. map_of localVars k = Some [] \<and> map_of rootVars k = Some rv \<and> rv \<noteq> []
          \<longrightarrow> map_of mergedVars k = Some rv) \<and>
      (\<forall>k. map_of localVars k = Some [] \<and> (map_of rootVars k = Some [] \<or> map_of rootVars k = None)
          \<longrightarrow> map_of mergedVars k = Some []) \<and>
      (\<forall>k. map_of localVars k = None \<longrightarrow> map_of mergedVars k = map_of rootVars k) \<and>
      (\<forall>k. map_of rootVars k = None \<longrightarrow> map_of mergedVars k = map_of localVars k)"
    by (rule exI[of _ m]) (auto simp: m look in_l merged_lookup_def)
  moreover have "fst (mergeEnvironmentFiles example_files (str ''/workspace/.env'')
              (str ''/workspace/app/.env'') (str ''/workspace/app/.env.temp''))
       = Inr [(str ''A'', str ''1''), (str ''B'', str ''2''), (str ''C'', [])]"
    unfolding mergeEnvironmentFiles_def example_parsed
    by (simp add: example_merge)
       (simp add: Let_def writeFileSync_def renameSync_def is_directory_def
        dirname_def example_files_def str_def)
  ultimately show ?thesis by blast
qed

text \<open>The theorem at the two texts of the scenario, for the keys \<open>A\<close>, \<open>B\<close> and \<open>C\<close>.\<close>

theorem merge_precedence_witness:
  "\<exists>mergedVars.
     merge_vars (parse_text (str ''A=1'' @ [0xA] @ str ''B='')) (parse_text (str ''B=2'' @ [0xA] @ str ''C=''))
       = Inr mergedVars \<and>
     map_of mergedVars (str ''A'') = Some (str ''1'') \<and>
     map_of mergedVars (str ''B'') = Some (str ''2'') \<and>
     map_of mergedVars (str ''C'') = Some []"
proof -
  let ?R = "parse_text (str ''A=1'' @ [0xA] @ str ''B='')"
  let ?L = "parse_text (str ''B=2'' @ [0xA] @ str ''C='')"
  from merge_precedence[of "str ''A=1'' @ [0xA] @ str ''B=''" "str ''B=2'' @ [0xA] @ str ''C=''"]
  obtain m where m: "merge_vars ?R ?L = Inr m"
    and 1: "\<And>k v. map_of ?L k = Some v \<and> v \<noteq> [] \<Longrightarrow> map_of m k = Some v"
    and 3: "\<And>k. map_of ?L k = Some [] \<and> (map_of ?R k = Some [] \<or> map_of ?R k = None)
          \<Longrightarrow> map_of m k = Some []"
    and 4: "\<And>k. map_of ?L k = None \<Longrightarrow> map_of m k = map_of ?R k"
    by blast
  have a: "map_of m (str ''A'') = Some (str ''1'')"
    using 4[of "str ''A''"] unfolding example_root example_local by (simp add: str_def)
  have b: "map_of m (str ''B'') = Some (str ''2'')"
    using 1[of "str ''B''" "str ''2''"] unfolding example_root example_local by (simp add: str_def)
  have c: "map_of m (str ''C'') = Some []"
    using 3[of "str ''C''"] unfolding example_root example_local by (simp add: str_def)
  show ?thesis using m a b c by blast
qed

section \<open>Repeated keys in one file\<close>

text \<open>
  For a key that is not a property name of \<^verbatim>\<open>Object.prototype\<close>, the parsed mapping
  holds the first non-empty value of the key's lines, and the empty value when all of
  them are empty (\<open>parse_text_lookup\<close> above). A key that is such a name is never stored
  (\<open>parse_text_inherited\<close>).
\<close>

text \<open>
  Claim C8. The key \<open>toString\<close> occurs on two lines with the values \<open>a\<close> and \<open>b\<close>:
  the parsed mapping is empty, where the claim has it hold \<open>a\<close>; an ordinary key on the
  same two lines keeps its first value.
\<close>

theorem parse_inherited_key_dropped:
  "parse_text (str ''toString=a'' @ [0xA] @ str ''toString=b'') = []
   \<and> parse_text (str ''KEY=a'' @ [0xA] @ str ''KEY=b'') = [(str ''KEY'', str ''a'')]"
  by (simp add: parse_eval)
section \<open>Missing input files\<close>

lemma temp_neq: "outputPath @ str ''.temp'' \<noteq> outputPath"
  by (simp add: str_def)

lemma dirname_temp: "dirname (p @ str ''.temp'') = dirname p"
proof -
  have "dropWhile (\<lambda>c. c \<noteq> 0x2F) (rev (str ''.temp'') @ rev p) = dropWhile (\<lambda>c. c \<noteq> 0x2F) (rev p)"
    by (rule dropWhile_append2) (auto simp: str_def)
  then show ?thesis by (simp add: dirname_def)
qed

lemma parseEnvFile_node:
  "parseEnvFile fs p =
     (case map_of fs p of
        None \<Rightarrow> Inr []
      | Some (File t) \<Rightarrow> Inr (parse_text t)
      | Some Directory \<Rightarrow> Inl (FileSystemError p))"
  by (simp add: parseEnvFile_def existsSync_def readFileSync_def split: option.splits node.splits)

lemma parseEnvFile_ok_iff: "(\<exists>vars. parseEnvFile fs p = Inr vars) \<longleftrightarrow> map_of fs p \<noteq> Some Directory"
  by (auto simp: parseEnvFile_node split: option.splits node.splits)

lemma is_directory_update_file:
  "map_of fs p \<noteq> Some Directory \<Longrightarrow> is_directory (AList.update p (File t) fs) d = is_directory fs d"
  by (auto simp: is_directory_def update_conv')

lemma is_directory_delete_file:
  "map_of fs p \<noteq> Some Directory \<Longrightarrow> is_directory (AList.delete p fs) d = is_directory fs d"
  by (auto simp: is_directory_def delete_conv')

lemma mergeEnvironmentFiles_ok:
  assumes r: "parseEnvFile fs r = Inr R" and l: "parseEnvFile fs l = Inr L"
    and d: "is_directory fs (dirname out)"
    and o: "map_of fs out \<noteq> Some Directory"
    and t: "map_of fs (out @ str ''.temp'') \<noteq> Some Directory"
  shows "\<exists>m. merge_vars R L = Inr m \<and>
     mergeEnvironmentFiles fs r l out =
       (Inr m, AList.update out (File (envContent m))
                 (AList.delete (out @ str ''.temp'')
                    (AList.update (out @ str ''.temp'') (File (envContent m)) fs)))"
proof -
  let ?temp = "out @ str ''.temp''"
  from merge_vars_parsed[OF parsed_object_parseEnvFile[OF r] parsed_object_parseEnvFile[OF l]]
  obtain m where m: "merge_vars R L = Inr m" by blast
  let ?fs1 = "AList.update ?temp (File (envContent m)) fs"
  have w: "writeFileSync fs ?temp (envContent m) = Inr ?fs1"
    using d t by (simp add: writeFileSync_def dirname_temp)
  have d1: "is_directory ?fs1 (dirname out)"
    using d t by (simp add: is_directory_update_file)
  have o1: "map_of ?fs1 out \<noteq> Some Directory"
    using o temp_neq[of out] by (simp add: update_conv')
  have "renameSync ?fs1 ?temp out = Inr (AList.update out (File (envContent m)) (AList.delete ?temp ?fs1))"
    using d1 o1 temp_neq[of out] by (simp add: renameSync_def update_conv')
  with m w show ?thesis
    by (simp add: mergeEnvironmentFiles_def r l Let_def)
qed

lemma mergeEnvironmentFiles_returns:
  assumes "fst (mergeEnvironmentFiles fs r l out) = Inr m"
  shows "map_of fs r \<noteq> Some Directory \<and> map_of fs l \<noteq> Some Directory \<and>
         is_directory fs (dirname out) \<and> map_of fs out \<noteq> Some Directory \<and>
         map_of fs (out @ str ''.temp'') \<noteq> Some Directory"
proof -
  let ?temp = "out @ str ''.temp''"
  from assms obtain R L m' fs1 fs2 where
    R: "parseEnvFile fs r = Inr R" and L: "parseEnvFile fs l = Inr L"
    and w: "writeFileSync fs ?temp (envContent m') = Inr fs1"
    and rn: "renameSync fs1 ?temp out = Inr fs2"
    by (auto simp: mergeEnvironmentFiles_def Let_def split: sum.splits)
  from w have t: "map_of fs ?temp \<noteq> Some Directory" and d: "is_directory fs (dirname out)"
    and fs1: "fs1 = AList.update ?temp (File (envContent m')) fs"
    by (auto simp: writeFileSync_def dirname_temp split: if_splits)
  from rn have "map_of fs1 out \<noteq> Some Directory"
    using temp_neq[of out] by (auto simp: renameSync_def fs1 update_conv' split: if_splits)
  then have o: "map_of fs out \<noteq> Some Directory"
    using temp_neq[of out] by (simp add: fs1 update_conv')
  from R L parseEnvFile_ok_iff[of fs r] parseEnvFile_ok_iff[of fs l]
  show ?thesis using t d o by auto
qed

lemma merged_lookup_no_root:
  assumes l: "parsed_object L"
    and look: "\<And>k. map_of m k = (if k \<in> fst ` set L then Some (merged_lookup [] L k) else None)"
  shows "map_of m = map_of L"
proof
  fix k
  have "(k \<in> fst ` set L) = (map_of L k \<noteq> None)" by (simp add: map_of_eq_None_iff)
  then show "map_of m k = map_of L k" by (auto simp: look merged_lookup_def)
qed

text \<open>
  Claim C9, as amended. A path that does not exist is parsed as the empty mapping. The
  merge returns a result exactly when neither input path is a directory and the output
  can be written: the directory of the output path exists, and neither the output path
  nor its scratch path is a directory. So it never fails because an input file is
  missing, and it does fail where the directory of the output is missing. When it
  returns, the output path holds the serialised merged mapping, which is the mapping of
  the other file when one input is missing.
\<close>

theorem merge_missing_file:
  "(\<not> existsSync fs rootEnvPath \<longrightarrow> parseEnvFile fs rootEnvPath = Inr []) \<and>
   (\<not> existsSync fs localEnvPath \<longrightarrow> parseEnvFile fs localEnvPath = Inr []) \<and>
   ((\<exists>mergedVars. fst (mergeEnvironmentFiles fs rootEnvPath localEnvPath outputPath) = Inr mergedVars)
      \<longleftrightarrow> map_of fs rootEnvPath \<noteq> Some Directory \<and> map_of fs localEnvPath \<noteq> Some Directory \<and>
          is_directory fs (dirname outputPath) \<and> map_of fs outputPath \<noteq> Some Directory \<and>
          map_of fs (outputPath @ str ''.temp'') \<noteq> Some Directory) \<and>
   (map_of fs rootEnvPath \<noteq> Some Directory \<and> map_of fs localEnvPath \<noteq> Some Directory \<and>
    is_directory fs (dirname outputPath) \<and> map_of fs outputPath \<noteq> Some Directory \<and>
    map_of fs (outputPath @ str ''.temp'') \<noteq> Some Directory
    \<longrightarrow> (\<exists>rootVars localVars mergedVars fs'.
          parseEnvFile fs rootEnvPath = Inr rootVars \<and>
          parseEnvFile fs localEnvPath = Inr localVars \<and>
          merge_vars rootVars localVars = Inr mergedVars \<and>
          mergeEnvironmentFiles fs rootEnvPath localEnvPath outputPath = (Inr mergedVars, fs') \<and>
          map_of fs' outputPath = Some (File (envContent mergedVars)) \<and>
          map_of fs' (outputPath @ str ''.temp'') = None \<and>
          (\<not> existsSync fs rootEnvPath \<longrightarrow> map_of mergedVars = map_of localVars) \<and>
          (\<not> existsSync fs localEnvPath \<longrightarrow> map_of mergedVars = map_of rootVars)))"
proof (intro conjI impI)
  show "parseEnvFile fs rootEnvPath = Inr []" if "\<not> existsSync fs rootEnvPath"
    using that by (simp add: parseEnvFile_def)
  show "parseEnvFile fs localEnvPath = Inr []" if "\<not> existsSync fs localEnvPath"
    using that by (simp add: parseEnvFile_def)
next
  let ?ok = "map_of fs rootEnvPath \<noteq> Some Directory \<and> map_of fs localEnvPath \<noteq> Some Directory \<and>
          is_directory fs (dirname outputPath) \<and> map_of fs outputPath \<noteq> Some Directory \<and>
          map_of fs (outputPath @ str ''.temp'') \<noteq> Some Directory"
  show "(\<exists>mergedVars. fst (mergeEnvironmentFiles fs rootEnvPath localEnvPath outputPath) = Inr mergedVars)
      \<longleftrightarrow> ?ok"
  proof
    assume "\<exists>mergedVars. fst (mergeEnvironmentFiles fs rootEnvPath localEnvPath outputPath) = Inr mergedVars"
    then show ?ok using mergeEnvironmentFiles_returns by blast
  next
    assume ok: ?ok
    then obtain R L where R: "parseEnvFile fs rootEnvPath = Inr R" and L: "parseEnvFile fs localEnvPath = Inr L"
      using parseEnvFile_ok_iff by blast
    from mergeEnvironmentFiles_ok[OF R L, of outputPath] ok
    show "\<exists>mergedVars. fst (mergeEnvironmentFiles fs rootEnvPath localEnvPath outputPath) = Inr mergedVars"
      by auto
  qed
next
  assume ok: "map_of fs rootEnvPath \<noteq> Some Directory \<and> map_of fs localEnvPath \<noteq> Some Directory \<and>
    is_directory fs (dirname outputPath) \<and> map_of fs outputPath \<noteq> Some Directory \<and>
    map_of fs (outputPath @ str ''.temp'') \<noteq> Some Directory"
  let ?temp = "outputPath @ str ''.temp''"
  from ok obtain R L where R: "parseEnvFile fs rootEnvPath = Inr R" and L: "parseEnvFile fs localEnvPath = Inr L"
    using parseEnvFile_ok_iff by blast
  have pr: "parsed_object R" and pl: "parsed_object L"
    using R L by (auto intro: parsed_object_parseEnvFile)
  from mergeEnvironmentFiles_ok[OF R L, of outputPath] ok obtain m where
    m: "merge_vars R L = Inr m"
    and e: "mergeEnvironmentFiles fs rootEnvPath localEnvPath outputPath =
       (Inr m, AList.update outputPath (File (envContent m))
                 (AList.delete ?temp (AList.update ?temp (File (envContent m)) fs)))"
    by blast
  from merge_vars_parsed[OF pr pl] m
  have look: "\<And>k. map_of m k = (if k \<in> fst ` set L then Some (merged_lookup R L k) else map_of R k)"
    by auto
  have noroot: "map_of m = map_of L" if "\<not> existsSync fs rootEnvPath"
  proof -
    from that R have "R = []" by (simp add: parseEnvFile_def)
    with look show ?thesis by (intro merged_lookup_no_root[OF pl]) simp
  qed
  have nolocal: "map_of m = map_of R" if "\<not> existsSync fs localEnvPath"
  proof
    fix k
    from that L have "L = []" by (simp add: parseEnvFile_def)
    then show "map_of m k = map_of R k" by (simp add: look)
  qed
  show "\<exists>rootVars localVars mergedVars fs'.
          parseEnvFile fs rootEnvPath = Inr rootVars \<and>
          parseEnvFile fs localEnvPath = Inr localVars \<and>
          merge_vars rootVars localVars = Inr mergedVars \<and>
          mergeEnvironmentFiles fs rootEnvPath localEnvPath outputPath = (Inr mergedVars, fs') \<and>
          map_of fs' outputPath = Some (File (envContent mergedVars)) \<and>
          map_of fs' (outputPath @ str ''.temp'') = None \<and>
          (\<not> existsSync fs rootEnvPath \<longrightarrow> map_of mergedVars = map_of localVars) \<and>
          (\<not> existsSync fs localEnvPath \<longrightarrow> map_of mergedVars = map_of rootVars)"
    using R L m e noroot nolocal temp_neq[of outputPath]
    by (intro exI[of _ R] exI[of _ L] exI[of _ m]
        exI[of _ "AList.update outputPath (File (envContent m))
                 (AList.delete ?temp (AList.update ?temp (File (envContent m)) fs))"])
       (simp add: update_conv' delete_conv')
qed
lemma envContent_single: "envContent [(str ''B'', str ''2'')] = str ''B=2''"
  "envContent [(str ''A'', str ''1'')] = str ''A=1''"
  by (simp_all add: envContent_def own_entries_def is_array_index_def is_digit_def str_def)

text \<open>
  The theorem at a store without the root file, and at one without the local file; the
  directory of the output exists in both.
\<close>

theorem merge_missing_file_witness:
  "\<not> existsSync [(str ''/workspace'', Directory), (str ''/workspace/app'', Directory),
                 (str ''/workspace/app/.env'', File (str ''B=2''))] (str ''/workspace/.env'') \<and>
   fst (mergeEnvironmentFiles
          [(str ''/workspace'', Directory), (str ''/workspace/app'', Directory),
           (str ''/workspace/app/.env'', File (str ''B=2''))]
          (str ''/workspace/.env'') (str ''/workspace/app/.env'') (str ''/workspace/app/.env.temp''))
     = Inr [(str ''B'', str ''2'')] \<and>
   map_of (snd (mergeEnvironmentFiles
          [(str ''/workspace'', Directory), (str ''/workspace/app'', Directory),
           (str ''/workspace/app/.env'', File (str ''B=2''))]
          (str ''/workspace/.env'') (str ''/workspace/app/.env'') (str ''/workspace/app/.env.temp'')))
       (str ''/workspace/app/.env.temp'') = Some (File (str ''B=2'')) \<and>
   \<not> existsSync [(str ''/workspace'', Directory), (str ''/workspace/.env'', File (str ''A=1'')),
                 (str ''/workspace/app'', Directory)] (str ''/workspace/app/.env'') \<and>
   fst (mergeEnvironmentFiles
          [(str ''/workspace'', Directory), (str ''/workspace/.env'', File (str ''A=1'')),
           (str ''/workspace/app'', Directory)]
          (str ''/workspace/.env'') (str ''/workspace/app/.env'') (str ''/workspace/app/.env.temp''))
     = Inr [(str ''A'', str ''1'')] \<and>
   map_of (snd (mergeEnvironmentFiles
          [(str ''/workspace'', Directory), (str ''/workspace/.env'', File (str ''A=1'')),
           (str ''/workspace/app'', Directory)]
          (str ''/workspace/.env'') (str ''/workspace/app/.env'') (str ''/workspace/app/.env.temp'')))
       (str ''/workspace/app/.env.temp'') = Some (File (str ''A=1''))"
proof -
  let ?f1 = "[(str ''/workspace'', Directory), (str ''/workspace/app'', Directory),
              (str ''/workspace/app/.env'', File (str ''B=2''))]"
  let ?f2 = "[(str ''/workspace'', Directory), (str ''/workspace/.env'', File (str ''A=1'')),
              (str ''/workspace/app'', Directory)]"
  let ?r = "str ''/workspace/.env''" and ?l = "str ''/workspace/app/.env''"
  let ?o = "str ''/workspace/app/.env.temp''"
  have ne1: "\<not> existsSync ?f1 ?r" and ne2: "\<not> existsSync ?f2 ?l"
    by (simp_all add: existsSync_def str_def)
  have p1: "parseEnvFile ?f1 ?l = Inr [(str ''B'', str ''2'')]"
    and p2: "parseEnvFile ?f2 ?r = Inr [(str ''A'', str ''1'')]"
    by (simp_all add: parse_eval)
  have q1: "parseEnvFile ?f1 ?r = Inr []" and q2: "parseEnvFile ?f2 ?l = Inr []"
    by (simp_all add: parse_eval)
  have mv: "merge_vars [] [(str ''B'', str ''2'')] = Inr [(str ''B'', str ''2'')]"
    "merge_vars [(str ''A'', str ''1'')] [] = Inr [(str ''A'', str ''1'')]"
    by (simp_all add: merge_eval)
  have c1: "map_of ?f1 ?r \<noteq> Some Directory \<and> map_of ?f1 ?l \<noteq> Some Directory \<and>
    is_directory ?f1 (dirname ?o) \<and> map_of ?f1 ?o \<noteq> Some Directory \<and>
    map_of ?f1 (?o @ str ''.temp'') \<noteq> Some Directory"
    by (simp add: is_directory_def dirname_def str_def)
  have c2: "map_of ?f2 ?r \<noteq> Some Directory \<and> map_of ?f2 ?l \<noteq> Some Directory \<and>
    is_directory ?f2 (dirname ?o) \<and> map_of ?f2 ?o \<noteq> Some Directory \<and>
    map_of ?f2 (?o @ str ''.temp'') \<noteq> Some Directory"
    by (simp add: is_directory_def dirname_def str_def)
  from merge_missing_file[of ?f1 ?r ?l ?o, THEN conjunct2, THEN conjunct2, THEN conjunct2, THEN mp, OF c1]
  obtain m1 fs1 where
    a: "merge_vars [] [(str ''B'', str ''2'')] = Inr m1"
       "mergeEnvironmentFiles ?f1 ?r ?l ?o = (Inr m1, fs1)"
       "map_of fs1 ?o = Some (File (envContent m1))"
    unfolding p1 q1 by auto
  from merge_missing_file[of ?f2 ?r ?l ?o, THEN conjunct2, THEN conjunct2, THEN conjunct2, THEN mp, OF c2]
  obtain m2 fs2 where
    b: "merge_vars [(str ''A'', str ''1'')] [] = Inr m2"
       "mergeEnvironmentFiles ?f2 ?r ?l ?o = (Inr m2, fs2)"
       "map_of fs2 ?o = Some (File (envContent m2))"
    unfolding p2 q2 by auto
  from a(1) b(1) have m: "m1 = [(str ''B'', str ''2'')]" "m2 = [(str ''A'', str ''1'')]"
    by (simp_all add: mv)
  show ?thesis
    using ne1 ne2 a(2,3) b(2,3) unfolding m envContent_single by simp
qed

text \<open>
  Claim C9 as stated fails where the directory of the output does not exist: the local
  file is missing, the root file parses, and the merge raises the error of the write
  instead of writing the merge of the remaining file.
\<close>

theorem merge_without_output_directory:
  "\<not> existsSync [(str ''/workspace'', Directory), (str ''/workspace/.env'', File (str ''A=1''))]
       (str ''/workspace/app/.env'') \<and>
   parseEnvFile [(str ''/workspace'', Directory), (str ''/workspace/.env'', File (str ''A=1''))]
       (str ''/workspace/.env'') = Inr [(str ''A'', str ''1'')] \<and>
   mergeEnvironmentFiles [(str ''/workspace'', Directory), (str ''/workspace/.env'', File (str ''A=1''))]
       (str ''/workspace/.env'') (str ''/workspace/app/.env'') (str ''/workspace/app/.env.temp'')
     = (Inl (FileSystemError (str ''/workspace/app/.env.temp.temp'')),
        [(str ''/workspace'', Directory), (str ''/workspace/.env'', File (str ''A=1''))])"
proof -
  let ?fs = "[(str ''/workspace'', Directory), (str ''/workspace/.env'', File (str ''A=1''))]"
  have ne: "\<not> existsSync ?fs (str ''/workspace/app/.env'')"
    by (simp add: existsSync_def str_def)
  have p: "parseEnvFile ?fs (str ''/workspace/.env'') = Inr [(str ''A'', str ''1'')]"
    "parseEnvFile ?fs (str ''/workspace/app/.env'') = Inr []"
    by (simp_all add: parse_eval)
  have mv: "merge_vars [(str ''A'', str ''1'')] [] = Inr [(str ''A'', str ''1'')]"
    by (simp add: merge_eval)
  have w: "writeFileSync ?fs (str ''/workspace/app/.env.temp'' @ str ''.temp'') t
      = Inl (FileSystemError (str ''/workspace/app/.env.temp.temp''))" for t
    by (simp add: writeFileSync_def is_directory_def dirname_def str_def)
  show ?thesis
    using ne p unfolding mergeEnvironmentFiles_def p by (simp add: mv w Let_def)
qed
section \<open>Stepping through commands\<close>

lemma runCommand_if:
  "runCommand h c w =
     (if outcome h (trace w) c = Exit 0
      then (Inr (), \<lparr>files = effect h c (files w), trace = trace w @ [Run c]\<rparr>)
      else (Inl (command_error (outcome h (trace w) c) c),
            \<lparr>files = files w, trace = trace w @ [Run c]\<rparr>))"
  by (cases w; cases "outcome h (trace w) c") (auto simp: runCommand_def Let_def)

lemma merge_files_eq:
  "merge_files r l out w =
     (case fst (mergeEnvironmentFiles (files w) r l out) of Inl e \<Rightarrow> Inl e | Inr m \<Rightarrow> Inr (),
      \<lparr>files = merged_files (files w) r l out, trace = trace w @ [Merge r l out]\<rparr>)"
  by (cases w; cases "mergeEnvironmentFiles (files w) r l out")
     (auto simp: merge_files_def merged_files_def Let_def split: sum.splits)

lemma merged_files_other:
  assumes "p \<noteq> out" "p \<noteq> out @ str ''.temp''"
  shows "map_of (merged_files fs r l out) p = map_of fs p"
  using assms
  by (auto simp: merged_files_def mergeEnvironmentFiles_def Let_def writeFileSync_def renameSync_def
      update_conv' delete_conv' split: sum.splits if_splits option.splits node.splits)

lemma merged_files_directory:
  "(map_of (merged_files fs r l out) p = Some Directory) = (map_of fs p = Some Directory)"
  using temp_neq[of out]
  by (auto simp: merged_files_def mergeEnvironmentFiles_def Let_def writeFileSync_def renameSync_def
      update_conv' delete_conv' split: sum.splits if_splits option.splits node.splits)

lemma merged_files_is_directory:
  "is_directory (merged_files fs r l out) d = is_directory fs d"
  by (simp add: is_directory_def merged_files_directory)

lemma merged_files_ok:
  assumes "fst (mergeEnvironmentFiles fs r l out) = Inr m"
  shows "\<exists>R L. parseEnvFile fs r = Inr R \<and> parseEnvFile fs l = Inr L \<and> merge_vars R L = Inr m \<and>
     is_directory fs (dirname out) \<and>
     (\<forall>p. map_of (merged_files fs r l out) p =
        (if p = out then Some (File (envContent m))
         else if p = out @ str ''.temp'' then None else map_of fs p))"
proof -
  from mergeEnvironmentFiles_returns[OF assms]
  have c: "map_of fs r \<noteq> Some Directory" "map_of fs l \<noteq> Some Directory"
    "is_directory fs (dirname out)" "map_of fs out \<noteq> Some Directory"
    "map_of fs (out @ str ''.temp'') \<noteq> Some Directory" by auto
  from c(1,2) obtain R L where R: "parseEnvFile fs r = Inr R" and L: "parseEnvFile fs l = Inr L"
    using parseEnvFile_ok_iff by blast
  from mergeEnvironmentFiles_ok[OF R L c(3,4,5)] obtain m' where
    m': "merge_vars R L = Inr m'"
    and e: "mergeEnvironmentFiles fs r l out =
       (Inr m', AList.update out (File (envContent m'))
                 (AList.delete (out @ str ''.temp'')
                    (AList.update (out @ str ''.temp'') (File (envContent m')) fs)))"
    by blast
  from e assms have mm: "m' = m" by simp
  have "map_of (merged_files fs r l out) p =
        (if p = out then Some (File (envContent m))
         else if p = out @ str ''.temp'' then None else map_of fs p)" for p
    using temp_neq[of out] by (simp add: merged_files_def e mm update_conv' delete_conv')
  with R L m' mm c(3) show ?thesis by blast
qed

section \<open>Paths\<close>

lemma path_split:
  assumes "0x2F \<in> set q"
  shows "path_join (dirname q) (basename q) = q"
proof -
  let ?P = "\<lambda>c::16 word. c \<noteq> 0x2F"
  have "dropWhile ?P (rev q) \<noteq> []" using assms by (simp add: dropWhile_eq_Nil_conv)
  moreover have "hd (dropWhile ?P (rev q)) = 0x2F"
    using calculation hd_dropWhile[of ?P "rev q"] by auto
  ultimately have d: "dropWhile ?P (rev q) = 0x2F # drop 1 (dropWhile ?P (rev q))"
    by (cases "dropWhile ?P (rev q)") auto
  have "rev q = takeWhile ?P (rev q) @ dropWhile ?P (rev q)" by simp
  then have "rev q = takeWhile ?P (rev q) @ 0x2F # drop 1 (dropWhile ?P (rev q))"
    using d by metis
  then have "q = rev (takeWhile ?P (rev q) @ 0x2F # drop 1 (dropWhile ?P (rev q)))"
    by (metis rev_rev_ident)
  then show ?thesis by (simp add: path_join_def dirname_def basename_def)
qed

lemma basename_path_join:
  assumes "0x2F \<notin> set n"
  shows "basename (path_join d n) = n"
proof -
  have "takeWhile (\<lambda>c. c \<noteq> 0x2F) (rev n @ 0x2F # rev d) = rev n"
    using assms by (subst takeWhile_append2) auto
  then show ?thesis by (simp add: basename_def path_join_def)
qed

lemma dirname_path_join:
  assumes "0x2F \<notin> set n"
  shows "dirname (path_join d n) = d"
proof -
  have "dropWhile (\<lambda>c. c \<noteq> 0x2F) (rev n @ 0x2F # rev d) = 0x2F # rev d"
    using assms by (subst dropWhile_append2) auto
  then show ?thesis by (simp add: dirname_def path_join_def)
qed

lemma under_path_join: "n \<noteq> [] \<Longrightarrow> under d (path_join d n)"
  by (cases n) (auto simp: under_def path_join_def)

lemma under_has_slash: "under d p \<Longrightarrow> 0x2F \<in> set p"
proof -
  assume "under d p"
  then have "take (length d + 1) p = d @ [0x2F]" by (simp add: under_def)
  then have "0x2F \<in> set (take (length d + 1) p)" by simp
  then show ?thesis by (meson in_set_takeD)
qed

lemma path_join_inject [simp]: "path_join d a = path_join d b \<longleftrightarrow> a = b"
  by (simp add: path_join_def)


lemma basename_no_slash: "0x2F \<notin> set (basename p)"
proof -
  have "c \<noteq> 0x2F" if "c \<in> set (takeWhile (\<lambda>c. c \<noteq> 0x2F) (rev p))" for c
    using set_takeWhileD[OF that] by simp
  then show ?thesis by (auto simp: basename_def)
qed

lemma dirname_no_slash: "0x2F \<notin> set p \<Longrightarrow> dirname p = []"
proof -
  assume "0x2F \<notin> set p"
  then have "\<forall>c \<in> set (rev p). c \<noteq> 0x2F" by auto
  then have "dropWhile (\<lambda>c. c \<noteq> 0x2F) (rev p) = []" by (simp only: dropWhile_eq_Nil_conv)
  then show ?thesis by (simp only: dirname_def drop_Nil rev.simps)
qed

lemma path_join_eq:
  assumes "0x2F \<notin> set a" "0x2F \<notin> set b" "path_join d a = path_join e b"
  shows "d = e \<and> a = b"
proof -
  have "basename (path_join d a) = basename (path_join e b)"
    "dirname (path_join d a) = dirname (path_join e b)" using assms(3) by simp_all
  then show ?thesis using assms(1,2) by (simp add: basename_path_join dirname_path_join)
qed

lemma dropWhile_append_length:
  "\<not> P y \<Longrightarrow> Suc (length ys) \<le> length (dropWhile P (xs @ y # ys))"
  by (induction xs) auto

lemma under_dirname_length:
  assumes "under dir q"
  shows "length dir \<le> length (dirname q)"
proof -
  from assms have t: "take (length dir + 1) q = dir @ [0x2F]" and len: "length dir + 1 < length q"
    by (simp_all add: under_def)
  have "q = take (length dir + 1) q @ drop (length dir + 1) q" by simp
  also have "\<dots> = (dir @ [0x2F]) @ drop (length dir + 1) q" by (simp only: t)
  finally have q: "q = dir @ 0x2F # drop (length dir + 1) q" by simp
  have "rev q = rev (drop (length dir + 1) q) @ 0x2F # rev dir"
    by (subst q) simp
  then have "Suc (length dir) \<le> length (dropWhile (\<lambda>c. c \<noteq> 0x2F) (rev q))"
    using dropWhile_append_length[of "\<lambda>c. c \<noteq> 0x2F" "0x2F" "rev dir" "rev (drop (length dir + 1) q)"]
    by simp
  then show ?thesis by (simp add: dirname_def)
qed
section \<open>The effect of the template copy\<close>

lemma env_path [simp]: "d @ str ''/.env'' = path_join d (str ''.env'')"
  by (simp add: str_def path_join_def)

lemma temp_path [simp]: "d @ str ''/.env.temp'' = path_join d (str ''.env.temp'')"
  by (simp add: str_def path_join_def)

lemma temp_temp_path: "path_join d (str ''.env.temp'') @ str ''.temp'' = path_join d (str ''.env.temp.temp'')"
  by (simp add: str_def path_join_def)

lemma no_slash_env: "0x2F \<notin> set (str ''.env'')"
  by (simp add: str_def)

lemma path_join_name_neq:
  assumes "0x2F \<notin> set a" "0x2F \<notin> set b" "a \<noteq> b"
  shows "path_join d a \<noteq> path_join d' b"
  using path_join_eq[OF assms(1,2)] assms(3) by blast

lemma copy_file_frame:
  assumes "p \<noteq> d" "p \<noteq> path_join d (basename s)"
  shows "map_of (copy_file fs s d) p = map_of fs p"
  using assms
  by (auto simp: copy_file_def Let_def update_conv' split: option.splits node.splits)

lemma copy_file_directory:
  "(map_of (copy_file fs s d) p = Some Directory) = (map_of fs p = Some Directory)"
  by (auto simp: copy_file_def Let_def update_conv' split: option.splits node.splits if_splits)

lemma copy_file_is_directory: "is_directory (copy_file fs s d) x = is_directory fs x"
  by (simp add: is_directory_def copy_file_directory)

lemma copy_file_write:
  assumes "map_of fs s = Some (File t)" "map_of fs d \<noteq> Some Directory" "is_directory fs (dirname d)"
  shows "copy_file fs s d = AList.update d (File t) fs"
  using assms by (simp add: copy_file_def Let_def)

lemma foldl_copy_frame:
  assumes "\<And>q. q \<in> set qs \<Longrightarrow> p \<noteq> T q \<and> p \<noteq> path_join (T q) (basename q)"
  shows "map_of (foldl (\<lambda>acc q. copy_file acc q (T q)) acc qs) p = map_of acc p"
  using assms by (induction qs arbitrary: acc) (simp_all add: copy_file_frame)

lemma foldl_copy_directory:
  "(map_of (foldl (\<lambda>acc q. copy_file acc q (T q)) acc qs) p = Some Directory)
     = (map_of acc p = Some Directory)"
  by (induction qs arbitrary: acc) (simp_all add: copy_file_directory)

lemma foldl_copy_target:
  assumes uniq: "\<And>q. q \<in> set qs \<Longrightarrow> T q = p \<Longrightarrow> q = q0"
    and into: "\<And>q. q \<in> set qs \<Longrightarrow> path_join (T q) (basename q) \<noteq> p"
    and src: "\<And>q. q \<in> set qs \<Longrightarrow> q0 \<noteq> T q \<and> q0 \<noteq> path_join (T q) (basename q)"
    and key0: "T q0 = p"
    and t: "map_of acc q0 = Some (File t)"
    and nd: "map_of acc p \<noteq> Some Directory"
    and d: "is_directory acc (dirname p)"
  shows "map_of (foldl (\<lambda>acc q. copy_file acc q (T q)) acc qs) p
     = (if q0 \<in> set qs then Some (File t) else map_of acc p)"
  using uniq into src t nd d
proof (induction qs arbitrary: acc)
  case Nil
  then show ?case by simp
next
  case (Cons q qs)
  let ?acc = "copy_file acc q (T q)"
  have t': "map_of ?acc q0 = Some (File t)"
    using Cons.prems(3)[of q] Cons.prems(4) by (simp add: copy_file_frame)
  have nd': "map_of ?acc p \<noteq> Some Directory"
    using Cons.prems(5) by (simp add: copy_file_directory)
  have d': "is_directory ?acc (dirname p)"
    using Cons.prems(6) by (simp add: copy_file_is_directory)
  have ih: "map_of (foldl (\<lambda>acc q. copy_file acc q (T q)) ?acc qs) p
     = (if q0 \<in> set qs then Some (File t) else map_of ?acc p)"
    by (rule Cons.IH) (use Cons.prems t' nd' d' in auto)
  show ?case
  proof (cases "q = q0")
    case True
    have "?acc = AList.update p (File t) acc"
      unfolding True key0 using Cons.prems(4,5,6) by (rule copy_file_write)
    then show ?thesis using True ih by (simp add: update_conv')
  next
    case False
    then have "T q \<noteq> p" using Cons.prems(1)[of q] by auto
    moreover have "path_join (T q) (basename q) \<noteq> p" using Cons.prems(2)[of q] by simp
    ultimately have "map_of ?acc p = map_of acc p" by (simp add: copy_file_frame)
    then show ?thesis using False ih by simp
  qed
qed

text \<open>
  No copy of the template search writes onto a plain name in the directory searched,
  other than \<^verbatim>\<open>.env\<close> itself.
\<close>

lemma find_target_neq:
  assumes a: "0x2F \<notin> set a" "a \<noteq> str ''.env''"
    and q: "q = dir \<or> under dir q"
  shows "path_join dir a \<noteq> path_join (dirname q) (str ''.env'') \<and>
         path_join dir a \<noteq> path_join (path_join (dirname q) (str ''.env'')) (basename q)"
proof
  show "path_join dir a \<noteq> path_join (dirname q) (str ''.env'')"
    using a by (simp add: path_join_name_neq no_slash_env)
  show "path_join dir a \<noteq> path_join (path_join (dirname q) (str ''.env'')) (basename q)"
  proof
    assume "path_join dir a = path_join (path_join (dirname q) (str ''.env'')) (basename q)"
    from path_join_eq[OF a(1) basename_no_slash this]
    have dir: "dir = path_join (dirname q) (str ''.env'')" and b: "a = basename q" by simp_all
    from q show False
    proof
      assume "q = dir"
      then have "basename q = str ''.env''"
        using dir no_slash_env by (metis basename_path_join)
      with b a(2) show False by simp
    next
      assume "under dir q"
      from under_dirname_length[OF this] have "length dir \<le> length (dirname q)" .
      moreover have "length dir = length (dirname q) + 5"
        by (subst dir) (simp add: path_join_def str_def)
      ultimately show False by simp
    qed
  qed
qed

lemma find_copy_env_frame:
  assumes "0x2F \<notin> set a" "a \<noteq> str ''.env''"
  shows "map_of (find_copy_env dir n fs) (path_join dir a) = map_of fs (path_join dir a)"
  unfolding find_copy_env_def
  by (rule foldl_copy_frame) (use find_target_neq[OF assms] in auto)

lemma find_copy_env_directory:
  "(map_of (find_copy_env dir n fs) p = Some Directory) = (map_of fs p = Some Directory)"
  unfolding find_copy_env_def by (rule foldl_copy_directory)

lemma find_copy_env_is_directory: "is_directory (find_copy_env dir n fs) d = is_directory fs d"
  by (simp add: is_directory_def find_copy_env_directory)

lemma find_copy_env_target:
  assumes n: "n \<noteq> []" "0x2F \<notin> set n" "n \<noteq> str ''.env''"
    and t: "map_of fs (path_join dir n) = Some (File t)"
    and nd: "map_of fs (path_join dir (str ''.env'')) \<noteq> Some Directory"
    and d: "is_directory fs dir"
  shows "map_of (find_copy_env dir n fs) (path_join dir (str ''.env'')) = Some (File t)"
proof -
  let ?T = "\<lambda>q. path_join (dirname q) (str ''.env'')"
  let ?qs = "filter (\<lambda>p. (p = dir \<or> under dir p) \<and> basename p = n) (map fst fs)"
  let ?q0 = "path_join dir n"
  let ?p = "path_join dir (str ''.env'')"
  have uniq: "q = ?q0" if "q \<in> set ?qs" "?T q = ?p" for q
  proof -
    from that(1) have m: "q = dir \<or> under dir q" and b: "basename q = n" by auto
    from that(2) have dq: "dirname q = dir" by (simp add: path_join_def)
    show ?thesis
    proof (cases "0x2F \<in> set q")
      case True
      from path_split[OF True] dq b show ?thesis by simp
    next
      case False
      then have "dirname q = []" by (rule dirname_no_slash)
      moreover from False m have "q = dir" using under_has_slash by blast
      ultimately have "q = []" using dq by simp
      then have "basename q = []" by (simp add: basename_def)
      with b n(1) show ?thesis by simp
    qed
  qed
  have into: "path_join (?T q) (basename q) \<noteq> ?p" if "q \<in> set ?qs" for q
  proof
    assume "path_join (?T q) (basename q) = ?p"
    from path_join_eq[OF basename_no_slash no_slash_env this] that n(3) show False by auto
  qed
  have src: "?q0 \<noteq> ?T q \<and> ?q0 \<noteq> path_join (?T q) (basename q)" if "q \<in> set ?qs" for q
    using find_target_neq[OF n(2,3), of q dir] that by auto
  have "?q0 \<in> fst ` set fs" using t by (metis map_of_eq_None_iff option.distinct(1))
  then have mem: "?q0 \<in> set ?qs" using n by (simp add: basename_path_join under_path_join)
  have key0: "?T ?q0 = ?p" using n(2) by (simp add: dirname_path_join)
  have d': "is_directory fs (dirname ?p)" using d no_slash_env by (simp add: dirname_path_join)
  show ?thesis
    unfolding find_copy_env_def
    using foldl_copy_target[where T = ?T and qs = ?qs and p = ?p and ?q0.0 = ?q0 and t = t and acc = fs,
        OF uniq into src key0 t nd d'] mem
    by simp
qed

lemma find_copy_env_absent:
  assumes n: "0x2F \<notin> set n" "n \<noteq> str ''.env''" and s: "0x2F \<in> set dir"
    and t: "map_of fs (path_join d' n) = None"
  shows "map_of (find_copy_env dir n fs) (path_join d' (str ''.env'')) = map_of fs (path_join d' (str ''.env''))"
  unfolding find_copy_env_def
proof (rule foldl_copy_frame)
  fix q assume q: "q \<in> set (filter (\<lambda>p. (p = dir \<or> under dir p) \<and> basename p = n) (map fst fs))"
  then have m: "q = dir \<or> under dir q" and b: "basename q = n" and k: "q \<in> fst ` set fs" by auto
  from m s have sl: "0x2F \<in> set q" using under_has_slash by blast
  have 1: "path_join d' (str ''.env'') \<noteq> path_join (dirname q) (str ''.env'')"
  proof
    assume "path_join d' (str ''.env'') = path_join (dirname q) (str ''.env'')"
    then have "dirname q = d'" by (simp add: path_join_def)
    with path_split[OF sl] b have "q = path_join d' n" by simp
    with k t show False by (simp add: map_of_eq_None_iff)
  qed
  have 2: "path_join d' (str ''.env'') \<noteq> path_join (path_join (dirname q) (str ''.env'')) (basename q)"
  proof
    assume "path_join d' (str ''.env'') = path_join (path_join (dirname q) (str ''.env'')) (basename q)"
    from path_join_eq[OF no_slash_env basename_no_slash this] b n(2) show False by simp
  qed
  from 1 2 show "path_join d' (str ''.env'') \<noteq> path_join (dirname q) (str ''.env'') \<and>
     path_join d' (str ''.env'') \<noteq> path_join (path_join (dirname q) (str ''.env'')) (basename q)"
    by simp
qed
section \<open>The environment file after an install\<close>

lemmas exec_simps = steps.simps and_then_def try_catch_def succeed_def throw_def runCommand_if merge_files_eq

lemma no_slash_names:
  "0x2F \<notin> set (str ''.env.temp'')" "0x2F \<notin> set (str ''.env.temp.temp'')"
  by (simp_all add: str_def)

lemma can_merge_iff:
  "(\<exists>m. fst (mergeEnvironmentFiles fs r l out) = Inr m) = can_merge fs r l out"
proof
  assume "\<exists>m. fst (mergeEnvironmentFiles fs r l out) = Inr m"
  then show "can_merge fs r l out"
    unfolding can_merge_def using mergeEnvironmentFiles_returns by blast
next
  assume c: "can_merge fs r l out"
  then obtain R L where R: "parseEnvFile fs r = Inr R" and L: "parseEnvFile fs l = Inr L"
    unfolding can_merge_def using parseEnvFile_ok_iff by blast
  from mergeEnvironmentFiles_ok[OF R L, of out] c
  show "\<exists>m. fst (mergeEnvironmentFiles fs r l out) = Inr m"
    by (auto simp: can_merge_def)
qed

lemma can_merge_find: "can_merge (find_copy_env dir n fs) r l out = can_merge fs r l out"
  by (simp add: can_merge_def find_copy_env_directory find_copy_env_is_directory)

lemma can_merge_merged:
  assumes "can_merge fs r l out"
  shows "can_merge (merged_files fs r l out) r l out"
proof -
  from assms obtain m where m: "fst (mergeEnvironmentFiles fs r l out) = Inr m"
    using can_merge_iff by blast
  from merged_files_ok[OF m] have
    look: "\<And>p. map_of (merged_files fs r l out) p =
        (if p = out then Some (File (envContent m))
         else if p = out @ str ''.temp'' then None else map_of fs p)" by blast
  show ?thesis
    using assms unfolding can_merge_def
    by (simp add: merged_files_directory merged_files_is_directory)
qed

lemma rm_force_other: "p \<noteq> q \<Longrightarrow> map_of (effect h (RmForce q) fs) p = map_of fs p"
  by (auto simp: delete_conv' split: option.splits node.splits)

text \<open>The store that a successful single-container install leaves behind.\<close>

lemma single_install_files:
  assumes ok: "installDockerService h config repoPath w = (Inr (), w')"
  defines "F1 \<equiv> (if truthy (envFile config)
                  then find_copy_env repoPath (interpolate (envFile config)) (files w) else files w)"
  shows "\<exists>m. fst (mergeEnvironmentFiles F1 (str ''/workspace/.env'') (path_join repoPath (str ''.env''))
                   (path_join repoPath (str ''.env.temp''))) = Inr m \<and>
     files w' = effect h (RmForce (path_join repoPath (str ''.env.temp'')))
       (find_copy_env repoPath (interpolate (envFile config))
          (copy_file (merged_files F1 (str ''/workspace/.env'') (path_join repoPath (str ''.env''))
                        (path_join repoPath (str ''.env.temp'')))
             (path_join repoPath (str ''.env.temp'')) (path_join repoPath (str ''.env''))))"
  using ok unfolding F1_def
  by (cases "truthy (envFile config)")
     (auto simp: installDockerService_def Let_def exec_simps split: if_splits sum.splits)

lemma local_neq_temp:
  "path_join d (str ''.env'') \<noteq> path_join d (str ''.env.temp'')"
  "path_join d (str ''.env'') \<noteq> path_join d (str ''.env.temp.temp'')"
  "path_join d (str ''.env.temp'') \<noteq> path_join d (str ''.env.temp.temp'')"
  by (simp_all add: str_def)

text \<open>
  After a merge that has returned, the copy of the scratch file onto \<^verbatim>\<open>.env\<close> writes
  the serialised merged mapping there.
\<close>

lemma copy_after_merge:
  assumes m: "fst (mergeEnvironmentFiles fs r (path_join d (str ''.env'')) (path_join d (str ''.env.temp''))) = Inr m"
  defines "F2 \<equiv> merged_files fs r (path_join d (str ''.env'')) (path_join d (str ''.env.temp''))"
  shows "copy_file F2 (path_join d (str ''.env.temp'')) (path_join d (str ''.env''))
           = AList.update (path_join d (str ''.env'')) (File (envContent m)) F2"
    and "map_of F2 (path_join d (str ''.env.temp'')) = Some (File (envContent m))"
    and "is_directory F2 d"
    and "\<And>p. p \<noteq> path_join d (str ''.env.temp'') \<Longrightarrow> p \<noteq> path_join d (str ''.env.temp.temp'')
           \<Longrightarrow> map_of F2 p = map_of fs p"
proof -
  let ?local = "path_join d (str ''.env'')" and ?temp = "path_join d (str ''.env.temp'')"
  from merged_files_ok[OF m] obtain R L where
    L: "parseEnvFile fs ?local = Inr L"
    and dir: "is_directory fs (dirname ?temp)"
    and look: "\<And>p. map_of F2 p = (if p = ?temp then Some (File (envContent m))
         else if p = ?temp @ str ''.temp'' then None else map_of fs p)"
    unfolding F2_def by blast
  show t: "map_of F2 ?temp = Some (File (envContent m))" by (simp add: look)
  show other: "\<And>p. p \<noteq> ?temp \<Longrightarrow> p \<noteq> path_join d (str ''.env.temp.temp'') \<Longrightarrow> map_of F2 p = map_of fs p"
    by (simp add: look temp_temp_path)
  have "is_directory fs d" using dir no_slash_names by (simp add: dirname_path_join)
  then show d2: "is_directory F2 d" by (simp add: F2_def merged_files_is_directory)
  have "map_of fs ?local \<noteq> Some Directory" using L parseEnvFile_ok_iff by blast
  then have nd: "map_of F2 ?local \<noteq> Some Directory"
    using local_neq_temp[of d] by (simp add: other)
  have "is_directory F2 (dirname ?local)" using d2 no_slash_env by (simp add: dirname_path_join)
  with t nd show "copy_file F2 ?temp ?local = AList.update ?local (File (envContent m)) F2"
    by (rule copy_file_write)
qed

lemma single_install_scratch:
  assumes ok: "installDockerService h config repoPath w = (Inr (), w')"
  shows "map_of (files w') (repoPath @ str ''/.env.temp'') = None"
proof -
  let ?root = "str ''/workspace/.env''"
  let ?local = "path_join repoPath (str ''.env'')"
  let ?temp = "path_join repoPath (str ''.env.temp'')"
  define F1 where "F1 = (if truthy (envFile config)
                  then find_copy_env repoPath (interpolate (envFile config)) (files w) else files w)"
  define F2 where "F2 = merged_files F1 ?root ?local ?temp"
  define F6 where "F6 = find_copy_env repoPath (interpolate (envFile config)) (copy_file F2 ?temp ?local)"
  from single_install_files[OF ok] obtain m where
    m: "fst (mergeEnvironmentFiles F1 ?root ?local ?temp) = Inr m"
    and w': "files w' = effect h (RmForce ?temp) F6"
    unfolding F1_def F2_def F6_def by blast
  note c = copy_after_merge[OF m, folded F2_def]
  have "map_of F6 ?temp = map_of (copy_file F2 ?temp ?local) ?temp"
    unfolding F6_def by (rule find_copy_env_frame) (simp_all add: str_def)
  also have "\<dots> = Some (File (envContent m))"
    using c(2) local_neq_temp[of repoPath] by (simp add: c(1) update_conv')
  finally show ?thesis by (simp add: w' delete_conv')
qed

lemma single_install_env:
  assumes ok: "installDockerService h config repoPath w = (Inr (), w')"
    and env: "envFile config = Some n"
    and n: "n \<noteq> []" "0x2F \<notin> set n" "n \<noteq> str ''.env''" "n \<noteq> str ''.env.temp''"
      "n \<noteq> str ''.env.temp.temp''"
    and tpl: "map_of (files w) (path_join repoPath n) = Some (File template)"
  shows "map_of (files w') (path_join repoPath (str ''.env'')) = Some (File template) \<and>
         map_of (files w') (path_join repoPath n) = Some (File template)"
proof -
  let ?root = "str ''/workspace/.env''"
  let ?local = "path_join repoPath (str ''.env'')"
  let ?temp = "path_join repoPath (str ''.env.temp'')"
  let ?tpl = "path_join repoPath n"
  define F1 where "F1 = find_copy_env repoPath n (files w)"
  define F2 where "F2 = merged_files F1 ?root ?local ?temp"
  have tr: "truthy (envFile config)" "interpolate (envFile config) = n" using env n(1) by simp_all
  have f1: "(if truthy (envFile config) then find_copy_env repoPath n (files w) else files w) = F1"
    using tr by (simp add: F1_def)
  from single_install_files[OF ok] obtain m where
    m: "fst (mergeEnvironmentFiles F1 ?root ?local ?temp) = Inr m"
    and w': "files w' = effect h (RmForce ?temp) (find_copy_env repoPath n (copy_file F2 ?temp ?local))"
    unfolding tr(2) f1 F2_def by blast
  note c = copy_after_merge[OF m, folded F2_def]
  define G3 where "G3 = AList.update ?local (File (envContent m)) F2"
  define F6 where "F6 = find_copy_env repoPath n G3"
  have w'': "files w' = effect h (RmForce ?temp) F6" by (simp add: w' c(1) F6_def G3_def)
  have ne: "?tpl \<noteq> ?local" "?tpl \<noteq> ?temp" "?tpl \<noteq> path_join repoPath (str ''.env.temp.temp'')"
    using n by (simp_all add: path_join_name_neq no_slash_env no_slash_names)
  have 1: "map_of F1 ?tpl = Some (File template)"
    unfolding F1_def using tpl n by (simp add: find_copy_env_frame)
  have 2: "map_of F2 ?tpl = Some (File template)" using 1 ne by (simp add: c(4))
  have 3: "map_of G3 ?tpl = Some (File template)" using 2 ne by (simp add: G3_def update_conv')
  have l3: "map_of G3 ?local \<noteq> Some Directory" by (simp add: G3_def update_conv')
  have "repoPath \<noteq> ?local" by (simp add: path_join_def)
  then have d3: "is_directory G3 repoPath"
    using c(3) by (auto simp: G3_def is_directory_def update_conv')
  have 6: "map_of F6 ?local = Some (File template)"
    unfolding F6_def using n(1,2,3) 3 l3 d3 by (rule find_copy_env_target)
  have 7: "map_of F6 ?tpl = Some (File template)"
    unfolding F6_def using n 3 by (simp add: find_copy_env_frame)
  show ?thesis
    using 6 7 ne local_neq_temp[of repoPath] by (simp add: w'' rm_force_other del: effect.simps)
qed
section \<open>Structure detection\<close>

lemma detect_root_only:
  assumes "\<And>f. f \<in> set descriptor_names \<Longrightarrow>
     existsSync fs (path_join repoPath f) = existsSync fs' (path_join repoPath f)"
  shows "detectRepoStructure fs repoPath = detectRepoStructure fs' repoPath"
proof -
  have "find (\<lambda>file. existsSync fs (path_join repoPath file)) composeFiles =
        find (\<lambda>file. existsSync fs' (path_join repoPath file)) composeFiles"
    by (rule find_cong) (simp_all add: assms descriptor_names_def)
  then show ?thesis using assms by (simp add: detectRepoStructure_def descriptor_names_def)
qed

lemma descriptor_name_plain:
  assumes "f \<in> set descriptor_names"
  shows "0x2F \<notin> set f \<and> f \<noteq> str ''.env'' \<and> f \<noteq> str ''.env.temp'' \<and> f \<noteq> str ''.env.temp.temp'' \<and> f \<noteq> []"
  using assms by (auto simp: descriptor_names_def composeFiles_def str_def)

lemma exists_after_prepare:
  assumes "f \<in> set descriptor_names"
  shows "existsSync (merged_files (find_copy_env repoPath n fs) r (path_join repoPath (str ''.env''))
            (path_join repoPath (str ''.env.temp''))) (path_join repoPath f)
         = existsSync fs (path_join repoPath f)"
proof -
  from descriptor_name_plain[OF assms] have p: "0x2F \<notin> set f" "f \<noteq> str ''.env''"
    "f \<noteq> str ''.env.temp''" "f \<noteq> str ''.env.temp.temp''" by auto
  have "path_join repoPath f \<noteq> path_join repoPath (str ''.env.temp'')"
       "path_join repoPath f \<noteq> path_join repoPath (str ''.env.temp'') @ str ''.temp''"
    using p by (simp_all add: temp_temp_path)
  then show ?thesis
    using p by (simp add: existsSync_def merged_files_other find_copy_env_frame)
qed

lemma detect_after_prepare:
  "detectRepoStructure (merged_files (find_copy_env repoPath n fs) r (path_join repoPath (str ''.env''))
            (path_join repoPath (str ''.env.temp''))) repoPath
   = detectRepoStructure fs repoPath"
  by (rule detect_root_only) (rule exists_after_prepare)

lemma first_command_template:
  "(if truthy (envFile config)
    then runCommand h (FindCopyEnv repoPath (interpolate (envFile config)))
    else runCommand h (FindCopyEnv repoPath (str ''.env.example'')))
   = runCommand h (FindCopyEnv repoPath (template_name config))"
  by (simp add: template_name_def)

lemma composed_install_env:
  assumes ok: "installDockerComposeService h config repoPath w = (Inr (), w')"
    and dc: "hasDockerCompose (detectRepoStructure (files w) repoPath)"
  shows "\<exists>rootVars localVars mergedVars.
     parseEnvFile (find_copy_env repoPath (template_name config) (files w)) (str ''/workspace/.env'')
       = Inr rootVars \<and>
     parseEnvFile (find_copy_env repoPath (template_name config) (files w)) (repoPath @ str ''/.env'')
       = Inr localVars \<and>
     merge_vars rootVars localVars = Inr mergedVars \<and>
     map_of (files w') (repoPath @ str ''/.env'') = Some (File (envContent mergedVars)) \<and>
     map_of (files w') (repoPath @ str ''/.env.temp'') = None"
proof -
  let ?root = "str ''/workspace/.env''"
  let ?local = "path_join repoPath (str ''.env'')"
  let ?temp = "path_join repoPath (str ''.env.temp'')"
  let ?G1 = "find_copy_env repoPath (template_name config) (files w)"
  let ?G2 = "merged_files ?G1 ?root ?local ?temp"
  have dc2: "hasDockerCompose (detectRepoStructure ?G2 repoPath)"
    using dc by (simp add: detect_after_prepare)
  from ok dc2 obtain m where
    m: "fst (mergeEnvironmentFiles ?G1 ?root ?local ?temp) = Inr m"
    and w': "files w' = effect h (RmForce ?temp) (copy_file ?G2 ?temp ?local)"
    by (auto simp: installDockerComposeService_def first_command_template Let_def exec_simps
        isDockerComposeAvailable_def installDockerCompose_def simp del: effect.simps
        split: if_splits sum.splits)
       (simp_all)
  note c = copy_after_merge[OF m]
  from merged_files_ok[OF m] obtain R L where
    RL: "parseEnvFile ?G1 ?root = Inr R" "parseEnvFile ?G1 ?local = Inr L" "merge_vars R L = Inr m"
    by blast
  have t: "map_of (copy_file ?G2 ?temp ?local) ?temp = Some (File (envContent m))"
    using c(2) local_neq_temp[of repoPath] by (simp add: c(1) update_conv')
  have l: "map_of (copy_file ?G2 ?temp ?local) ?local = Some (File (envContent m))"
    by (simp add: c(1) update_conv')
  have "map_of (files w') ?local = Some (File (envContent m))"
    using l local_neq_temp[of repoPath] by (simp add: w' rm_force_other del: effect.simps)
  moreover have "map_of (files w') ?temp = None"
    using t by (simp add: w' delete_conv')
  ultimately show ?thesis using RL by auto
qed
lemma cooperative_outcome [simp]: "outcome (cooperative_host tree) t c = Exit 0"
  by (simp add: cooperative_host_def)

lemma single_install_no_template:
  assumes ok: "installDockerService h config repoPath w = (Inr (), w')"
    and env: "envFile config = Some n"
    and n: "n \<noteq> []" "0x2F \<notin> set n" "n \<noteq> str ''.env''" "n \<noteq> str ''.env.temp''"
      "n \<noteq> str ''.env.temp.temp''"
    and s: "0x2F \<in> set repoPath"
    and tpl: "map_of (files w) (path_join repoPath n) = None"
    and m: "fst (mergeEnvironmentFiles (find_copy_env repoPath n (files w)) (str ''/workspace/.env'')
              (path_join repoPath (str ''.env'')) (path_join repoPath (str ''.env.temp''))) = Inr m"
  shows "map_of (files w') (path_join repoPath (str ''.env'')) = Some (File (envContent m)) \<and>
         map_of (files w') (path_join repoPath n) = None"
proof -
  let ?root = "str ''/workspace/.env''"
  let ?local = "path_join repoPath (str ''.env'')"
  let ?temp = "path_join repoPath (str ''.env.temp'')"
  let ?tpl = "path_join repoPath n"
  define F1 where "F1 = find_copy_env repoPath n (files w)"
  define F2 where "F2 = merged_files F1 ?root ?local ?temp"
  have tr: "truthy (envFile config)" "interpolate (envFile config) = n" using env n(1) by simp_all
  have f1: "(if truthy (envFile config) then find_copy_env repoPath n (files w) else files w) = F1"
    using tr by (simp add: F1_def)
  from single_install_files[OF ok]
  have w': "files w' = effect h (RmForce ?temp) (find_copy_env repoPath n (copy_file F2 ?temp ?local))"
    unfolding tr(2) f1 F2_def by blast
  note c = copy_after_merge[OF m, folded F1_def, folded F2_def]
  define G3 where "G3 = AList.update ?local (File (envContent m)) F2"
  define F6 where "F6 = find_copy_env repoPath n G3"
  have w'': "files w' = effect h (RmForce ?temp) F6" by (simp add: w' c(1) F6_def G3_def)
  have ne: "?tpl \<noteq> ?local" "?tpl \<noteq> ?temp" "?tpl \<noteq> path_join repoPath (str ''.env.temp.temp'')"
    using n by (simp_all add: path_join_name_neq no_slash_env no_slash_names)
  have 1: "map_of F1 ?tpl = None"
    unfolding F1_def using tpl n by (simp add: find_copy_env_frame)
  have 2: "map_of F2 ?tpl = None" using 1 ne by (simp add: c(4))
  have 3: "map_of G3 ?tpl = None" "map_of G3 ?local = Some (File (envContent m))"
    using 2 ne by (simp_all add: G3_def update_conv')
  have 6: "map_of F6 ?local = Some (File (envContent m))"
    unfolding F6_def using n(2,3) s 3 by (simp add: find_copy_env_absent)
  have 7: "map_of F6 ?tpl = None"
    unfolding F6_def using n 3 by (simp add: find_copy_env_frame)
  show ?thesis
    using 6 7 ne local_neq_temp[of repoPath] by (simp add: w'' rm_force_other del: effect.simps)
qed

lemma single_cooperative:
  assumes "can_merge (files w) (str ''/workspace/.env'') (path_join repoPath (str ''.env''))
             (path_join repoPath (str ''.env.temp''))"
  shows "fst (installDockerService (cooperative_host tree) config repoPath w) = Inr ()"
proof -
  let ?root = "str ''/workspace/.env''"
  let ?local = "path_join repoPath (str ''.env'')"
  let ?temp = "path_join repoPath (str ''.env.temp'')"
  let ?F1 = "if truthy (envFile config)
             then find_copy_env repoPath (interpolate (envFile config)) (files w) else files w"
  have "can_merge ?F1 ?root ?local ?temp" using assms by (simp add: can_merge_find)
  then obtain m where "fst (mergeEnvironmentFiles ?F1 ?root ?local ?temp) = Inr m"
    using can_merge_iff by blast
  then show ?thesis
    by (cases "truthy (envFile config)")
       (simp_all add: installDockerService_def Let_def exec_simps)
qed

lemma root_env_split: "str ''/workspace/.env'' = path_join (str ''/workspace'') (str ''.env'')"
  by (simp add: str_def path_join_def)

lemma recruiter_env: "envFile recruiter_config = Some (str ''.env.example'')"
  by (simp add: recruiter_config_def)

lemma example_name:
  "str ''.env.example'' \<noteq> []" "0x2F \<notin> set (str ''.env.example'')"
  "str ''.env.example'' \<noteq> str ''.env''" "str ''.env.example'' \<noteq> str ''.env.temp''"
  "str ''.env.example'' \<noteq> str ''.env.temp.temp''"
  by (simp_all add: str_def)

text \<open>
  Claim C7, as amended. After a successful single-container install the merge scratch
  file is gone, and when a template file of the configured name lies in the repository
  root, the repository's \<^verbatim>\<open>.env\<close> again holds the text of that template, which is
  itself unchanged. After a successful composed install (a compose descriptor was
  detected) the repository's \<^verbatim>\<open>.env\<close> holds the serialised merged mapping, and the
  scratch file is gone.
\<close>

theorem env_file_after_install:
  "(installDockerService h config repoPath w = (Inr (), w') \<longrightarrow>
      map_of (files w') (repoPath @ str ''/.env.temp'') = None \<and>
      (envFile config = Some n \<and> n \<noteq> [] \<and> 0x2F \<notin> set n \<and> n \<noteq> str ''.env'' \<and>
       n \<noteq> str ''.env.temp'' \<and> n \<noteq> str ''.env.temp.temp'' \<and>
       map_of (files w) (path_join repoPath n) = Some (File template)
       \<longrightarrow> map_of (files w') (repoPath @ str ''/.env'') = Some (File template) \<and>
           map_of (files w') (path_join repoPath n) = Some (File template)))
   \<and> (installDockerComposeService h config repoPath v = (Inr (), v') \<and>
       hasDockerCompose (detectRepoStructure (files v) repoPath) \<longrightarrow>
       (\<exists>rootVars localVars mergedVars.
          parseEnvFile (find_copy_env repoPath (template_name config) (files v)) (str ''/workspace/.env'')
            = Inr rootVars \<and>
          parseEnvFile (find_copy_env repoPath (template_name config) (files v)) (repoPath @ str ''/.env'')
            = Inr localVars \<and>
          merge_vars rootVars localVars = Inr mergedVars \<and>
          map_of (files v') (repoPath @ str ''/.env'') = Some (File (envContent mergedVars)) \<and>
          map_of (files v') (repoPath @ str ''/.env.temp'') = None))"
proof (intro conjI impI)
  assume "installDockerService h config repoPath w = (Inr (), w')"
  then show "map_of (files w') (repoPath @ str ''/.env.temp'') = None"
    by (rule single_install_scratch)
next
  assume ok: "installDockerService h config repoPath w = (Inr (), w')"
    and a: "envFile config = Some n \<and> n \<noteq> [] \<and> 0x2F \<notin> set n \<and> n \<noteq> str ''.env'' \<and>
       n \<noteq> str ''.env.temp'' \<and> n \<noteq> str ''.env.temp.temp'' \<and>
       map_of (files w) (path_join repoPath n) = Some (File template)"
  from single_install_env[OF ok, of n template] a
  show "map_of (files w') (repoPath @ str ''/.env'') = Some (File template)"
    "map_of (files w') (path_join repoPath n) = Some (File template)" by simp_all
next
  assume "installDockerComposeService h config repoPath v = (Inr (), v') \<and>
       hasDockerCompose (detectRepoStructure (files v) repoPath)"
  then show "\<exists>rootVars localVars mergedVars.
          parseEnvFile (find_copy_env repoPath (template_name config) (files v)) (str ''/workspace/.env'')
            = Inr rootVars \<and>
          parseEnvFile (find_copy_env repoPath (template_name config) (files v)) (repoPath @ str ''/.env'')
            = Inr localVars \<and>
          merge_vars rootVars localVars = Inr mergedVars \<and>
          map_of (files v') (repoPath @ str ''/.env'') = Some (File (envContent mergedVars)) \<and>
          map_of (files v') (repoPath @ str ''/.env.temp'') = None"
    using composed_install_env by blast
qed

lemma composed_cooperative:
  assumes d: "hasDockerCompose (detectRepoStructure (files w) repoPath) \<or>
           hasDockerfile (detectRepoStructure (files w) repoPath)"
    and c: "can_merge (files w) (str ''/workspace/.env'') (path_join repoPath (str ''.env''))
             (path_join repoPath (str ''.env.temp''))"
  shows "fst (installDockerComposeService (cooperative_host tree) config repoPath w) = Inr ()"
proof -
  let ?root = "str ''/workspace/.env''"
  let ?local = "path_join repoPath (str ''.env'')"
  let ?temp = "path_join repoPath (str ''.env.temp'')"
  let ?G1 = "find_copy_env repoPath (template_name config) (files w)"
  let ?G2 = "merged_files ?G1 ?root ?local ?temp"
  let ?W2 = "\<lparr>files = ?G2, trace = trace w @ [Run (FindCopyEnv repoPath (template_name config)),
                 Merge ?root ?local ?temp]\<rparr>"
  have c1: "can_merge ?G1 ?root ?local ?temp" using c by (simp add: can_merge_find)
  then obtain m where m: "fst (mergeEnvironmentFiles ?G1 ?root ?local ?temp) = Inr m"
    using can_merge_iff by blast
  from can_merge_merged[OF c1] have "can_merge (files ?W2) ?root ?local ?temp" by simp
  from single_cooperative[OF this, of tree config]
  have s: "fst (installDockerService (cooperative_host tree) config repoPath ?W2) = Inr ()" .
  show ?thesis
    using d m s
    by (cases "installDockerService (cooperative_host tree) config repoPath ?W2")
       (auto simp: installDockerComposeService_def first_command_template Let_def
        exec_simps isDockerComposeAvailable_def installDockerCompose_def detect_after_prepare)
qed

lemma detect_with_compose:
  "detectRepoStructure (files world_with_compose) recruiter_path
   = \<lparr>hasDockerCompose = True, hasDockerfile = True, composeFile = Some (str ''docker-compose.yml'')\<rparr>"
  by (simp add: detectRepoStructure_def composeFiles_def existsSync_def world_with_compose_def
      recruiter_path_def path_join_def str_def)

lemma detect_with_template:
  "detectRepoStructure (files world_with_template) recruiter_path
   = \<lparr>hasDockerCompose = False, hasDockerfile = True, composeFile = None\<rparr>"
  by (simp add: detectRepoStructure_def composeFiles_def existsSync_def world_with_template_def
      recruiter_path_def path_join_def str_def)

lemma recruiter_paths:
  "recruiter_path @ str ''/.env'' = str ''/workspace/foloup/.env''"
  "recruiter_path @ str ''/.env.temp'' = str ''/workspace/foloup/.env.temp''"
  "path_join recruiter_path (str ''.env.example'') = str ''/workspace/foloup/.env.example''"
  "path_join recruiter_path (str ''.env'') = str ''/workspace/foloup/.env''"
  "path_join recruiter_path (str ''.env.temp'') = str ''/workspace/foloup/.env.temp''"
  by (simp_all add: recruiter_path_def path_join_def str_def del: env_path temp_path)

lemma can_merge_worlds:
  "can_merge (files world_with_template) (str ''/workspace/.env'') (path_join recruiter_path (str ''.env''))
     (path_join recruiter_path (str ''.env.temp''))"
  "can_merge (files world_with_compose) (str ''/workspace/.env'') (path_join recruiter_path (str ''.env''))
     (path_join recruiter_path (str ''.env.temp''))"
  "can_merge (files world_without_template) (str ''/workspace/.env'') (path_join recruiter_path (str ''.env''))
     (path_join recruiter_path (str ''.env.temp''))"
  unfolding recruiter_paths
  by (simp_all add: can_merge_def is_directory_def dirname_def world_with_template_def
      world_with_compose_def world_without_template_def str_def)
text \<open>
  The theorem on a host where every command succeeds, for the catalog entry
  \<^verbatim>\<open>ai-recruiter\<close>: a repository with a template, and one with a compose descriptor.
\<close>

theorem env_file_after_install_witness:
  "fst (installDockerService (cooperative_host []) recruiter_config recruiter_path world_with_template)
     = Inr () \<and>
   map_of (files (snd (installDockerService (cooperative_host []) recruiter_config recruiter_path
       world_with_template))) (str ''/workspace/foloup/.env'') = Some (File (str ''SECRET='')) \<and>
   map_of (files (snd (installDockerService (cooperative_host []) recruiter_config recruiter_path
       world_with_template))) (str ''/workspace/foloup/.env.temp'') = None \<and>
   fst (installDockerComposeService (cooperative_host []) recruiter_config recruiter_path world_with_compose)
     = Inr () \<and>
   hasDockerCompose (detectRepoStructure (files world_with_compose) recruiter_path) \<and>
   map_of (files (snd (installDockerComposeService (cooperative_host []) recruiter_config recruiter_path
       world_with_compose))) (str ''/workspace/foloup/.env.temp'') = None \<and>
   (\<exists>mergedVars. map_of (files (snd (installDockerComposeService (cooperative_host []) recruiter_config
       recruiter_path world_with_compose))) (str ''/workspace/foloup/.env'')
         = Some (File (envContent mergedVars)))"
proof -
  let ?h = "cooperative_host []"
  let ?n = "str ''.env.example''"
  obtain r w' where run: "installDockerService ?h recruiter_config recruiter_path world_with_template = (r, w')"
    by (cases "installDockerService ?h recruiter_config recruiter_path world_with_template")
  have r: "r = Inr ()"
    using single_cooperative[OF can_merge_worlds(1), of "[]" recruiter_config] run by simp
  obtain s v' where crun: "installDockerComposeService ?h recruiter_config recruiter_path world_with_compose = (s, v')"
    by (cases "installDockerComposeService ?h recruiter_config recruiter_path world_with_compose")
  have dc: "hasDockerCompose (detectRepoStructure (files world_with_compose) recruiter_path)"
    by (simp add: detect_with_compose)
  have s: "s = Inr ()"
    using composed_cooperative[OF _ can_merge_worlds(2), of "[]" recruiter_config] dc crun by simp
  have tpl: "map_of (files world_with_template) (path_join recruiter_path ?n) = Some (File (str ''SECRET=''))"
    by (simp add: world_with_template_def recruiter_path_def path_join_def str_def)
  note inst = env_file_after_install[of ?h recruiter_config recruiter_path world_with_template w' ?n
      "str ''SECRET=''" world_with_compose v']
  from inst run r recruiter_env example_name tpl
  have a: "map_of (files w') (recruiter_path @ str ''/.env.temp'') = None"
    "map_of (files w') (recruiter_path @ str ''/.env'') = Some (File (str ''SECRET=''))"
    by (simp_all del: env_path temp_path)
  from inst crun s dc
  obtain m where b: "map_of (files v') (recruiter_path @ str ''/.env'') = Some (File (envContent m))"
    "map_of (files v') (recruiter_path @ str ''/.env.temp'') = None"
    by (auto simp del: env_path temp_path)
  show ?thesis
    using a b run r crun s dc by (auto simp: recruiter_paths simp del: env_path temp_path)
qed

text \<open>
  Claim C7 as stated fails where the repository root has no template file: the install
  succeeds, and the repository's \<^verbatim>\<open>.env\<close> is left holding the merged content with
  the root's value, while no template exists that it could equal.
\<close>

theorem single_install_without_template:
  "fst (installDockerService (cooperative_host []) recruiter_config recruiter_path world_without_template)
     = Inr () \<and>
   map_of (files (snd (installDockerService (cooperative_host []) recruiter_config recruiter_path
       world_without_template))) (str ''/workspace/foloup/.env'') = Some (File (str ''SECRET=1'')) \<and>
   map_of (files (snd (installDockerService (cooperative_host []) recruiter_config recruiter_path
       world_without_template))) (str ''/workspace/foloup/.env.example'') = None"
proof -
  let ?h = "cooperative_host []"
  let ?n = "str ''.env.example''"
  let ?fs = "files world_without_template"
  let ?root = "str ''/workspace/.env''"
  let ?local = "path_join recruiter_path (str ''.env'')"
  let ?temp = "path_join recruiter_path (str ''.env.temp'')"
  let ?F1 = "find_copy_env recruiter_path ?n ?fs"
  obtain r w' where run: "installDockerService ?h recruiter_config recruiter_path world_without_template = (r, w')"
    by (cases "installDockerService ?h recruiter_config recruiter_path world_without_template")
  have r: "r = Inr ()"
    using single_cooperative[OF can_merge_worlds(3), of "[]" recruiter_config] run by simp
  have sl: "0x2F \<in> set recruiter_path" by (simp add: recruiter_path_def str_def)
  have tpl: "map_of ?fs (path_join recruiter_path ?n) = None"
    by (simp add: world_without_template_def recruiter_path_def path_join_def str_def)
  have rt: "map_of ?fs (path_join (str ''/workspace'') ?n) = None"
    by (simp add: world_without_template_def path_join_def str_def)
  have "map_of ?F1 ?root = map_of ?fs ?root"
    unfolding root_env_split using example_name sl rt by (simp add: find_copy_env_absent)
  also have "\<dots> = Some (File (str ''SECRET=1''))"
    by (simp add: world_without_template_def str_def)
  finally have pr: "parseEnvFile ?F1 ?root = Inr (parse_text (str ''SECRET=1''))"
    by (simp add: parseEnvFile_node)
  have "map_of ?F1 ?local = map_of ?fs ?local"
    using example_name sl tpl by (simp add: find_copy_env_absent)
  also have "\<dots> = None"
    by (simp add: world_without_template_def recruiter_path_def path_join_def str_def)
  finally have pl: "parseEnvFile ?F1 ?local = Inr []"
    by (simp add: parseEnvFile_node)
  have pt: "parse_text (str ''SECRET=1'') = [(str ''SECRET'', str ''1'')]"
    by (simp add: parse_eval)
  have mv: "merge_vars [(str ''SECRET'', str ''1'')] [] = Inr [(str ''SECRET'', str ''1'')]"
    by (simp add: merge_eval)
  have cm: "can_merge ?F1 ?root ?local ?temp"
    using can_merge_worlds(3) by (simp add: can_merge_find)
  from mergeEnvironmentFiles_ok[OF pr[unfolded pt] pl, of ?temp] cm
  have m: "fst (mergeEnvironmentFiles ?F1 ?root ?local ?temp) = Inr [(str ''SECRET'', str ''1'')]"
    by (auto simp: can_merge_def mv)
  have ec: "envContent [(str ''SECRET'', str ''1'')] = str ''SECRET=1''"
    by (simp add: envContent_def own_entries_def is_array_index_def is_digit_def str_def)
  from single_install_no_template[OF run[unfolded r] recruiter_env example_name sl tpl m]
  have "map_of (files w') ?local = Some (File (str ''SECRET=1''))"
    "map_of (files w') (path_join recruiter_path ?n) = None" by (simp_all add: ec)
  then show ?thesis using run r by (simp add: recruiter_paths)
qed
section \<open>Which install path is taken\<close>

lemma new_actions_append [simp]: "new_actions w \<lparr>files = fs, trace = trace w @ ext\<rparr> = ext"
  by (simp add: new_actions_def)

lemma composed_path_taken:
  assumes run: "installDockerComposeService h config repoPath w = (r, w')"
    and dc: "hasDockerCompose (detectRepoStructure (files w) repoPath)"
  shows "(\<exists>ext. trace w' = trace w @ ext) \<and>
         (\<forall>a \<in> set (new_actions w w'). \<not> is_build_or_run a) \<and>
         (r = Inr () \<longrightarrow> Run (ComposeUp repoPath) \<in> set (new_actions w w'))"
  using run dc
  by (cases w)
     (auto simp: installDockerComposeService_def first_command_template Let_def exec_simps
        isDockerComposeAvailable_def installDockerCompose_def detect_after_prepare new_actions_def
        split: if_splits sum.splits)

lemma single_path_taken:
  assumes run: "installDockerComposeService h config repoPath w = (r, w')"
    and dc: "\<not> hasDockerCompose (detectRepoStructure (files w) repoPath)"
    and df: "hasDockerfile (detectRepoStructure (files w) repoPath)"
  shows "(\<exists>ext. trace w' = trace w @ ext) \<and>
         (\<forall>a \<in> set (new_actions w w'). \<not> is_compose_action a) \<and>
         (r = Inr () \<longrightarrow>
            Run (DockerBuild (interpolate (imageName config)) repoPath) \<in> set (new_actions w w') \<and>
            Run (DockerRun (interpolate (containerName config)) (str ''weam_app-network'')
                   (interpolate (port config)) (interpolate (imageName config)))
              \<in> set (new_actions w w'))"
  using run dc df
  by (cases w)
     (auto simp: installDockerComposeService_def first_command_template installDockerService_def
        Let_def exec_simps detect_after_prepare new_actions_def
        split: if_splits sum.splits)

lemma no_descriptor_fails:
  assumes run: "installDockerComposeService h config repoPath w = (r, w')"
    and dc: "\<not> hasDockerCompose (detectRepoStructure (files w) repoPath)"
    and df: "\<not> hasDockerfile (detectRepoStructure (files w) repoPath)"
    and c1: "outcome h (trace w) (FindCopyEnv repoPath (template_name config)) = Exit 0"
    and c2: "can_merge (files w) (str ''/workspace/.env'') (path_join repoPath (str ''.env''))
               (path_join repoPath (str ''.env.temp''))"
  shows "r = Inl NoDockerConfiguration"
proof -
  have "can_merge (find_copy_env repoPath (template_name config) (files w)) (str ''/workspace/.env'')
          (path_join repoPath (str ''.env'')) (path_join repoPath (str ''.env.temp''))"
    using c2 by (simp add: can_merge_find)
  then obtain m where "fst (mergeEnvironmentFiles (find_copy_env repoPath (template_name config) (files w))
      (str ''/workspace/.env'') (path_join repoPath (str ''.env'')) (path_join repoPath (str ''.env.temp'')))
      = Inr m" using can_merge_iff by blast
  then show ?thesis
    using run dc df c1
    by (cases w)
       (auto simp: installDockerComposeService_def first_command_template
          Let_def exec_simps detect_after_prepare split: if_splits)
qed

lemma existsSync_keys: "existsSync fs p \<longleftrightarrow> p \<in> fst ` set fs"
  by (simp add: existsSync_def map_of_eq_None_iff)

lemma keys_foldl_update:
  "fst ` set (foldl (\<lambda>acc kv. AList.update (key kv) (snd kv) acc) fs tree)
   = fst ` set fs \<union> key ` set tree"
  by (induction tree arbitrary: fs) (auto simp: dom_update)

lemma exists_after_clone:
  assumes "f \<noteq> []"
  shows "existsSync (effect h (GitClone b u p) (effect h (RmRf p) fs)) (path_join p f)
         \<longleftrightarrow> f \<in> fst ` set (repository h u b)"
proof -
  let ?rm = "effect h (RmRf p) fs"
  have rm: "path_join p f \<notin> fst ` set ?rm"
    using under_path_join[OF assms, of p] by auto
  have keys: "fst ` set (effect h (GitClone b u p) ?rm)
     = insert p (fst ` set ?rm) \<union> (\<lambda>kv. path_join p (fst kv)) ` set (repository h u b)"
    unfolding effect.simps keys_foldl_update dom_update by blast
  have np: "path_join p f \<noteq> p" by (simp add: path_join_def)
  have "path_join p f \<in> (\<lambda>kv. path_join p (fst kv)) ` set (repository h u b)
        \<longleftrightarrow> f \<in> fst ` set (repository h u b)"
    by (auto simp: image_iff)
  then show ?thesis unfolding existsSync_keys keys using rm np by blast
qed

lemma detect_after_clone:
  "detectRepoStructure (effect h (GitClone b u p) (effect h (RmRf p) fs)) p
   = \<lparr>hasDockerCompose = (find (\<lambda>f. f \<in> fst ` set (repository h u b)) composeFiles \<noteq> None),
      hasDockerfile = (str ''Dockerfile'' \<in> fst ` set (repository h u b)),
      composeFile = find (\<lambda>f. f \<in> fst ` set (repository h u b)) composeFiles\<rparr>"
proof -
  have ne: "f \<noteq> []" if "f \<in> set descriptor_names" for f
    using descriptor_name_plain[OF that] by simp
  have "find (\<lambda>file. existsSync (effect h (GitClone b u p) (effect h (RmRf p) fs)) (path_join p file)) composeFiles
      = find (\<lambda>f. f \<in> fst ` set (repository h u b)) composeFiles"
  proof (rule find_cong[OF refl])
    fix x assume "x \<in> set composeFiles"
    then have "x \<noteq> []" by (simp add: ne descriptor_names_def)
    then show "existsSync (effect h (GitClone b u p) (effect h (RmRf p) fs)) (path_join p x)
        = (x \<in> fst ` set (repository h u b))"
      by (rule exists_after_clone)
  qed
  moreover have "existsSync (effect h (GitClone b u p) (effect h (RmRf p) fs)) (path_join p (str ''Dockerfile''))
      \<longleftrightarrow> str ''Dockerfile'' \<in> fst ` set (repository h u b)"
    by (rule exists_after_clone) (simp add: ne descriptor_names_def)
  ultimately show ?thesis by (simp only: detectRepoStructure_def Let_def)
qed

lemma stop_ports_result:
  "\<exists>r ext. steps (map (\<lambda>port. runCommand h (StopPublishing port)) ports) w
       = (r, \<lparr>files = files w, trace = trace w @ ext\<rparr>) \<and>
     (\<forall>a \<in> set ext. \<not> is_merge a \<and> \<not> is_build_or_run a \<and> \<not> is_compose_action a)"
proof (induction ports arbitrary: w)
  case Nil
  show ?case by (cases w) (simp add: succeed_def)
next
  case (Cons port ports)
  let ?w1 = "\<lparr>files = files w, trace = trace w @ [Run (StopPublishing port)]\<rparr>"
  from Cons.IH[of ?w1] obtain r ext where
    ih: "steps (map (\<lambda>port. runCommand h (StopPublishing port)) ports) ?w1
       = (r, \<lparr>files = files w, trace = trace w @ [Run (StopPublishing port)] @ ext\<rparr>)"
    "\<forall>a \<in> set ext. \<not> is_merge a \<and> \<not> is_build_or_run a \<and> \<not> is_compose_action a"
    by auto
  show ?case
  proof (cases "outcome h (trace w) (StopPublishing port) = Exit 0")
    case True
    then have "steps (map (\<lambda>port. runCommand h (StopPublishing port)) (port # ports)) w
       = (r, \<lparr>files = files w, trace = trace w @ (Run (StopPublishing port) # ext)\<rparr>)"
      using ih(1) by (simp add: and_then_def runCommand_if)
    then show ?thesis using ih(2) by (intro exI[of _ r] exI[of _ "Run (StopPublishing port) # ext"]) simp
  next
    case False
    then have "steps (map (\<lambda>port. runCommand h (StopPublishing port)) (port # ports)) w
       = (Inl (command_error (outcome h (trace w) (StopPublishing port)) (StopPublishing port)),
          \<lparr>files = files w, trace = trace w @ [Run (StopPublishing port)]\<rparr>)"
      by (simp add: and_then_def runCommand_if)
    then show ?thesis by (intro exI[of _ "Inl (command_error (outcome h (trace w) (StopPublishing port)) (StopPublishing port))"] exI[of _ "[Run (StopPublishing port)]"]) simp
  qed
qed

lemma cleanup_result:
  "\<exists>ext. cleanupExistingContainers h config w = (Inr (), \<lparr>files = files w, trace = trace w @ ext\<rparr>) \<and>
     (\<forall>a \<in> set ext. \<not> is_merge a \<and> \<not> is_build_or_run a \<and> \<not> is_compose_action a)"
proof (cases "outcome h (trace w) (DockerRmForce (interpolate (containerName config))) = Exit 0")
  case False
  then show ?thesis
    by (intro exI[of _ "[Run (DockerRmForce (interpolate (containerName config)))]"])
       (simp add: cleanupExistingContainers_def exec_simps)
next
  case True
  let ?c = "DockerRmForce (interpolate (containerName config))"
  let ?w1 = "\<lparr>files = files w, trace = trace w @ [Run ?c]\<rparr>"
  show ?thesis
  proof (cases "additionalPorts config")
    case None
    then show ?thesis using True
      by (intro exI[of _ "[Run ?c]"]) (simp add: cleanupExistingContainers_def exec_simps)
  next
    case (Some ports)
    from stop_ports_result[of h ports ?w1] obtain r ext where
      s: "steps (map (\<lambda>port. runCommand h (StopPublishing port)) ports) ?w1
           = (r, \<lparr>files = files w, trace = trace w @ [Run ?c] @ ext\<rparr>)"
      "\<forall>a \<in> set ext. \<not> is_merge a \<and> \<not> is_build_or_run a \<and> \<not> is_compose_action a"
      by auto
    have "cleanupExistingContainers h config w
        = (Inr (), \<lparr>files = files w, trace = trace w @ (Run ?c # ext)\<rparr>)"
      using True Some s(1)
      by (cases r) (simp_all add: cleanupExistingContainers_def steps.simps and_then_def try_catch_def
          succeed_def runCommand_if)
    then show ?thesis using s(2) by (intro exI[of _ "Run ?c # ext"]) simp
  qed
qed

section \<open>The orchestrator up to the install step\<close>

lemma installWithProgress_rm_fails:
  assumes "lookup_config catalog solutionType = Some config" "solutionType \<noteq> []"
    and "outcome h (trace w) (RmRf (str ''/workspace/'' @ interpolate (repoName config))) \<noteq> Exit 0"
  shows "installWithProgress catalog h solutionType w =
     (Inl (command_error (outcome h (trace w) (RmRf (str ''/workspace/'' @ interpolate (repoName config))))
            (RmRf (str ''/workspace/'' @ interpolate (repoName config)))),
      \<lparr>files = files w, trace = trace w @ [Run (RmRf (str ''/workspace/'' @ interpolate (repoName config)))]\<rparr>)"
  using assms by (simp add: installWithProgress_def Let_def steps.simps and_then_def runCommand_if)

lemma installWithProgress_clone_fails:
  assumes "lookup_config catalog solutionType = Some config" "solutionType \<noteq> []"
    and "outcome h (trace w) (RmRf (str ''/workspace/'' @ interpolate (repoName config))) = Exit 0"
    and "outcome h (trace w @ [Run (RmRf (str ''/workspace/'' @ interpolate (repoName config)))])
           (GitClone (interpolate (branchName config)) (interpolate (repoUrl config))
              (str ''/workspace/'' @ interpolate (repoName config))) \<noteq> Exit 0"
  shows "installWithProgress catalog h solutionType w =
     (Inl (command_error
             (outcome h (trace w @ [Run (RmRf (str ''/workspace/'' @ interpolate (repoName config)))])
                (GitClone (interpolate (branchName config)) (interpolate (repoUrl config))
                   (str ''/workspace/'' @ interpolate (repoName config))))
             (GitClone (interpolate (branchName config)) (interpolate (repoUrl config))
                (str ''/workspace/'' @ interpolate (repoName config)))),
      \<lparr>files = effect h (RmRf (str ''/workspace/'' @ interpolate (repoName config))) (files w),
       trace = trace w @ [Run (RmRf (str ''/workspace/'' @ interpolate (repoName config))),
                          Run (GitClone (interpolate (branchName config)) (interpolate (repoUrl config))
                                 (str ''/workspace/'' @ interpolate (repoName config)))]\<rparr>)"
  using assms by (simp add: installWithProgress_def Let_def steps.simps and_then_def runCommand_if)

lemma installWithProgress_after_clone:
  assumes "lookup_config catalog solutionType = Some config" "solutionType \<noteq> []"
    and "outcome h (trace w) (RmRf (str ''/workspace/'' @ interpolate (repoName config))) = Exit 0"
    and "outcome h (trace w @ [Run (RmRf (str ''/workspace/'' @ interpolate (repoName config)))])
           (GitClone (interpolate (branchName config)) (interpolate (repoUrl config))
              (str ''/workspace/'' @ interpolate (repoName config))) = Exit 0"
  shows "\<exists>ext. (\<forall>a \<in> set ext. \<not> is_merge a \<and> \<not> is_build_or_run a \<and> \<not> is_compose_action a) \<and>
     installWithProgress catalog h solutionType w =
       and_then
         (if installType config = Some (str ''docker'')
          then installDockerService h config (str ''/workspace/'' @ interpolate (repoName config))
          else if installType config = Some (str ''docker-compose'')
          then installDockerComposeService h config (str ''/workspace/'' @ interpolate (repoName config))
          else throw (UnsupportedInstallType (interpolate (installType config))))
         (\<lambda>_. succeed (port config, solutionType))
         \<lparr>files = effect h (GitClone (interpolate (branchName config)) (interpolate (repoUrl config))
                             (str ''/workspace/'' @ interpolate (repoName config)))
                    (effect h (RmRf (str ''/workspace/'' @ interpolate (repoName config))) (files w)),
          trace = trace w @ [Run (RmRf (str ''/workspace/'' @ interpolate (repoName config))),
                             Run (GitClone (interpolate (branchName config)) (interpolate (repoUrl config))
                                    (str ''/workspace/'' @ interpolate (repoName config)))] @ ext\<rparr>"
proof -
  let ?p = "str ''/workspace/'' @ interpolate (repoName config)"
  let ?rm = "RmRf ?p"
  let ?cl = "GitClone (interpolate (branchName config)) (interpolate (repoUrl config)) ?p"
  let ?W2 = "\<lparr>files = effect h ?cl (effect h ?rm (files w)), trace = trace w @ [Run ?rm, Run ?cl]\<rparr>"
  from cleanup_result[of h config ?W2] obtain ext where
    c: "cleanupExistingContainers h config ?W2
        = (Inr (), \<lparr>files = effect h ?cl (effect h ?rm (files w)), trace = trace w @ [Run ?rm, Run ?cl] @ ext\<rparr>)"
    and e: "\<forall>a \<in> set ext. \<not> is_merge a \<and> \<not> is_build_or_run a \<and> \<not> is_compose_action a"
    by auto
  have "installWithProgress catalog h solutionType w =
       and_then
         (if installType config = Some (str ''docker'')
          then installDockerService h config ?p
          else if installType config = Some (str ''docker-compose'')
          then installDockerComposeService h config ?p
          else throw (UnsupportedInstallType (interpolate (installType config))))
         (\<lambda>_. succeed (port config, solutionType))
         \<lparr>files = effect h ?cl (effect h ?rm (files w)), trace = trace w @ [Run ?rm, Run ?cl] @ ext\<rparr>"
    using assms c
    by (simp add: installWithProgress_def Let_def steps.simps and_then_def runCommand_if succeed_def
        split: prod.splits sum.splits)
  with e show ?thesis by blast
qed

lemma and_then_succeed_result:
  "and_then m (\<lambda>_. succeed x) w = (r, w') \<Longrightarrow>
   \<exists>r'. m w = (r', w') \<and> (case r' of Inl e \<Rightarrow> r = Inl e | Inr y \<Rightarrow> r = Inr x)"
  by (auto simp: and_then_def succeed_def split: prod.splits sum.splits)

lemma find_compose_iff:
  "(find (\<lambda>f. f \<in> K) composeFiles \<noteq> None) = (\<exists>f \<in> set composeFiles. f \<in> K)"
  "(\<exists>y. find (\<lambda>f. f \<in> K) composeFiles = Some y) = (\<exists>f \<in> set composeFiles. f \<in> K)"
  using find_None_iff[of "\<lambda>f. f \<in> K" composeFiles] by auto

lemma composed_declared_path:
  assumes cfg: "lookup_config catalog solutionType = Some config" "solutionType \<noteq> []"
    and it: "installType config = Some (str ''docker-compose'')"
    and run: "installWithProgress catalog h solutionType w = (r, w')"
  shows "((\<exists>f \<in> set composeFiles.
            f \<in> fst ` set (repository h (interpolate (repoUrl config)) (interpolate (branchName config))))
          \<longrightarrow> (\<forall>a \<in> set (new_actions w w'). \<not> is_build_or_run a) \<and>
              (\<forall>x. r = Inr x \<longrightarrow>
                 Run (ComposeUp (str ''/workspace/'' @ interpolate (repoName config))) \<in> set (new_actions w w')))
       \<and> ((\<forall>f \<in> set composeFiles.
            f \<notin> fst ` set (repository h (interpolate (repoUrl config)) (interpolate (branchName config)))) \<and>
           str ''Dockerfile'' \<in> fst ` set (repository h (interpolate (repoUrl config)) (interpolate (branchName config)))
          \<longrightarrow> (\<forall>a \<in> set (new_actions w w'). \<not> is_compose_action a) \<and>
              (\<forall>x. r = Inr x \<longrightarrow>
                 Run (DockerBuild (interpolate (imageName config))
                        (str ''/workspace/'' @ interpolate (repoName config))) \<in> set (new_actions w w') \<and>
                 Run (DockerRun (interpolate (containerName config)) (str ''weam_app-network'')
                        (interpolate (port config)) (interpolate (imageName config)))
                   \<in> set (new_actions w w')))"
proof -
  let ?p = "str ''/workspace/'' @ interpolate (repoName config)"
  let ?rm = "RmRf ?p"
  let ?cl = "GitClone (interpolate (branchName config)) (interpolate (repoUrl config)) ?p"
  let ?K = "fst ` set (repository h (interpolate (repoUrl config)) (interpolate (branchName config)))"
  have dn: "str ''docker'' \<noteq> str ''docker-compose''" by (simp add: str_def)
  show ?thesis
  proof (cases "outcome h (trace w) ?rm = Exit 0")
    case False
    from installWithProgress_rm_fails[OF cfg False] run
    show ?thesis by (auto simp: new_actions_def)
  next
    case rm: True
    show ?thesis
    proof (cases "outcome h (trace w @ [Run ?rm]) ?cl = Exit 0")
      case False
      from installWithProgress_clone_fails[OF cfg rm False] run
      show ?thesis by (auto simp: new_actions_def)
    next
      case cl: True
      from installWithProgress_after_clone[OF cfg rm cl] obtain ext where
        e: "\<forall>a \<in> set ext. \<not> is_merge a \<and> \<not> is_build_or_run a \<and> \<not> is_compose_action a"
        and eq: "installWithProgress catalog h solutionType w =
          and_then (installDockerComposeService h config ?p) (\<lambda>_. succeed (port config, solutionType))
            \<lparr>files = effect h ?cl (effect h ?rm (files w)), trace = trace w @ [Run ?rm, Run ?cl] @ ext\<rparr>"
        using it dn by auto
      let ?W3 = "\<lparr>files = effect h ?cl (effect h ?rm (files w)), trace = trace w @ [Run ?rm, Run ?cl] @ ext\<rparr>"
      from and_then_succeed_result[OF run[unfolded eq]] obtain r' where
        svc: "installDockerComposeService h config ?p ?W3 = (r', w')"
        and rr: "case r' of Inl e \<Rightarrow> r = Inl e | Inr y \<Rightarrow> r = Inr (port config, solutionType)"
        by blast
      have det: "hasDockerCompose (detectRepoStructure (files ?W3) ?p) = (\<exists>f \<in> set composeFiles. f \<in> ?K)"
        "hasDockerfile (detectRepoStructure (files ?W3) ?p) = (str ''Dockerfile'' \<in> ?K)"
        by (simp_all add: detect_after_clone find_compose_iff del: effect.simps)
      have succ: "r' = Inr ()" if "r = Inr x" for x
        using rr that by (cases r') auto
      have pre: "\<forall>a \<in> set ([Run ?rm, Run ?cl] @ ext). \<not> is_build_or_run a \<and> \<not> is_compose_action a"
        using e by simp
      show ?thesis
      proof (intro conjI impI)
        assume a: "\<exists>f \<in> set composeFiles. f \<in> ?K"
        then have dc: "hasDockerCompose (detectRepoStructure (files ?W3) ?p)" by (simp only: det)
        from composed_path_taken[OF svc dc] obtain ext2 where
          t: "trace w' = trace ?W3 @ ext2"
          and nb: "\<forall>a \<in> set (new_actions ?W3 w'). \<not> is_build_or_run a"
          and up: "r' = Inr () \<longrightarrow> Run (ComposeUp ?p) \<in> set (new_actions ?W3 w')"
          by blast
        have na: "new_actions w w' = ([Run ?rm, Run ?cl] @ ext) @ new_actions ?W3 w'"
          using t by (simp add: new_actions_def)
        show "\<forall>a \<in> set (new_actions w w'). \<not> is_build_or_run a"
          unfolding na using pre nb by auto
        show "\<forall>x. r = Inr x \<longrightarrow> Run (ComposeUp ?p) \<in> set (new_actions w w')"
          unfolding na using up succ by auto
      next
        assume a: "(\<forall>f \<in> set composeFiles. f \<notin> ?K) \<and> str ''Dockerfile'' \<in> ?K"
        then have dc: "\<not> hasDockerCompose (detectRepoStructure (files ?W3) ?p)"
          and df: "hasDockerfile (detectRepoStructure (files ?W3) ?p)" by (simp_all only: det) auto
        from single_path_taken[OF svc dc df] obtain ext2 where
          t: "trace w' = trace ?W3 @ ext2"
          and nc: "\<forall>a \<in> set (new_actions ?W3 w'). \<not> is_compose_action a"
          and br: "r' = Inr () \<longrightarrow>
            Run (DockerBuild (interpolate (imageName config)) ?p) \<in> set (new_actions ?W3 w') \<and>
            Run (DockerRun (interpolate (containerName config)) (str ''weam_app-network'')
                   (interpolate (port config)) (interpolate (imageName config)))
              \<in> set (new_actions ?W3 w')"
          by blast
        have na: "new_actions w w' = ([Run ?rm, Run ?cl] @ ext) @ new_actions ?W3 w'"
          using t by (simp add: new_actions_def)
        show "\<forall>a \<in> set (new_actions w w'). \<not> is_compose_action a"
          unfolding na using pre nc by auto
        show "\<forall>x. r = Inr x \<longrightarrow>
                 Run (DockerBuild (interpolate (imageName config)) ?p) \<in> set (new_actions w w') \<and>
                 Run (DockerRun (interpolate (containerName config)) (str ''weam_app-network'')
                        (interpolate (port config)) (interpolate (imageName config)))
                   \<in> set (new_actions w w')"
          unfolding na using br succ by auto
      qed
    qed
  qed
qed

section \<open>Structure detection decides the install path\<close>

lemma find_first:
  "List.find P xs = Some x \<longleftrightarrow>
   x \<in> set xs \<and> P x \<and> (\<forall>y \<in> set (takeWhile (\<lambda>y. y \<noteq> x) xs). \<not> P y)"
proof (induction xs)
  case Nil
  then show ?case by simp
next
  case (Cons a xs)
  show ?case
  proof (cases "P a")
    case True
    show ?thesis
    proof (cases "a = x")
      case True
      with \<open>P a\<close> show ?thesis by simp
    next
      case False
      with \<open>P a\<close> show ?thesis by simp
    qed
  next
    case False
    show ?thesis
    proof (cases "a = x")
      case True
      with False Cons.IH show ?thesis by auto
    next
      case ne: False
      with False Cons.IH show ?thesis by simp
    qed
  qed
qed

lemma detect_fields:
  "composeFile (detectRepoStructure fs repoPath)
     = find (\<lambda>f. existsSync fs (path_join repoPath f)) composeFiles"
  "hasDockerCompose (detectRepoStructure fs repoPath)
     = (\<exists>f \<in> set composeFiles. existsSync fs (path_join repoPath f))"
  "hasDockerfile (detectRepoStructure fs repoPath)
     = existsSync fs (path_join repoPath (str ''Dockerfile''))"
  using find_None_iff[of "\<lambda>f. existsSync fs (path_join repoPath f)" composeFiles]
  by (auto simp: detectRepoStructure_def Let_def)

text \<open>
  Claim C6. Structure detection depends only on which of the five descriptor names exist,
  as a file or as a directory, in the repository root; it reports a compose descriptor
  exactly when one of the names of the fixed list exists there, and the name it records
  is the first of the list that exists, and none when none exists. For a catalog entry
  that declares \<^verbatim>\<open>docker-compose\<close>: when the cloned repository holds a compose
  descriptor in its root, with or without a Dockerfile, the attempt runs no
  \<^verbatim>\<open>docker build\<close> and no \<^verbatim>\<open>docker run\<close>, and a successful attempt has run
  \<^verbatim>\<open>docker-compose up\<close>; when it holds a Dockerfile and no compose descriptor, the
  attempt runs no command of the composition tool, and a successful attempt has run
  \<^verbatim>\<open>docker build\<close> and \<^verbatim>\<open>docker run\<close>.
\<close>

theorem structure_decides_path:
  "((\<forall>f \<in> set descriptor_names.
        existsSync fs (path_join repoPath f) = existsSync fs' (path_join repoPath f))
      \<longrightarrow> detectRepoStructure fs repoPath = detectRepoStructure fs' repoPath)
   \<and> hasDockerCompose (detectRepoStructure fs repoPath)
       = (\<exists>f \<in> set composeFiles. existsSync fs (path_join repoPath f))
   \<and> hasDockerfile (detectRepoStructure fs repoPath)
       = existsSync fs (path_join repoPath (str ''Dockerfile''))
   \<and> (\<forall>f. (composeFile (detectRepoStructure fs repoPath) = Some f) =
          (f \<in> set composeFiles \<and> existsSync fs (path_join repoPath f) \<and>
           (\<forall>g \<in> set (takeWhile (\<lambda>g. g \<noteq> f) composeFiles). \<not> existsSync fs (path_join repoPath g))))
   \<and> (lookup_config catalog solutionType = Some config \<and> solutionType \<noteq> [] \<and>
       installType config = Some (str ''docker-compose'') \<and>
       installWithProgress catalog h solutionType w = (r, w') \<longrightarrow>
       ((\<exists>f \<in> set composeFiles.
            f \<in> fst ` set (repository h (interpolate (repoUrl config)) (interpolate (branchName config))))
          \<longrightarrow> (\<forall>a \<in> set (new_actions w w'). \<not> is_build_or_run a) \<and>
              (\<forall>x. r = Inr x \<longrightarrow>
                 Run (ComposeUp (str ''/workspace/'' @ interpolate (repoName config))) \<in> set (new_actions w w')))
       \<and> ((\<forall>f \<in> set composeFiles.
            f \<notin> fst ` set (repository h (interpolate (repoUrl config)) (interpolate (branchName config)))) \<and>
           str ''Dockerfile'' \<in> fst ` set (repository h (interpolate (repoUrl config)) (interpolate (branchName config)))
          \<longrightarrow> (\<forall>a \<in> set (new_actions w w'). \<not> is_compose_action a) \<and>
              (\<forall>x. r = Inr x \<longrightarrow>
                 Run (DockerBuild (interpolate (imageName config))
                        (str ''/workspace/'' @ interpolate (repoName config))) \<in> set (new_actions w w') \<and>
                 Run (DockerRun (interpolate (containerName config)) (str ''weam_app-network'')
                        (interpolate (port config)) (interpolate (imageName config)))
                   \<in> set (new_actions w w'))))"
proof (intro conjI)
  show "(\<forall>f \<in> set descriptor_names.
        existsSync fs (path_join repoPath f) = existsSync fs' (path_join repoPath f))
      \<longrightarrow> detectRepoStructure fs repoPath = detectRepoStructure fs' repoPath"
    using detect_root_only[of fs repoPath fs'] by blast
  show "hasDockerCompose (detectRepoStructure fs repoPath)
       = (\<exists>f \<in> set composeFiles. existsSync fs (path_join repoPath f))"
    by (rule detect_fields)
  show "hasDockerfile (detectRepoStructure fs repoPath)
       = existsSync fs (path_join repoPath (str ''Dockerfile''))"
    by (rule detect_fields)
  show "\<forall>f. (composeFile (detectRepoStructure fs repoPath) = Some f) =
          (f \<in> set composeFiles \<and> existsSync fs (path_join repoPath f) \<and>
           (\<forall>g \<in> set (takeWhile (\<lambda>g. g \<noteq> f) composeFiles). \<not> existsSync fs (path_join repoPath g)))"
    unfolding detect_fields using find_first[of "\<lambda>f. existsSync fs (path_join repoPath f)" composeFiles]
    by blast
  show "lookup_config catalog solutionType = Some config \<and> solutionType \<noteq> [] \<and>
       installType config = Some (str ''docker-compose'') \<and>
       installWithProgress catalog h solutionType w = (r, w') \<longrightarrow>
       ((\<exists>f \<in> set composeFiles.
            f \<in> fst ` set (repository h (interpolate (repoUrl config)) (interpolate (branchName config))))
          \<longrightarrow> (\<forall>a \<in> set (new_actions w w'). \<not> is_build_or_run a) \<and>
              (\<forall>x. r = Inr x \<longrightarrow>
                 Run (ComposeUp (str ''/workspace/'' @ interpolate (repoName config))) \<in> set (new_actions w w')))
       \<and> ((\<forall>f \<in> set composeFiles.
            f \<notin> fst ` set (repository h (interpolate (repoUrl config)) (interpolate (branchName config)))) \<and>
           str ''Dockerfile'' \<in> fst ` set (repository h (interpolate (repoUrl config)) (interpolate (branchName config)))
          \<longrightarrow> (\<forall>a \<in> set (new_actions w w'). \<not> is_compose_action a) \<and>
              (\<forall>x. r = Inr x \<longrightarrow>
                 Run (DockerBuild (interpolate (imageName config))
                        (str ''/workspace/'' @ interpolate (repoName config))) \<in> set (new_actions w w') \<and>
                 Run (DockerRun (interpolate (containerName config)) (str ''weam_app-network'')
                        (interpolate (port config)) (interpolate (imageName config)))
                   \<in> set (new_actions w w')))"
    using composed_declared_path[of catalog solutionType config h w r w'] by blast
qed
lemma lookup_recruiter: "lookup_config SOLUTION_CONFIGS (str ''ai-recruiter'') = Some recruiter_config"
  by (simp add: lookup_config_def SOLUTION_CONFIGS_def recruiter_config_def str_def)

lemma recruiter_fields:
  "installType recruiter_config = Some (str ''docker-compose'')"
  "str ''/workspace/'' @ interpolate (repoName recruiter_config) = recruiter_path"
  "interpolate (imageName recruiter_config) = str ''foloup-img''"
  "interpolate (containerName recruiter_config) = str ''foloup-container''"
  "interpolate (port recruiter_config) = str ''4000''"
  "port recruiter_config = Some (str ''4000'')"
  "str ''ai-recruiter'' \<noteq> []"
  by (simp_all add: recruiter_config_def recruiter_path_def str_def)

lemma cooperative_repository [simp]: "repository (cooperative_host tree) u b = tree"
  by (simp add: cooperative_host_def)

lemma install_cooperative:
  assumes cfg: "lookup_config catalog solutionType = Some config" "solutionType \<noteq> []"
    and it: "installType config = Some (str ''docker-compose'')"
    and tree: "(\<exists>f \<in> set composeFiles. f \<in> fst ` set tree) \<or> str ''Dockerfile'' \<in> fst ` set tree"
    and cm: "can_merge
       (effect (cooperative_host tree)
          (GitClone (interpolate (branchName config)) (interpolate (repoUrl config))
             (str ''/workspace/'' @ interpolate (repoName config)))
          (effect (cooperative_host tree) (RmRf (str ''/workspace/'' @ interpolate (repoName config)))
             (files w)))
       (str ''/workspace/.env'')
       (path_join (str ''/workspace/'' @ interpolate (repoName config)) (str ''.env''))
       (path_join (str ''/workspace/'' @ interpolate (repoName config)) (str ''.env.temp''))"
  shows "fst (installWithProgress catalog (cooperative_host tree) solutionType w)
         = Inr (port config, solutionType)"
proof -
  let ?h = "cooperative_host tree"
  let ?p = "str ''/workspace/'' @ interpolate (repoName config)"
  have dn: "str ''docker'' \<noteq> str ''docker-compose''" by (simp add: str_def)
  from installWithProgress_after_clone[OF cfg, of ?h w] obtain ext where
    eq: "installWithProgress catalog ?h solutionType w =
          and_then (installDockerComposeService ?h config ?p) (\<lambda>_. succeed (port config, solutionType))
            \<lparr>files = effect ?h (GitClone (interpolate (branchName config)) (interpolate (repoUrl config)) ?p)
                       (effect ?h (RmRf ?p) (files w)),
             trace = trace w @ [Run (RmRf ?p),
                Run (GitClone (interpolate (branchName config)) (interpolate (repoUrl config)) ?p)] @ ext\<rparr>"
    using it dn by auto
  let ?W3 = "\<lparr>files = effect ?h (GitClone (interpolate (branchName config)) (interpolate (repoUrl config)) ?p)
                       (effect ?h (RmRf ?p) (files w)),
             trace = trace w @ [Run (RmRf ?p),
                Run (GitClone (interpolate (branchName config)) (interpolate (repoUrl config)) ?p)] @ ext\<rparr>"
  have d: "hasDockerCompose (detectRepoStructure (files ?W3) ?p) \<or> hasDockerfile (detectRepoStructure (files ?W3) ?p)"
    using tree by (simp add: detect_after_clone find_compose_iff del: effect.simps)
  have c: "can_merge (files ?W3) (str ''/workspace/.env'') (path_join ?p (str ''.env''))
             (path_join ?p (str ''.env.temp''))"
    using cm by (simp del: effect.simps)
  from composed_cooperative[OF d c, of tree config]
  have "fst (installDockerComposeService ?h config ?p ?W3) = Inr ()" .
  then show ?thesis unfolding eq
    by (cases "installDockerComposeService ?h config ?p ?W3") (simp add: and_then_def succeed_def)
qed

lemma tree_facts:
  "\<exists>f \<in> set composeFiles. f \<in> fst ` set compose_tree"
  "\<forall>f \<in> set composeFiles. f \<notin> fst ` set dockerfile_tree"
  "str ''Dockerfile'' \<in> fst ` set dockerfile_tree"
  "\<exists>f \<in> set composeFiles. f \<in> fst ` set directory_tree"
  by (simp_all add: composeFiles_def compose_tree_def dockerfile_tree_def directory_tree_def str_def)

text \<open>The merge can write into the clone directory of each of the scenario trees.\<close>

lemma can_merge_cloned:
  assumes "repository h u b = compose_tree \<or> repository h u b = dockerfile_tree \<or>
           repository h u b = directory_tree"
  shows "can_merge (effect h (GitClone b u recruiter_path) (effect h (RmRf recruiter_path) (files initial_world)))
           (str ''/workspace/.env'') (path_join recruiter_path (str ''.env''))
           (path_join recruiter_path (str ''.env.temp''))"
  using assms
  by (auto simp: can_merge_def is_directory_def dirname_def initial_world_def compose_tree_def
      dockerfile_tree_def directory_tree_def recruiter_path_def path_join_def under_def str_def)
text \<open>
  The theorem for the catalog entry \<^verbatim>\<open>ai-recruiter\<close> on a host where every command
  succeeds: a repository with a compose descriptor and a Dockerfile, one with a Dockerfile
  only, and one with a Dockerfile and a directory named \<^verbatim>\<open>compose.yml\<close>. And the
  detection itself: on two stores that differ in a subdirectory only, on a store where
  the second name of the list comes before the first one, as a directory, and on a store
  without a descriptor.
\<close>

theorem structure_decides_path_witness:
  "filter is_build_or_run
     (new_actions initial_world
        (snd (installWithProgress SOLUTION_CONFIGS (cooperative_host compose_tree) (str ''ai-recruiter'')
               initial_world))) = [] \<and>
   Run (ComposeUp (str ''/workspace/foloup''))
     \<in> set (new_actions initial_world
        (snd (installWithProgress SOLUTION_CONFIGS (cooperative_host compose_tree) (str ''ai-recruiter'')
               initial_world))) \<and>
   filter is_compose_action
     (new_actions initial_world
        (snd (installWithProgress SOLUTION_CONFIGS (cooperative_host dockerfile_tree) (str ''ai-recruiter'')
               initial_world))) = [] \<and>
   Run (DockerBuild (str ''foloup-img'') (str ''/workspace/foloup''))
     \<in> set (new_actions initial_world
        (snd (installWithProgress SOLUTION_CONFIGS (cooperative_host dockerfile_tree) (str ''ai-recruiter'')
               initial_world))) \<and>
   Run (DockerRun (str ''foloup-container'') (str ''weam_app-network'') (str ''4000'') (str ''foloup-img''))
     \<in> set (new_actions initial_world
        (snd (installWithProgress SOLUTION_CONFIGS (cooperative_host dockerfile_tree) (str ''ai-recruiter'')
               initial_world))) \<and>
   filter is_build_or_run
     (new_actions initial_world
        (snd (installWithProgress SOLUTION_CONFIGS (cooperative_host directory_tree) (str ''ai-recruiter'')
               initial_world))) = [] \<and>
   Run (ComposeUp (str ''/workspace/foloup''))
     \<in> set (new_actions initial_world
        (snd (installWithProgress SOLUTION_CONFIGS (cooperative_host directory_tree) (str ''ai-recruiter'')
               initial_world))) \<and>
   detectRepoStructure (files world_with_compose) recruiter_path
     = detectRepoStructure
         ((str ''/workspace/foloup/app/compose.yml'', File (str ''services:'')) # files world_with_compose)
         recruiter_path \<and>
   detectRepoStructure (files world_with_compose) recruiter_path
     = \<lparr>hasDockerCompose = True, hasDockerfile = True, composeFile = Some (str ''docker-compose.yml'')\<rparr> \<and>
   detectRepoStructure
       [(str ''/workspace/foloup'', Directory),
        (str ''/workspace/foloup/compose.yaml'', File (str ''services:'')),
        (str ''/workspace/foloup/compose.yml'', Directory)] recruiter_path
     = \<lparr>hasDockerCompose = True, hasDockerfile = False, composeFile = Some (str ''compose.yml'')\<rparr> \<and>
   detectRepoStructure (files world_with_template) recruiter_path
     = \<lparr>hasDockerCompose = False, hasDockerfile = True, composeFile = None\<rparr>"
proof -
  let ?st = "str ''ai-recruiter''"
  let ?hc = "cooperative_host compose_tree"
  let ?hd = "cooperative_host dockerfile_tree"
  let ?hy = "cooperative_host directory_tree"
  obtain r1 w1 where run1: "installWithProgress SOLUTION_CONFIGS ?hc ?st initial_world = (r1, w1)"
    by (cases "installWithProgress SOLUTION_CONFIGS ?hc ?st initial_world")
  obtain r2 w2 where run2: "installWithProgress SOLUTION_CONFIGS ?hd ?st initial_world = (r2, w2)"
    by (cases "installWithProgress SOLUTION_CONFIGS ?hd ?st initial_world")
  obtain r3 w3 where run3: "installWithProgress SOLUTION_CONFIGS ?hy ?st initial_world = (r3, w3)"
    by (cases "installWithProgress SOLUTION_CONFIGS ?hy ?st initial_world")
  have cm: "can_merge
       (effect (cooperative_host tree)
          (GitClone (interpolate (branchName recruiter_config)) (interpolate (repoUrl recruiter_config))
             (str ''/workspace/'' @ interpolate (repoName recruiter_config)))
          (effect (cooperative_host tree) (RmRf (str ''/workspace/'' @ interpolate (repoName recruiter_config)))
             (files initial_world)))
       (str ''/workspace/.env'')
       (path_join (str ''/workspace/'' @ interpolate (repoName recruiter_config)) (str ''.env''))
       (path_join (str ''/workspace/'' @ interpolate (repoName recruiter_config)) (str ''.env.temp''))"
    if "tree = compose_tree \<or> tree = dockerfile_tree \<or> tree = directory_tree" for tree
    unfolding recruiter_fields by (rule can_merge_cloned) (use that in simp)
  have ok1: "r1 = Inr (port recruiter_config, ?st)"
    using install_cooperative[OF lookup_recruiter recruiter_fields(7) recruiter_fields(1), of compose_tree initial_world]
      tree_facts(1) cm[of compose_tree] run1 by simp
  have ok2: "r2 = Inr (port recruiter_config, ?st)"
    using install_cooperative[OF lookup_recruiter recruiter_fields(7) recruiter_fields(1), of dockerfile_tree initial_world]
      tree_facts(3) cm[of dockerfile_tree] run2 by simp
  have ok3: "r3 = Inr (port recruiter_config, ?st)"
    using install_cooperative[OF lookup_recruiter recruiter_fields(7) recruiter_fields(1), of directory_tree initial_world]
      tree_facts(4) cm[of directory_tree] run3 by simp
  let ?fs = "files world_with_compose"
  let ?fs' = "(str ''/workspace/foloup/app/compose.yml'', File (str ''services:'')) # files world_with_compose"
  let ?fd = "[(str ''/workspace/foloup'', Directory),
        (str ''/workspace/foloup/compose.yaml'', File (str ''services:'')),
        (str ''/workspace/foloup/compose.yml'', Directory)]"
  let ?ft = "files world_with_template"
  have neq: "path_join recruiter_path f \<noteq> str ''/workspace/foloup/app/compose.yml''"
    if "f \<in> set descriptor_names" for f
  proof
    assume e: "path_join recruiter_path f = str ''/workspace/foloup/app/compose.yml''"
    have "str ''/workspace/foloup/app/compose.yml'' = path_join recruiter_path (str ''app/compose.yml'')"
      by (simp add: recruiter_path_def path_join_def str_def)
    with e have "f = str ''app/compose.yml''" by simp
    moreover have "0x2F \<in> set (str ''app/compose.yml'')" by (simp add: str_def)
    ultimately show False using descriptor_name_plain[OF that] by simp
  qed
  have same: "\<forall>f \<in> set descriptor_names.
      existsSync ?fs (path_join recruiter_path f) = existsSync ?fs' (path_join recruiter_path f)"
    using neq by (auto simp: existsSync_def)
  note T1 = structure_decides_path[of ?fs recruiter_path ?fs' SOLUTION_CONFIGS ?st recruiter_config ?hc
      initial_world r1 w1, unfolded recruiter_fields cooperative_repository]
  note T2 = structure_decides_path[of ?fd recruiter_path ?fs' SOLUTION_CONFIGS ?st recruiter_config ?hd
      initial_world r2 w2, unfolded recruiter_fields cooperative_repository]
  note T3 = structure_decides_path[of ?ft recruiter_path ?fs' SOLUTION_CONFIGS ?st recruiter_config ?hy
      initial_world r3 w3, unfolded recruiter_fields cooperative_repository]
  have h1: "lookup_config SOLUTION_CONFIGS ?st = Some recruiter_config \<and> ?st \<noteq> [] \<and>
       Some (str ''docker-compose'') = Some (str ''docker-compose'') \<and>
       installWithProgress SOLUTION_CONFIGS ?hc ?st initial_world = (r1, w1)"
    using lookup_recruiter recruiter_fields(7) run1 by blast
  have h2: "lookup_config SOLUTION_CONFIGS ?st = Some recruiter_config \<and> ?st \<noteq> [] \<and>
       Some (str ''docker-compose'') = Some (str ''docker-compose'') \<and>
       installWithProgress SOLUTION_CONFIGS ?hd ?st initial_world = (r2, w2)"
    using lookup_recruiter recruiter_fields(7) run2 by blast
  have h3: "lookup_config SOLUTION_CONFIGS ?st = Some recruiter_config \<and> ?st \<noteq> [] \<and>
       Some (str ''docker-compose'') = Some (str ''docker-compose'') \<and>
       installWithProgress SOLUTION_CONFIGS ?hy ?st initial_world = (r3, w3)"
    using lookup_recruiter recruiter_fields(7) run3 by blast
  have d: "detectRepoStructure ?fs recruiter_path = detectRepoStructure ?fs' recruiter_path"
    using T1[THEN conjunct1] same by (rule mp)
  from T1[THEN conjunct2, THEN conjunct2, THEN conjunct2, THEN conjunct2, THEN mp, OF h1,
      THEN conjunct1, THEN mp, OF tree_facts(1)]
  have a: "filter is_build_or_run (new_actions initial_world w1) = []"
    "Run (ComposeUp recruiter_path) \<in> set (new_actions initial_world w1)"
    using ok1 by (simp_all add: filter_empty_conv)
  from T2[THEN conjunct2, THEN conjunct2, THEN conjunct2, THEN conjunct2, THEN mp, OF h2,
      THEN conjunct2, THEN mp, OF conjI[OF tree_facts(2) tree_facts(3)]]
  have b: "filter is_compose_action (new_actions initial_world w2) = []"
    "Run (DockerBuild (str ''foloup-img'') recruiter_path) \<in> set (new_actions initial_world w2)"
    "Run (DockerRun (str ''foloup-container'') (str ''weam_app-network'') (str ''4000'') (str ''foloup-img''))
       \<in> set (new_actions initial_world w2)"
    using ok2 by (simp_all add: filter_empty_conv)
  from T3[THEN conjunct2, THEN conjunct2, THEN conjunct2, THEN conjunct2, THEN mp, OF h3,
      THEN conjunct1, THEN mp, OF tree_facts(4)]
  have c: "filter is_build_or_run (new_actions initial_world w3) = []"
    "Run (ComposeUp recruiter_path) \<in> set (new_actions initial_world w3)"
    using ok3 by (simp_all add: filter_empty_conv)
  have ev: "existsSync ?fs (path_join recruiter_path (str ''docker-compose.yml''))"
    "existsSync ?fs (path_join recruiter_path (str ''Dockerfile''))"
    "existsSync ?fd (path_join recruiter_path (str ''compose.yml''))"
    "\<not> existsSync ?fd (path_join recruiter_path (str ''docker-compose.yml''))"
    "\<not> existsSync ?fd (path_join recruiter_path (str ''docker-compose.yaml''))"
    "\<not> existsSync ?fd (path_join recruiter_path (str ''Dockerfile''))"
    "existsSync ?ft (path_join recruiter_path (str ''Dockerfile''))"
    "\<forall>f \<in> set composeFiles. \<not> existsSync ?ft (path_join recruiter_path f)"
    by (simp_all add: existsSync_def world_with_compose_def world_with_template_def composeFiles_def
        recruiter_path_def path_join_def str_def)
  have cf: "str ''docker-compose.yml'' \<in> set composeFiles"
    "takeWhile (\<lambda>g. g \<noteq> str ''docker-compose.yml'') composeFiles = []"
    "str ''compose.yml'' \<in> set composeFiles"
    "takeWhile (\<lambda>g. g \<noteq> str ''compose.yml'') composeFiles
       = [str ''docker-compose.yml'', str ''docker-compose.yaml'']"
    by (simp_all add: composeFiles_def str_def)
  have e1: "composeFile (detectRepoStructure ?fs recruiter_path) = Some (str ''docker-compose.yml'')"
    using T1[THEN conjunct2, THEN conjunct2, THEN conjunct2, THEN conjunct1, THEN spec,
        of "str ''docker-compose.yml''"] ev(1) cf(1,2) by simp
  have e2: "hasDockerCompose (detectRepoStructure ?fs recruiter_path)"
    using T1[THEN conjunct2, THEN conjunct1] ev(1) cf(1) by blast
  have e3: "hasDockerfile (detectRepoStructure ?fs recruiter_path)"
    using T1[THEN conjunct2, THEN conjunct2, THEN conjunct1] ev(2) by simp
  have f1: "composeFile (detectRepoStructure ?fd recruiter_path) = Some (str ''compose.yml'')"
    using T2[THEN conjunct2, THEN conjunct2, THEN conjunct2, THEN conjunct1, THEN spec,
        of "str ''compose.yml''"] ev(3,4,5) cf(3,4) by simp
  have f2: "hasDockerCompose (detectRepoStructure ?fd recruiter_path)"
    using T2[THEN conjunct2, THEN conjunct1] ev(3) cf(3) by blast
  have f3: "\<not> hasDockerfile (detectRepoStructure ?fd recruiter_path)"
    using T2[THEN conjunct2, THEN conjunct2, THEN conjunct1] ev(6) by simp
  have g1: "composeFile (detectRepoStructure ?ft recruiter_path) = None"
  proof (cases "composeFile (detectRepoStructure ?ft recruiter_path)")
    case (Some f)
    with T3[THEN conjunct2, THEN conjunct2, THEN conjunct2, THEN conjunct1, THEN spec, of f] ev(8)
    show ?thesis by blast
  qed simp
  have g2: "\<not> hasDockerCompose (detectRepoStructure ?ft recruiter_path)"
    using T3[THEN conjunct2, THEN conjunct1] ev(8) by blast
  have g3: "hasDockerfile (detectRepoStructure ?ft recruiter_path)"
    using T3[THEN conjunct2, THEN conjunct2, THEN conjunct1] ev(7) by simp
  have rec: "s = \<lparr>hasDockerCompose = hasDockerCompose s, hasDockerfile = hasDockerfile s,
                  composeFile = composeFile s\<rparr>" for s :: repo_structure
    by simp
  have E: "detectRepoStructure ?fs recruiter_path
     = \<lparr>hasDockerCompose = True, hasDockerfile = True, composeFile = Some (str ''docker-compose.yml'')\<rparr>"
    by (subst rec) (simp add: e1 e2 e3)
  have F: "detectRepoStructure ?fd recruiter_path
     = \<lparr>hasDockerCompose = True, hasDockerfile = False, composeFile = Some (str ''compose.yml'')\<rparr>"
    by (subst rec) (simp add: f1 f2 f3)
  have G: "detectRepoStructure ?ft recruiter_path
     = \<lparr>hasDockerCompose = False, hasDockerfile = True, composeFile = None\<rparr>"
    by (subst rec) (simp add: g1 g2 g3)
  have p: "recruiter_path = str ''/workspace/foloup''" by (simp only: recruiter_path_def)
  show ?thesis
    unfolding run1 run2 run3 snd_conv
    using a b c d E F G unfolding p by blast
qed
section \<open>A failing clone\<close>

lemma progress_result:
  assumes "solutionType \<noteq> []"
  shows "getInstallationProgress catalog h (Some solutionType) w =
     (case installWithProgress catalog h solutionType w of
        (Inr result, w') \<Rightarrow>
          (\<lparr>events = [Event (str ''connected'') ConnectedMessage], closed = True\<rparr>, w')
      | (Inl e, w') \<Rightarrow>
          (\<lparr>events = [Event (str ''connected'') ConnectedMessage,
                       Event (str ''error'') (ErrorMessage e)], closed = True\<rparr>, w'))"
  using assms by (simp add: getInstallationProgress_def Let_def)

text \<open>
  Claim C5. In an attempt for a solution of the catalog in which \<^verbatim>\<open>rm -rf\<close> has
  succeeded and \<^verbatim>\<open>git clone\<close> exits with a code other than 0, the service rejects with
  the failure of the clone command, the attempt has run these two commands and nothing
  else, so \<^verbatim>\<open>mergeEnvironmentFiles\<close> has not been called, and the channel ends with the
  error event of the clone failure and is closed.
\<close>

theorem clone_failure_terminates:
  assumes cfg: "lookup_config catalog solutionType = Some config" "solutionType \<noteq> []"
    and rm: "outcome h (trace w) (RmRf (str ''/workspace/'' @ interpolate (repoName config))) = Exit 0"
    and clone: "outcome h (trace w @ [Run (RmRf (str ''/workspace/'' @ interpolate (repoName config)))])
           (GitClone (interpolate (branchName config)) (interpolate (repoUrl config))
              (str ''/workspace/'' @ interpolate (repoName config))) = Exit code"
      "code \<noteq> 0"
  shows "fst (installWithProgress catalog h solutionType w)
           = Inl (CommandFailed (GitClone (interpolate (branchName config)) (interpolate (repoUrl config))
                    (str ''/workspace/'' @ interpolate (repoName config)))) \<and>
         new_actions w (snd (installWithProgress catalog h solutionType w))
           = [Run (RmRf (str ''/workspace/'' @ interpolate (repoName config))),
              Run (GitClone (interpolate (branchName config)) (interpolate (repoUrl config))
                    (str ''/workspace/'' @ interpolate (repoName config)))] \<and>
         (\<forall>a \<in> set (new_actions w (snd (installWithProgress catalog h solutionType w))). \<not> is_merge a) \<and>
         fst (getInstallationProgress catalog h (Some solutionType) w)
           = \<lparr>events = [Event (str ''connected'') ConnectedMessage,
                        Event (str ''error'') (ErrorMessage (CommandFailed
                          (GitClone (interpolate (branchName config)) (interpolate (repoUrl config))
                             (str ''/workspace/'' @ interpolate (repoName config)))))],
              closed = True\<rparr>"
proof -
  let ?p = "str ''/workspace/'' @ interpolate (repoName config)"
  let ?cl = "GitClone (interpolate (branchName config)) (interpolate (repoUrl config)) ?p"
  have ne: "outcome h (trace w @ [Run (RmRf ?p)]) ?cl \<noteq> Exit 0" using clone by simp
  have eq: "installWithProgress catalog h solutionType w =
     (Inl (CommandFailed ?cl),
      \<lparr>files = effect h (RmRf ?p) (files w), trace = trace w @ [Run (RmRf ?p), Run ?cl]\<rparr>)"
    using installWithProgress_clone_fails[OF cfg rm ne] clone by simp
  show ?thesis
    unfolding progress_result[OF cfg(2)] eq by simp
qed

lemma lookup_recruiter_fields:
  "interpolate (branchName recruiter_config) = str ''main''"
  "interpolate (repoUrl recruiter_config) = str ''https://github.com/devweam-ai/foloup.git''"
  by (simp_all add: recruiter_config_def)

text \<open>The theorem for the catalog entry \<^verbatim>\<open>ai-recruiter\<close> on a host where the clone fails.\<close>

theorem clone_failure_terminates_witness:
  "fst (installWithProgress SOLUTION_CONFIGS host_clone_fails (str ''ai-recruiter'') initial_world)
     = Inl (CommandFailed (GitClone (str ''main'') (str ''https://github.com/devweam-ai/foloup.git'')
              recruiter_path)) \<and>
   new_actions initial_world
       (snd (installWithProgress SOLUTION_CONFIGS host_clone_fails (str ''ai-recruiter'') initial_world))
     = [Run (RmRf recruiter_path),
        Run (GitClone (str ''main'') (str ''https://github.com/devweam-ai/foloup.git'') recruiter_path)]"
proof -
  have rm: "outcome host_clone_fails (trace initial_world)
      (RmRf (str ''/workspace/'' @ interpolate (repoName recruiter_config))) = Exit 0"
    by (simp add: host_clone_fails_def)
  have cl: "outcome host_clone_fails
      (trace initial_world @ [Run (RmRf (str ''/workspace/'' @ interpolate (repoName recruiter_config)))])
      (GitClone (interpolate (branchName recruiter_config)) (interpolate (repoUrl recruiter_config))
         (str ''/workspace/'' @ interpolate (repoName recruiter_config))) = Exit 128"
    by (simp add: host_clone_fails_def)
  have nz: "(128::nat) \<noteq> 0" by simp
  note T = clone_failure_terminates[OF lookup_recruiter recruiter_fields(7) rm cl nz,
      unfolded recruiter_fields lookup_recruiter_fields]
  from T[THEN conjunct1] T[THEN conjunct2, THEN conjunct1] show ?thesis by (rule conjI)
qed

section \<open>What the progress channel carries\<close>

lemma progress_empty:
  "getInstallationProgress catalog h None w =
     (\<lparr>events = [Event (str ''connected'') ConnectedMessage,
                  Event (str ''error'') (ErrorMessage SolutionTypeRequired)], closed = True\<rparr>, w)"
  "getInstallationProgress catalog h (Some []) w =
     (\<lparr>events = [Event (str ''connected'') ConnectedMessage,
                  Event (str ''error'') (ErrorMessage SolutionTypeRequired)], closed = True\<rparr>, w)"
  by (simp_all add: getInstallationProgress_def Let_def)

text \<open>
  Claim C3, as amended. The channel is always closed by the server, and it carries only
  \<^verbatim>\<open>connected\<close> and \<^verbatim>\<open>error\<close> events, the \<^verbatim>\<open>connected\<close> event first: the service writes
  no state-transition event. When the install fails, the \<^verbatim>\<open>connected\<close> event is followed
  by exactly one \<^verbatim>\<open>error\<close> event with the message of the failure; when the install
  completes, nothing follows it.
\<close>

theorem progress_channel_events:
  "closed (fst (getInstallationProgress catalog h query w)) \<and>
   (\<forall>ev \<in> set (events (fst (getInstallationProgress catalog h query w))).
       event_type ev = str ''connected'' \<or> event_type ev = str ''error'') \<and>
   (\<forall>solutionType e. query = Some solutionType \<and> solutionType \<noteq> [] \<and>
       fst (installWithProgress catalog h solutionType w) = Inl e \<longrightarrow>
       events (fst (getInstallationProgress catalog h query w))
         = [Event (str ''connected'') ConnectedMessage, Event (str ''error'') (ErrorMessage e)]) \<and>
   (\<forall>solutionType result. query = Some solutionType \<and> solutionType \<noteq> [] \<and>
       fst (installWithProgress catalog h solutionType w) = Inr result \<longrightarrow>
       events (fst (getInstallationProgress catalog h query w))
         = [Event (str ''connected'') ConnectedMessage])"
proof (cases "query = None \<or> query = Some []")
  case True
  then show ?thesis using progress_empty[of catalog h w] by auto
next
  case False
  then obtain solutionType where q: "query = Some solutionType" "solutionType \<noteq> []" by auto
  obtain r w' where run: "installWithProgress catalog h solutionType w = (r, w')"
    by (cases "installWithProgress catalog h solutionType w")
  show ?thesis
    unfolding q(1) progress_result[OF q(2)]
    using run by (cases r) auto
qed

lemma recruiter_clone_failure:
  "fst (installWithProgress SOLUTION_CONFIGS host_clone_fails (str ''ai-recruiter'') initial_world)
     = Inl (CommandFailed (GitClone (str ''main'') (str ''https://github.com/devweam-ai/foloup.git'')
              recruiter_path))"
proof -
  have rm: "outcome host_clone_fails (trace initial_world)
      (RmRf (str ''/workspace/'' @ interpolate (repoName recruiter_config))) = Exit 0"
    by (simp add: host_clone_fails_def)
  have cl: "outcome host_clone_fails
      (trace initial_world @ [Run (RmRf (str ''/workspace/'' @ interpolate (repoName recruiter_config)))])
      (GitClone (interpolate (branchName recruiter_config)) (interpolate (repoUrl recruiter_config))
         (str ''/workspace/'' @ interpolate (repoName recruiter_config))) = Exit 128"
    by (simp add: host_clone_fails_def)
  then have ne: "outcome host_clone_fails
      (trace initial_world @ [Run (RmRf (str ''/workspace/'' @ interpolate (repoName recruiter_config)))])
      (GitClone (interpolate (branchName recruiter_config)) (interpolate (repoUrl recruiter_config))
         (str ''/workspace/'' @ interpolate (repoName recruiter_config))) \<noteq> Exit 0"
    by simp
  show ?thesis
    unfolding installWithProgress_clone_fails[OF lookup_recruiter recruiter_fields(7) rm ne] cl
    by (simp add: recruiter_fields lookup_recruiter_fields)
qed

lemma recruiter_install_completes:
  "fst (installWithProgress SOLUTION_CONFIGS (cooperative_host compose_tree) (str ''ai-recruiter'')
        initial_world) = Inr (Some (str ''4000''), str ''ai-recruiter'')"
proof -
  have cm: "can_merge
       (effect (cooperative_host compose_tree)
          (GitClone (interpolate (branchName recruiter_config)) (interpolate (repoUrl recruiter_config))
             (str ''/workspace/'' @ interpolate (repoName recruiter_config)))
          (effect (cooperative_host compose_tree)
             (RmRf (str ''/workspace/'' @ interpolate (repoName recruiter_config)))
             (files initial_world)))
       (str ''/workspace/.env'')
       (path_join (str ''/workspace/'' @ interpolate (repoName recruiter_config)) (str ''.env''))
       (path_join (str ''/workspace/'' @ interpolate (repoName recruiter_config)) (str ''.env.temp''))"
    unfolding recruiter_fields by (rule can_merge_cloned) simp
  from install_cooperative[OF lookup_recruiter recruiter_fields(7) recruiter_fields(1) _ cm] tree_facts(1)
  show ?thesis by (simp add: recruiter_fields(6))
qed

text \<open>
  The theorem for a failing and for a completing install of \<^verbatim>\<open>ai-recruiter\<close>.
\<close>

theorem progress_channel_events_witness:
  "events (fst (getInstallationProgress SOLUTION_CONFIGS host_clone_fails (Some (str ''ai-recruiter''))
       initial_world))
     = [Event (str ''connected'') ConnectedMessage,
        Event (str ''error'') (ErrorMessage (CommandFailed
          (GitClone (str ''main'') (str ''https://github.com/devweam-ai/foloup.git'') recruiter_path)))] \<and>
   events (fst (getInstallationProgress SOLUTION_CONFIGS (cooperative_host compose_tree)
       (Some (str ''ai-recruiter'')) initial_world))
     = [Event (str ''connected'') ConnectedMessage]"
proof -
  let ?e = "CommandFailed (GitClone (str ''main'') (str ''https://github.com/devweam-ai/foloup.git'')
      recruiter_path)"
  have f: "Some (str ''ai-recruiter'') = Some (str ''ai-recruiter'') \<and> str ''ai-recruiter'' \<noteq> [] \<and>
      fst (installWithProgress SOLUTION_CONFIGS host_clone_fails (str ''ai-recruiter'') initial_world) = Inl ?e"
    using recruiter_clone_failure recruiter_fields(7) by blast
  have s: "Some (str ''ai-recruiter'') = Some (str ''ai-recruiter'') \<and> str ''ai-recruiter'' \<noteq> [] \<and>
      fst (installWithProgress SOLUTION_CONFIGS (cooperative_host compose_tree) (str ''ai-recruiter'')
        initial_world) = Inr (Some (str ''4000''), str ''ai-recruiter'')"
    using recruiter_install_completes recruiter_fields(7) by blast
  note T1 = progress_channel_events[of SOLUTION_CONFIGS host_clone_fails "Some (str ''ai-recruiter'')"
      initial_world]
  note T2 = progress_channel_events[of SOLUTION_CONFIGS "cooperative_host compose_tree"
      "Some (str ''ai-recruiter'')" initial_world]
  from T1[THEN conjunct2, THEN conjunct2, THEN conjunct1, THEN spec, THEN spec, THEN mp, OF f]
       T2[THEN conjunct2, THEN conjunct2, THEN conjunct2, THEN spec, THEN spec, THEN mp, OF s]
  show ?thesis by (rule conjI)
qed

text \<open>
  Claim C3 as stated fails on a completed install: the service returns its result, the
  channel holds the \<^verbatim>\<open>connected\<close> event alone, with no \<^verbatim>\<open>succeeded\<close> event, and is closed.
\<close>

theorem completed_install_has_no_final_event:
  "fst (installWithProgress SOLUTION_CONFIGS (cooperative_host compose_tree) (str ''ai-recruiter'')
        initial_world) = Inr (Some (str ''4000''), str ''ai-recruiter'') \<and>
   fst (getInstallationProgress SOLUTION_CONFIGS (cooperative_host compose_tree)
       (Some (str ''ai-recruiter'')) initial_world)
     = \<lparr>events = [Event (str ''connected'') ConnectedMessage], closed = True\<rparr>"
proof -
  have s: "fst (installWithProgress SOLUTION_CONFIGS (cooperative_host compose_tree) (str ''ai-recruiter'')
        initial_world) = Inr (Some (str ''4000''), str ''ai-recruiter'')"
    by (rule recruiter_install_completes)
  obtain r w' where run: "installWithProgress SOLUTION_CONFIGS (cooperative_host compose_tree)
      (str ''ai-recruiter'') initial_world = (r, w')"
    by (cases "installWithProgress SOLUTION_CONFIGS (cooperative_host compose_tree)
      (str ''ai-recruiter'') initial_world")
  with s have r: "r = Inr (Some (str ''4000''), str ''ai-recruiter'')" by simp
  show ?thesis
    unfolding progress_result[OF recruiter_fields(7)] run r by simp
qed

section \<open>Unknown solution identifiers\<close>

text \<open>
  A request without an identifier, and one whose identifier is neither a key of the
  catalog nor a property name of \<^verbatim>\<open>Object.prototype\<close>, gets the \<^verbatim>\<open>connected\<close> event and
  one \<^verbatim>\<open>error\<close> event on a closed channel, and leaves the world as it was.
\<close>

lemma unknown_solution_no_effects:
  assumes "query = None \<or> query = Some [] \<or>
     (\<exists>solutionType. query = Some solutionType \<and> map_of catalog solutionType = None \<and>
        solutionType \<notin> set object_prototype_keys)"
  shows "snd (getInstallationProgress catalog h query w) = w \<and>
     closed (fst (getInstallationProgress catalog h query w)) \<and>
     (\<exists>e. events (fst (getInstallationProgress catalog h query w))
        = [Event (str ''connected'') ConnectedMessage, Event (str ''error'') (ErrorMessage e)])"
  using assms
  by (auto simp: getInstallationProgress_def Let_def installWithProgress_def lookup_config_def throw_def)

lemma lookup_constructor:
  "map_of SOLUTION_CONFIGS (str ''constructor'') = None"
  "lookup_config SOLUTION_CONFIGS (str ''constructor'') = Some inherited_config"
  by (simp_all add: lookup_config_def SOLUTION_CONFIGS_def object_prototype_keys_def str_def)

lemma inherited_fields:
  "str ''/workspace/'' @ interpolate (repoName inherited_config) = str ''/workspace/undefined''"
  "interpolate (branchName inherited_config) = str ''undefined''"
  "interpolate (repoUrl inherited_config) = str ''undefined''"
  "str ''constructor'' \<noteq> []"
  by (simp_all add: inherited_config_def str_def)

text \<open>
  Claim C4. The identifier \<^verbatim>\<open>constructor\<close> is not a key of the catalog, yet the lookup
  \<^verbatim>\<open>SOLUTION_CONFIGS[solutionType]\<close> finds the inherited property and the attempt goes
  on: it runs \<^verbatim>\<open>rm -rf /workspace/undefined\<close> and \<^verbatim>\<open>git clone -b undefined undefined
  /workspace/undefined\<close> before the failure of the clone ends it with the \<^verbatim>\<open>error\<close> event.
\<close>

theorem inherited_name_runs_commands:
  "map_of SOLUTION_CONFIGS (str ''constructor'') = None \<and>
   events (fst (getInstallationProgress SOLUTION_CONFIGS host_clone_fails (Some (str ''constructor''))
       initial_world))
     = [Event (str ''connected'') ConnectedMessage,
        Event (str ''error'') (ErrorMessage (CommandFailed
          (GitClone (str ''undefined'') (str ''undefined'') (str ''/workspace/undefined''))))] \<and>
   trace (snd (getInstallationProgress SOLUTION_CONFIGS host_clone_fails (Some (str ''constructor''))
       initial_world))
     = [Run (RmRf (str ''/workspace/undefined'')),
        Run (GitClone (str ''undefined'') (str ''undefined'') (str ''/workspace/undefined''))]"
proof -
  have rm: "outcome host_clone_fails (trace initial_world)
      (RmRf (str ''/workspace/'' @ interpolate (repoName inherited_config))) = Exit 0"
    by (simp add: host_clone_fails_def)
  have cl: "outcome host_clone_fails
      (trace initial_world @ [Run (RmRf (str ''/workspace/'' @ interpolate (repoName inherited_config)))])
      (GitClone (interpolate (branchName inherited_config)) (interpolate (repoUrl inherited_config))
         (str ''/workspace/'' @ interpolate (repoName inherited_config))) = Exit 128"
    by (simp add: host_clone_fails_def)
  then have ne: "outcome host_clone_fails
      (trace initial_world @ [Run (RmRf (str ''/workspace/'' @ interpolate (repoName inherited_config)))])
      (GitClone (interpolate (branchName inherited_config)) (interpolate (repoUrl inherited_config))
         (str ''/workspace/'' @ interpolate (repoName inherited_config))) \<noteq> Exit 0"
    by simp
  have t0: "trace initial_world = []" by (simp add: initial_world_def)
  show ?thesis
    unfolding progress_result[OF inherited_fields(4)]
      installWithProgress_clone_fails[OF lookup_constructor(2) inherited_fields(4) rm ne] cl
    by (simp add: inherited_fields lookup_constructor t0 del: effect.simps)
qed

section \<open>A composed install without the composition tool\<close>

lemma without_compose_outcome [simp]:
  "outcome (host_without_compose tree) t c = no_compose_outcome t c"
  "repository (host_without_compose tree) u b = tree"
  by (simp_all add: host_without_compose_def)

text \<open>
  An attempt for a catalog entry that declares \<^verbatim>\<open>docker-compose\<close> and has no additional
  ports, on the host without the composition tool, where the cloned repository has a
  compose descriptor: the two probes fail, the installation of the tool is attempted and
  its failure swallowed, the merged file is copied, and \<^verbatim>\<open>docker-compose up\<close> fails the
  attempt. Nothing is run after it.
\<close>

lemma composed_attempt_without_tool:
  fixes tree :: files and config :: solution_config
  defines "h \<equiv> host_without_compose tree"
    and "p \<equiv> str ''/workspace/'' @ interpolate (repoName config)"
  defines "rm \<equiv> RmRf p"
    and "cl \<equiv> GitClone (interpolate (branchName config)) (interpolate (repoUrl config)) p"
    and "fd \<equiv> FindCopyEnv p (template_name config)"
  assumes cfg: "lookup_config catalog solutionType = Some config" "solutionType \<noteq> []"
    and it: "installType config = Some (str ''docker-compose'')"
    and ports: "additionalPorts config = Some []"
    and tree: "\<exists>f \<in> set composeFiles. f \<in> fst ` set tree"
    and cm: "can_merge (effect h cl (effect h rm (files w))) (str ''/workspace/.env'')
               (path_join p (str ''.env'')) (path_join p (str ''.env.temp''))"
  shows "fst (installWithProgress catalog h solutionType w) = Inl (CommandFailed (ComposeUp p)) \<and>
     new_actions w (snd (installWithProgress catalog h solutionType w))
       = [Run rm, Run cl, Run (DockerRmForce (interpolate (containerName config))), Run fd,
          Merge (str ''/workspace/.env'') (path_join p (str ''.env'')) (path_join p (str ''.env.temp'')),
          Run ComposeVersion, Run ComposePluginVersion, Run InstallComposeTool,
          Run (Cp (path_join p (str ''.env.temp'')) (path_join p (str ''.env''))),
          Run (ComposeUp p)]"
proof -
  let ?root = "str ''/workspace/.env''"
  let ?local = "path_join p (str ''.env'')"
  let ?temp = "path_join p (str ''.env.temp'')"
  let ?F2 = "effect h cl (effect h rm (files w))"
  let ?F3 = "effect h fd ?F2"
  have dn: "str ''docker'' \<noteq> str ''docker-compose''" by (simp add: str_def)
  have f3: "?F3 = find_copy_env p (template_name config) ?F2" by (simp add: fd_def)
  have "can_merge ?F3 ?root ?local ?temp" unfolding f3 using cm by (simp add: can_merge_find)
  then obtain m where m: "fst (mergeEnvironmentFiles ?F3 ?root ?local ?temp) = Inr m"
    using can_merge_iff by blast
  have "hasDockerCompose (detectRepoStructure ?F2 p)"
    using tree unfolding cl_def rm_def h_def
    by (simp add: detect_after_clone find_compose_iff del: effect.simps)
  then have dc: "hasDockerCompose (detectRepoStructure (merged_files ?F3 ?root ?local ?temp) p)"
    unfolding f3 by (simp add: detect_after_prepare)
  have o: "outcome h t rm = Exit 0" "outcome h t cl = Exit 0" "outcome h t fd = Exit 0"
    "outcome h t (DockerRmForce n) = Exit 0" "outcome h t (Cp a b) = Exit 0"
    "outcome h t ComposeVersion = Exit 127" "outcome h t ComposePluginVersion = Exit 1"
    "outcome h t InstallComposeTool = Exit 8" "outcome h t (ComposeUp q) = Exit 127" for t n a b q
    by (simp_all add: h_def rm_def cl_def fd_def)
  have run: "installWithProgress catalog h solutionType w =
     (Inl (CommandFailed (ComposeUp p)),
      \<lparr>files = copy_file (merged_files ?F3 ?root ?local ?temp) ?temp ?local,
       trace = trace w @ [Run rm, Run cl, Run (DockerRmForce (interpolate (containerName config))), Run fd,
          Merge ?root ?local ?temp, Run ComposeVersion, Run ComposePluginVersion, Run InstallComposeTool,
          Run (Cp ?temp ?local), Run (ComposeUp p)]\<rparr>)"
    using cfg it dn ports m dc
    by (simp add: installWithProgress_def Let_def exec_simps cleanupExistingContainers_def
        installDockerComposeService_def first_command_template isDockerComposeAvailable_def
        installDockerCompose_def o p_def[symmetric] rm_def[symmetric] cl_def[symmetric]
        fd_def[symmetric])
  show ?thesis unfolding run by (simp add: new_actions_def)
qed
text \<open>
  The same attempt where the cloned repository has a Dockerfile and no compose
  descriptor: the composition tool is not consulted, and the attempt completes on the
  single-container path.
\<close>

lemma single_attempt_without_tool:
  fixes tree :: files and config :: solution_config
  defines "h \<equiv> host_without_compose tree"
    and "p \<equiv> str ''/workspace/'' @ interpolate (repoName config)"
  defines "rm \<equiv> RmRf p"
    and "cl \<equiv> GitClone (interpolate (branchName config)) (interpolate (repoUrl config)) p"
    and "fd \<equiv> FindCopyEnv p (interpolate (envFile config))"
  assumes cfg: "lookup_config catalog solutionType = Some config" "solutionType \<noteq> []"
    and it: "installType config = Some (str ''docker-compose'')"
    and ports: "additionalPorts config = Some []"
    and env: "truthy (envFile config)"
    and tree: "\<forall>f \<in> set composeFiles. f \<notin> fst ` set tree" "str ''Dockerfile'' \<in> fst ` set tree"
    and cm: "can_merge (effect h cl (effect h rm (files w))) (str ''/workspace/.env'')
               (path_join p (str ''.env'')) (path_join p (str ''.env.temp''))"
  shows "fst (installWithProgress catalog h solutionType w) = Inr (port config, solutionType) \<and>
     new_actions w (snd (installWithProgress catalog h solutionType w))
       = [Run rm, Run cl, Run (DockerRmForce (interpolate (containerName config))), Run fd,
          Merge (str ''/workspace/.env'') (path_join p (str ''.env'')) (path_join p (str ''.env.temp'')),
          Run fd,
          Merge (str ''/workspace/.env'') (path_join p (str ''.env'')) (path_join p (str ''.env.temp'')),
          Run (Cp (path_join p (str ''.env.temp'')) (path_join p (str ''.env''))),
          Run (DockerBuild (interpolate (imageName config)) p),
          Run (DockerRun (interpolate (containerName config)) (str ''weam_app-network'')
                 (interpolate (port config)) (interpolate (imageName config))),
          Run fd, Run (RmForce (path_join p (str ''.env.temp'')))]"
proof -
  let ?root = "str ''/workspace/.env''"
  let ?local = "path_join p (str ''.env'')"
  let ?temp = "path_join p (str ''.env.temp'')"
  let ?F2 = "effect h cl (effect h rm (files w))"
  let ?F3 = "effect h fd ?F2"
  let ?F4 = "merged_files ?F3 ?root ?local ?temp"
  let ?F5 = "effect h fd ?F4"
  have dn: "str ''docker'' \<noteq> str ''docker-compose''" by (simp add: str_def)
  have tn: "template_name config = interpolate (envFile config)" using env by (simp add: template_name_def)
  have f3: "?F3 = find_copy_env p (interpolate (envFile config)) ?F2" by (simp add: fd_def)
  have f5: "?F5 = find_copy_env p (interpolate (envFile config)) ?F4" by (simp add: fd_def)
  have c3: "can_merge ?F3 ?root ?local ?temp" unfolding f3 using cm by (simp add: can_merge_find)
  then obtain m where m: "fst (mergeEnvironmentFiles ?F3 ?root ?local ?temp) = Inr m"
    using can_merge_iff by blast
  have "can_merge ?F5 ?root ?local ?temp"
    unfolding f5 using can_merge_merged[OF c3] by (simp add: can_merge_find)
  then obtain m' where m': "fst (mergeEnvironmentFiles ?F5 ?root ?local ?temp) = Inr m'"
    using can_merge_iff by blast
  have "\<not> hasDockerCompose (detectRepoStructure ?F2 p) \<and> hasDockerfile (detectRepoStructure ?F2 p)"
    using tree unfolding cl_def rm_def h_def
    by (simp add: detect_after_clone find_compose_iff del: effect.simps)
  then have dc: "\<not> hasDockerCompose (detectRepoStructure ?F4 p)" "hasDockerfile (detectRepoStructure ?F4 p)"
    unfolding f3 by (simp_all add: detect_after_prepare)
  have o: "outcome h t rm = Exit 0" "outcome h t cl = Exit 0" "outcome h t fd = Exit 0"
    "outcome h t (DockerRmForce n) = Exit 0" "outcome h t (Cp a b) = Exit 0"
    "outcome h t (DockerBuild i q) = Exit 0" "outcome h t (DockerRun c nw pt i) = Exit 0"
    "outcome h t (RmForce q) = Exit 0" for t n a b q i c nw pt
    by (simp_all add: h_def rm_def cl_def fd_def)
  have run: "\<exists>fs'. installWithProgress catalog h solutionType w =
     (Inr (port config, solutionType),
      \<lparr>files = fs',
       trace = trace w @ [Run rm, Run cl, Run (DockerRmForce (interpolate (containerName config))), Run fd,
          Merge ?root ?local ?temp, Run fd, Merge ?root ?local ?temp, Run (Cp ?temp ?local),
          Run (DockerBuild (interpolate (imageName config)) p),
          Run (DockerRun (interpolate (containerName config)) (str ''weam_app-network'')
                 (interpolate (port config)) (interpolate (imageName config))),
          Run fd, Run (RmForce ?temp)]\<rparr>)"
    using cfg it dn ports env m m' dc
    by (simp add: installWithProgress_def Let_def exec_simps cleanupExistingContainers_def
        installDockerComposeService_def installDockerService_def tn o p_def[symmetric]
        rm_def[symmetric] cl_def[symmetric] fd_def[symmetric])
  then show ?thesis by (auto simp: new_actions_def)
qed

lemma lookup_recruiter_ports: "additionalPorts recruiter_config = Some []"
  "truthy (envFile recruiter_config)"
  "template_name recruiter_config = str ''.env.example''"
  "interpolate (envFile recruiter_config) = str ''.env.example''"
  by (simp_all add: recruiter_config_def template_name_def str_def)

text \<open>
  Claim C2. The repository of \<^verbatim>\<open>ai-recruiter\<close> has a compose descriptor and a Dockerfile,
  and the host has no composition tool and cannot install it. The attempt probes for the
  tool, tries to install it, goes on to \<^verbatim>\<open>docker-compose up\<close> and ends with the failure
  of that command, which the channel reports: it runs no \<^verbatim>\<open>docker build\<close> and no
  \<^verbatim>\<open>docker run\<close>, where the claim has it fall back to the single-container path and
  succeed. With a Dockerfile and no compose descriptor, the attempt on the same host
  completes on the single-container path.
\<close>

theorem tool_failure_without_fallback:
  "map_of compose_tree (str ''Dockerfile'') = Some (File (str ''FROM node'')) \<and>
   fst (installWithProgress SOLUTION_CONFIGS (host_without_compose compose_tree) (str ''ai-recruiter'')
          initial_world) = Inl (CommandFailed (ComposeUp (str ''/workspace/foloup''))) \<and>
   new_actions initial_world
       (snd (installWithProgress SOLUTION_CONFIGS (host_without_compose compose_tree)
               (str ''ai-recruiter'') initial_world))
     = [Run (RmRf (str ''/workspace/foloup'')),
        Run (GitClone (str ''main'') (str ''https://github.com/devweam-ai/foloup.git'')
               (str ''/workspace/foloup'')),
        Run (DockerRmForce (str ''foloup-container'')),
        Run (FindCopyEnv (str ''/workspace/foloup'') (str ''.env.example'')),
        Merge (str ''/workspace/.env'') (str ''/workspace/foloup/.env'') (str ''/workspace/foloup/.env.temp''),
        Run ComposeVersion, Run ComposePluginVersion, Run InstallComposeTool,
        Run (Cp (str ''/workspace/foloup/.env.temp'') (str ''/workspace/foloup/.env'')),
        Run (ComposeUp (str ''/workspace/foloup''))] \<and>
   events (fst (getInstallationProgress SOLUTION_CONFIGS (host_without_compose compose_tree)
       (Some (str ''ai-recruiter'')) initial_world))
     = [Event (str ''connected'') ConnectedMessage,
        Event (str ''error'') (ErrorMessage (CommandFailed (ComposeUp (str ''/workspace/foloup''))))] \<and>
   fst (installWithProgress SOLUTION_CONFIGS (host_without_compose dockerfile_tree) (str ''ai-recruiter'')
          initial_world) = Inr (Some (str ''4000''), str ''ai-recruiter'') \<and>
   new_actions initial_world
       (snd (installWithProgress SOLUTION_CONFIGS (host_without_compose dockerfile_tree)
               (str ''ai-recruiter'') initial_world))
     = [Run (RmRf (str ''/workspace/foloup'')),
        Run (GitClone (str ''main'') (str ''https://github.com/devweam-ai/foloup.git'')
               (str ''/workspace/foloup'')),
        Run (DockerRmForce (str ''foloup-container'')),
        Run (FindCopyEnv (str ''/workspace/foloup'') (str ''.env.example'')),
        Merge (str ''/workspace/.env'') (str ''/workspace/foloup/.env'') (str ''/workspace/foloup/.env.temp''),
        Run (FindCopyEnv (str ''/workspace/foloup'') (str ''.env.example'')),
        Merge (str ''/workspace/.env'') (str ''/workspace/foloup/.env'') (str ''/workspace/foloup/.env.temp''),
        Run (Cp (str ''/workspace/foloup/.env.temp'') (str ''/workspace/foloup/.env'')),
        Run (DockerBuild (str ''foloup-img'') (str ''/workspace/foloup'')),
        Run (DockerRun (str ''foloup-container'') (str ''weam_app-network'') (str ''4000'')
               (str ''foloup-img'')),
        Run (FindCopyEnv (str ''/workspace/foloup'') (str ''.env.example'')),
        Run (RmForce (str ''/workspace/foloup/.env.temp''))]"
proof -
  let ?st = "str ''ai-recruiter''"
  let ?hc = "host_without_compose compose_tree"
  let ?hd = "host_without_compose dockerfile_tree"
  have cm: "can_merge
       (effect (host_without_compose tree)
          (GitClone (interpolate (branchName recruiter_config)) (interpolate (repoUrl recruiter_config))
             (str ''/workspace/'' @ interpolate (repoName recruiter_config)))
          (effect (host_without_compose tree)
             (RmRf (str ''/workspace/'' @ interpolate (repoName recruiter_config)))
             (files initial_world)))
       (str ''/workspace/.env'')
       (path_join (str ''/workspace/'' @ interpolate (repoName recruiter_config)) (str ''.env''))
       (path_join (str ''/workspace/'' @ interpolate (repoName recruiter_config)) (str ''.env.temp''))"
    if "tree = compose_tree \<or> tree = dockerfile_tree" for tree
    unfolding recruiter_fields by (rule can_merge_cloned) (use that in auto)
  note A = composed_attempt_without_tool[OF lookup_recruiter recruiter_fields(7) recruiter_fields(1)
      lookup_recruiter_ports(1) tree_facts(1) cm[of compose_tree],
      unfolded recruiter_fields lookup_recruiter_fields lookup_recruiter_ports recruiter_paths]
  note B = single_attempt_without_tool[OF lookup_recruiter recruiter_fields(7) recruiter_fields(1)
      lookup_recruiter_ports(1,2) tree_facts(2,3) cm[of dockerfile_tree],
      unfolded recruiter_fields lookup_recruiter_fields lookup_recruiter_ports recruiter_paths]
  have p: "recruiter_path = str ''/workspace/foloup''" by (simp only: recruiter_path_def)
  have d: "map_of compose_tree (str ''Dockerfile'') = Some (File (str ''FROM node''))"
    by (simp add: compose_tree_def str_def)
  obtain r w' where run: "installWithProgress SOLUTION_CONFIGS ?hc ?st initial_world = (r, w')"
    by (cases "installWithProgress SOLUTION_CONFIGS ?hc ?st initial_world")
  with A have r: "r = Inl (CommandFailed (ComposeUp recruiter_path))" by simp
  have ev: "events (fst (getInstallationProgress SOLUTION_CONFIGS ?hc (Some ?st) initial_world))
     = [Event (str ''connected'') ConnectedMessage,
        Event (str ''error'') (ErrorMessage (CommandFailed (ComposeUp recruiter_path)))]"
    unfolding progress_result[OF recruiter_fields(7)] run r by simp
  show ?thesis
    using A B d ev unfolding p by simp
qed
section \<open>The health probe\<close>

lemma split_on_nonempty: "split_on sep s \<noteq> []"
  by (induction s) (auto split: list.splits)

lemma container_matches_fields:
  "container_matches solutionType line =
     (if name_matches solutionType (line_name line)
      then (case line_status line of
              None \<Rightarrow> Inl TypeError
            | Some status \<Rightarrow> Inr (str_includes status (str ''Up'')))
      else Inr False)"
proof (cases "split_on 0x20 line")
  case Nil
  then show ?thesis using split_on_nonempty[of "0x20" line] by simp
next
  case (Cons name rest)
  then show ?thesis
    by (cases rest)
       (simp_all add: container_matches_def line_name_def line_status_def name_matches_def)
qed

lemma find_container_running:
  assumes "\<forall>l \<in> set ls. line_status l \<noteq> None"
    and "\<exists>l \<in> set ls. \<exists>s. name_matches solutionType (line_name l) \<and> line_status l = Some s \<and>
           str_includes s (str ''Up'')"
  shows "\<exists>l. find_container solutionType ls = Inr (Some l)"
  using assms
proof (induction ls)
  case Nil
  then show ?case by simp
next
  case (Cons l ls)
  from Cons.prems(1) obtain s where s: "line_status l = Some s" by auto
  show ?case
  proof (cases "name_matches solutionType (line_name l) \<and> str_includes s (str ''Up'')")
    case True
    then show ?thesis using s by (simp add: container_matches_fields)
  next
    case False
    then have "\<exists>l \<in> set ls. \<exists>s. name_matches solutionType (line_name l) \<and> line_status l = Some s \<and>
           str_includes s (str ''Up'')"
      using Cons.prems(2) s by auto
    with Cons.IH Cons.prems(1) obtain l' where "find_container solutionType ls = Inr (Some l')" by auto
    then show ?thesis using False s by (auto simp: container_matches_fields)
  qed
qed

lemma lines_foloup:
  "container_lines (str ''foloup-container Up 2 hours'') = [str ''foloup-container Up 2 hours'']"
  by (simp add: container_lines_def trim_def is_ws_def str_def)

lemma fields_foloup:
  "line_name (str ''foloup-container Up 2 hours'') = str ''foloup-container''"
  "line_status (str ''foloup-container Up 2 hours'') = Some (str ''Up'')"
  by (simp_all add: line_name_def line_status_def str_def)

lemma includes_foloup:
  "str_includes (str ''foloup-container'') (str ''foloup'')"
  "str_includes (str ''Up'') (str ''Up'')"
  by (simp_all add: str_def)

lemma health_foloup:
  assumes "solutionType \<noteq> []"
  shows "checkInstallationHealth (Some solutionType) [] False (str ''foloup-container Up 2 hours'')
         = Running (str ''foloup-container Up 2 hours'')"
  using assms
  by (simp add: checkInstallationHealth_def lines_foloup container_matches_fields fields_foloup
      name_matches_def includes_foloup trim_Nil)

text \<open>
  Claim C10, as amended. For a non-empty identifier, when the process listing shows no
  \<^verbatim>\<open>docker-compose\<close> or \<^verbatim>\<open>docker build\<close> process and the container listing succeeds, with
  a name and a status on each of its lines, the probe reports \<^verbatim>\<open>running\<close> whenever some
  line has a name that contains the identifier or one of \<^verbatim>\<open>foloup\<close>, \<^verbatim>\<open>ai-doc\<close>,
  \<^verbatim>\<open>landing-page\<close>, and a status that contains \<^verbatim>\<open>Up\<close>. The three substrings match for every
  identifier: a query for \<^verbatim>\<open>seo-content-gen\<close> reports \<^verbatim>\<open>running\<close> when the only
  container up is \<^verbatim>\<open>foloup-container\<close>.
\<close>

theorem health_running_by_alias:
  "(solutionType \<noteq> [] \<and> trim psStdout = [] \<and> \<not> dockerError \<and>
    (\<forall>l \<in> set (container_lines dockerStdout). line_status l \<noteq> None) \<and>
    (\<exists>l \<in> set (container_lines dockerStdout). \<exists>s.
        (str_includes (line_name l) solutionType \<or> str_includes (line_name l) (str ''foloup'') \<or>
         str_includes (line_name l) (str ''ai-doc'') \<or> str_includes (line_name l) (str ''landing-page'')) \<and>
        line_status l = Some s \<and> str_includes s (str ''Up''))
    \<longrightarrow> (\<exists>l. checkInstallationHealth (Some solutionType) psStdout dockerError dockerStdout = Running l))
   \<and> checkInstallationHealth (Some (str ''seo-content-gen'')) [] False (str ''foloup-container Up 2 hours'')
       = Running (str ''foloup-container Up 2 hours'')"
proof (intro conjI impI)
  assume a: "solutionType \<noteq> [] \<and> trim psStdout = [] \<and> \<not> dockerError \<and>
    (\<forall>l \<in> set (container_lines dockerStdout). line_status l \<noteq> None) \<and>
    (\<exists>l \<in> set (container_lines dockerStdout). \<exists>s.
        (str_includes (line_name l) solutionType \<or> str_includes (line_name l) (str ''foloup'') \<or>
         str_includes (line_name l) (str ''ai-doc'') \<or> str_includes (line_name l) (str ''landing-page'')) \<and>
        line_status l = Some s \<and> str_includes s (str ''Up''))"
  then have "\<exists>l. find_container solutionType (container_lines dockerStdout) = Inr (Some l)"
    by (intro find_container_running) (auto simp: name_matches_def)
  then show "\<exists>l. checkInstallationHealth (Some solutionType) psStdout dockerError dockerStdout = Running l"
    using a by (auto simp: checkInstallationHealth_def)
next
  show "checkInstallationHealth (Some (str ''seo-content-gen'')) [] False (str ''foloup-container Up 2 hours'')
       = Running (str ''foloup-container Up 2 hours'')"
    by (rule health_foloup) (simp add: str_def)
qed

text \<open>The theorem for a query for \<^verbatim>\<open>ai-recruiter\<close> while \<^verbatim>\<open>foloup-container\<close> is up.\<close>

theorem health_running_by_alias_witness:
  "\<exists>l. checkInstallationHealth (Some (str ''ai-recruiter'')) [] False (str ''foloup-container Up 2 hours'')
        = Running l"
proof -
  have h: "str ''ai-recruiter'' \<noteq> [] \<and> trim [] = [] \<and> \<not> False \<and>
    (\<forall>l \<in> set (container_lines (str ''foloup-container Up 2 hours'')). line_status l \<noteq> None) \<and>
    (\<exists>l \<in> set (container_lines (str ''foloup-container Up 2 hours'')). \<exists>s.
        (str_includes (line_name l) (str ''ai-recruiter'') \<or> str_includes (line_name l) (str ''foloup'') \<or>
         str_includes (line_name l) (str ''ai-doc'') \<or> str_includes (line_name l) (str ''landing-page'')) \<and>
        line_status l = Some s \<and> str_includes s (str ''Up''))"
    unfolding lines_foloup using recruiter_fields(7) includes_foloup fields_foloup trim_Nil by simp
  from health_running_by_alias[of "str ''ai-recruiter''" "[]" False "str ''foloup-container Up 2 hours''",
      THEN conjunct1, THEN mp, OF h]
  show ?thesis .
qed

text \<open>
  Claim C10 as stated fails while an installation is in progress: a container whose name
  contains \<^verbatim>\<open>foloup\<close> is up, and the probe reports \<^verbatim>\<open>installing\<close>, because the process
  listing shows a \<^verbatim>\<open>docker build\<close>.
\<close>

theorem health_installing_first:
  "checkInstallationHealth (Some (str ''ai-recruiter'')) (str ''root 4242 docker build -t seo-content-gen-img'')
     False (str ''foloup-container Up 2 hours'') = Installing"
  by (simp add: checkInstallationHealth_def trim_def is_ws_def str_def)

end
